theory Spec2Isabelle
  imports Complex_Main "HOL-Library.Char_ord" "HOL-Library.List_Lexorder"
    "HOL-Library.Product_Lexorder" "HOL-Library.AList" "HOL-Library.Option_ord"
begin

section \<open>Strings and the structural code patterns\<close>

text \<open>
  A Python \<open>str\<close> is modelled as the list of its code points, for code points below 256
  (a \<^typ>\<open>char\<close> is one code point, ordered by its number as Python orders strings).
  In that range \<open>\d\<close> matches the ten ASCII digits only, and \<open>str.strip\<close> removes the
  characters \<open>str.isspace\<close> accepts: 9 to 13, 28 to 32, 133 and 160.
\<close>

definition py_isspace :: "char \<Rightarrow> bool" where
  "py_isspace c = (let n = (of_char c :: nat) in
     (9 \<le> n \<and> n \<le> 13) \<or> (28 \<le> n \<and> n \<le> 32) \<or> n = 133 \<or> n = 160)"

definition py_strip :: "string \<Rightarrow> string" where
  "py_strip s = rev (dropWhile py_isspace (rev (dropWhile py_isspace s)))"

definition py_lower_char :: "char \<Rightarrow> char" where
  "py_lower_char c = (let n = (of_char c :: nat) in
     if (65 \<le> n \<and> n \<le> 90) \<or> (192 \<le> n \<and> n \<le> 222 \<and> n \<noteq> 215)
     then char_of (n + 32) else c)"

definition py_lower :: "string \<Rightarrow> string" where
  "py_lower s = map py_lower_char s"

text \<open>
  \<open>_clean_str\<close> of \<open>zpdes_dependencies.py\<close>, on a value that is a string or null
  (\<open>None\<close> for null, and for a key that is absent): empty for null, for blank text and for any spelling of \<open>nan\<close>.
\<close>

definition clean_str :: "string option \<Rightarrow> string" where
  "clean_str value = (case value of
       None \<Rightarrow> []
     | Some v \<Rightarrow> (let text = py_strip v in
         if text = [] \<or> py_lower text = ''nan'' then [] else text))"

definition is_digit :: "char \<Rightarrow> bool" where
  "is_digit c = (let n = (of_char c :: nat) in 48 \<le> n \<and> n \<le> 57)"

text \<open>
  \<open>eat_digits s\<close> consumes \<open>\d+\<close> at the front of \<open>s\<close>: the digits and the rest, or
  \<open>None\<close> when \<open>s\<close> does not start with a digit. The patterns below put a letter or the
  end of the text after every \<open>\d+\<close>, so the greedy match is the only one.
\<close>

definition eat_digits :: "string \<Rightarrow> (string \<times> string) option" where
  "eat_digits s = (case takeWhile is_digit s of
       [] \<Rightarrow> None
     | ds \<Rightarrow> Some (ds, dropWhile is_digit s))"

definition eat_char :: "char \<Rightarrow> string \<Rightarrow> string option" where
  "eat_char c s = (case s of [] \<Rightarrow> None | x # r \<Rightarrow> if x = c then Some r else None)"

text \<open>Python's \<open>$\<close>: the end of the text, or just before a newline that ends it.\<close>

definition at_dollar :: "string \<Rightarrow> bool" where
  "at_dollar s = (s = [] \<or> s = [CHR 0x0A])"

text \<open>The prefix \<open>M\d+\<close>: the matched text and the rest.\<close>

definition eat_module :: "string \<Rightarrow> (string \<times> string) option" where
  "eat_module s = (case eat_char CHR ''M'' s of
       None \<Rightarrow> None
     | Some r \<Rightarrow> (case eat_digits r of
           None \<Rightarrow> None
         | Some (ds, r') \<Rightarrow> Some (CHR ''M'' # ds, r')))"

text \<open>The prefix \<open>M\d+O\d+\<close>.\<close>

definition eat_objective :: "string \<Rightarrow> (string \<times> string) option" where
  "eat_objective s = (case eat_module s of
       None \<Rightarrow> None
     | Some (m, r) \<Rightarrow> (case eat_char CHR ''O'' r of
           None \<Rightarrow> None
         | Some r' \<Rightarrow> (case eat_digits r' of
               None \<Rightarrow> None
             | Some (ds, r'') \<Rightarrow> Some (m @ CHR ''O'' # ds, r''))))"

text \<open>\<open>MODULE_CODE_RE = ^M\d+$\<close>, as \<open>.match\<close> uses it.\<close>

definition MODULE_CODE_RE :: "string \<Rightarrow> bool" where
  "MODULE_CODE_RE s = (case eat_module s of None \<Rightarrow> False | Some (m, r) \<Rightarrow> at_dollar r)"

text \<open>\<open>OBJECTIVE_CODE_RE = ^(M\d+O\d+)$\<close>: group 1 when the text matches.\<close>

definition OBJECTIVE_CODE_RE :: "string \<Rightarrow> string option" where
  "OBJECTIVE_CODE_RE s = (case eat_objective s of
       None \<Rightarrow> None
     | Some (ob, r) \<Rightarrow> if at_dollar r then Some ob else None)"

text \<open>\<open>ACTIVITY_CODE_RE = ^(M\d+O\d+)A(\d+)$\<close>: groups 1 and 2 when the text matches.\<close>

definition ACTIVITY_CODE_RE :: "string \<Rightarrow> (string \<times> string) option" where
  "ACTIVITY_CODE_RE s = (case eat_objective s of
       None \<Rightarrow> None
     | Some (ob, r) \<Rightarrow> (case eat_char CHR ''A'' r of
           None \<Rightarrow> None
         | Some r' \<Rightarrow> (case eat_digits r' of
               None \<Rightarrow> None
             | Some (ds, r'') \<Rightarrow> if at_dollar r'' then Some (ob, ds) else None)))"

text \<open>\<open>_node_type_from_code_strict\<close>.\<close>

definition node_type_from_code_strict :: "string option \<Rightarrow> string" where
  "node_type_from_code_strict code = (let normalized = clean_str code in
     if ACTIVITY_CODE_RE normalized \<noteq> None then ''activity''
     else if OBJECTIVE_CODE_RE normalized \<noteq> None then ''objective''
     else if MODULE_CODE_RE normalized then ''module''
     else ''unknown'')"

text \<open>Python's \<open>int\<close> on a text of digits, and \<open>str\<close> on a natural number.\<close>

definition int_of_digits :: "string \<Rightarrow> int" where
  "int_of_digits ds = int (foldl (\<lambda>n c. 10 * n + (of_char c - 48)) 0 ds)"

fun str_of_nat :: "nat \<Rightarrow> string" where
  "str_of_nat n = (if n < 10 then [char_of (48 + n)]
     else str_of_nat (n div 10) @ [char_of (48 + n mod 10)])"

declare str_of_nat.simps [simp del]

text \<open>\<open>parse_activity_index\<close>.\<close>

definition parse_activity_index :: "string option \<Rightarrow> int option" where
  "parse_activity_index node_code = (case ACTIVITY_CODE_RE (clean_str node_code) of
       None \<Rightarrow> None
     | Some (ob, ds) \<Rightarrow> Some (int_of_digits ds))"

text \<open>\<open>parse_objective_code\<close>; \<open>node_type\<close> is \<open>None\<close> when the argument is left out.\<close>

definition parse_objective_code :: "string option \<Rightarrow> string option \<Rightarrow> string option" where
  "parse_objective_code node_code node_type = (let code = clean_str node_code in
     if code = [] then None
     else if node_type = Some ''objective'' \<and> OBJECTIVE_CODE_RE code \<noteq> None then Some code
     else (case ACTIVITY_CODE_RE code of
         Some (ob, ds) \<Rightarrow> Some ob
       | None \<Rightarrow> (case OBJECTIVE_CODE_RE code of
             Some ob \<Rightarrow> Some ob
           | None \<Rightarrow> None)))"

section \<open>The preferred code of an identifier\<close>

text \<open>
  The sort key of \<open>_preferred_code_from_list\<close>: the shape class (0 for an activity code,
  then 1, 2, and 3 for a code of no shape), minus the length, and the code itself. Python
  compares the tuples lexicographically, and so does the order on products and strings here.
\<close>

definition shape_rank :: "string \<Rightarrow> nat" where
  "shape_rank code = (if ACTIVITY_CODE_RE code \<noteq> None then 0
     else if OBJECTIVE_CODE_RE code \<noteq> None then 1
     else if MODULE_CODE_RE code then 2 else 3)"

definition preference_key :: "string \<Rightarrow> nat \<times> int \<times> string" where
  "preference_key code = (shape_rank code, - int (length code), code)"

text \<open>
  \<open>_preferred_code_from_list\<close>: the blank codes are dropped (\<open>cleaned\<close>), and the first
  element of the stably sorted rest is returned (\<open>sorted(...)[0]\<close>), \<open>None\<close> when nothing
  is left.
\<close>

definition cleaned_codes :: "string option list \<Rightarrow> string list" where
  "cleaned_codes codes = map clean_str (filter (\<lambda>code. clean_str code \<noteq> []) codes)"

definition preferred_code_from_list :: "string option list \<Rightarrow> string option" where
  "preferred_code_from_list codes =
     (let cleaned = cleaned_codes codes in
      case sort_key preference_key cleaned of [] \<Rightarrow> None | c # _ \<Rightarrow> Some c)"

text \<open>
  \<open>derive.py\<close> has the same three patterns without groups, and
  \<open>_code_preference_score\<close> returns the same tuple.
\<close>

definition code_preference_score :: "string \<Rightarrow> nat \<times> int \<times> string" where
  "code_preference_score code =
     (if ACTIVITY_CODE_RE code \<noteq> None then (0, - int (length code), code)
      else if OBJECTIVE_CODE_RE code \<noteq> None then (1, - int (length code), code)
      else if MODULE_CODE_RE code then (2, - int (length code), code)
      else (3, - int (length code), code))"

text \<open>
  The choice \<open>_rules_id_code_frame\<close> makes for one identifier: the codes that are strings
  and not blank are stripped, and the first of them in the order of
  \<open>_code_preference_score\<close> is \<open>chosen_code\<close>; an identifier left with no code is skipped.
\<close>

definition stripped_codes :: "string option list \<Rightarrow> string list" where
  "stripped_codes raw_codes = map py_strip (concat (map (\<lambda>code. case code of
       None \<Rightarrow> [] | Some c \<Rightarrow> if py_strip c \<noteq> [] then [c] else []) raw_codes))"

definition chosen_code :: "string option list \<Rightarrow> string option" where
  "chosen_code raw_codes =
     (let codes = stripped_codes raw_codes in
      case sort_key code_preference_score codes of [] \<Rightarrow> None | c # _ \<Rightarrow> Some c)"

text \<open>
  The order in the words of the specification: \<open>c\<close> is preferred to \<open>d\<close> when its shape
  class is higher (activity over objective over module over no shape), or the classes are
  the same and \<open>c\<close> is longer, or they are as long and \<open>c\<close> is lexicographically not
  larger.
\<close>

datatype shape = ActivityShaped | ObjectiveShaped | ModuleShaped | NoShape

definition shape_of :: "string \<Rightarrow> shape" where
  "shape_of code = (if ACTIVITY_CODE_RE code \<noteq> None then ActivityShaped
     else if OBJECTIVE_CODE_RE code \<noteq> None then ObjectiveShaped
     else if MODULE_CODE_RE code then ModuleShaped else NoShape)"

fun shape_height :: "shape \<Rightarrow> nat" where
  "shape_height ActivityShaped = 3"
| "shape_height ObjectiveShaped = 2"
| "shape_height ModuleShaped = 1"
| "shape_height NoShape = 0"

definition preferred_to :: "string \<Rightarrow> string \<Rightarrow> bool" where
  "preferred_to c d =
     (shape_height (shape_of c) > shape_height (shape_of d)
      \<or> (shape_of c = shape_of d
          \<and> (length c > length d \<or> (length c = length d \<and> c \<le> d))))"

definition is_preferred :: "string \<Rightarrow> string list \<Rightarrow> bool" where
  "is_preferred c cs = (c \<in> set cs \<and> (\<forall>d \<in> set cs. preferred_to c d))"

section \<open>The init_ssb flag\<close>

text \<open>
  A JSON value as \<open>json.load\<close> gives it. A dict is the list of its items in insertion
  order. JSON numbers are finite: an \<open>int\<close> is \<open>JInt\<close>, a \<open>float\<close> is \<open>JFloat\<close> with its
  exact value as a rational (the tokens \<open>NaN\<close> and \<open>Infinity\<close>, which are not JSON, are
  outside the model).
\<close>

datatype json = JNull | JBool bool | JInt int | JFloat rat | JStr string
  | JList "json list" | JDict "(string \<times> json) list"

text \<open>Python's \<open>int(x)\<close> on a float: truncation toward zero.\<close>

definition py_int_of_float :: "rat \<Rightarrow> int" where
  "py_int_of_float q = (if q < 0 then \<lceil>q\<rceil> else \<lfloor>q\<rfloor>)"

text \<open>
  \<open>_is_init_open_from_rule\<close>. A \<open>bool\<close> is an \<open>int\<close> in Python, so it takes the numeric
  branch with \<open>int(True) = 1\<close> and \<open>int(False) = 0\<close>. The two loops return at the first
  element for which the check holds.
\<close>

fun is_init_open_from_rule :: "json \<Rightarrow> bool"
  and any_item_open :: "json list \<Rightarrow> bool"
  and any_value_open :: "(string \<times> json) list \<Rightarrow> bool" where
  "is_init_open_from_rule (JList items) = any_item_open items"
| "is_init_open_from_rule (JDict kvs) = any_value_open kvs"
| "is_init_open_from_rule (JBool b) = ((if b then 1 else 0) = (0::int))"
| "is_init_open_from_rule (JInt n) = (n = 0)"
| "is_init_open_from_rule (JFloat q) = (py_int_of_float q = 0)"
| "is_init_open_from_rule JNull = (clean_str None = ''0'')"
| "is_init_open_from_rule (JStr s) = (clean_str (Some s) = ''0'')"
| "any_item_open [] = False"
| "any_item_open (item # items) =
     (if is_init_open_from_rule item then True else any_item_open items)"
| "any_value_open [] = False"
| "any_value_open (kv # kvs) =
     (if is_init_open_from_rule (snd kv) then True else any_value_open kvs)"

section \<open>The dependency graph of a module\<close>

text \<open>
  The catalog and rules payloads are JSON documents. They are modelled at the shape the
  code reads them in: an identifier, code or title is a string or null (\<open>None\<close>, also for
  an absent key), a JSON object that the code walks over is the list of its items in
  order, and the entries that the code skips for having the wrong JSON type are left out.
  The payloads \<open>init_ssb\<close>, \<open>sr\<close> and \<open>lvl\<close>, which the code inspects recursively, stay
  \<^typ>\<open>json\<close> values.
\<close>

record title =
  title_short :: "string option"
  title_long :: "string option"

record cat_activity =
  ca_id :: "string option"
  ca_code :: "string option"
  ca_title :: "title option"

record cat_objective =
  co_id :: "string option"
  co_code :: "string option"
  co_title :: "title option"
  co_activities :: "cat_activity list"

record cat_module =
  cm_code :: "string option"
  cm_objectives :: "cat_objective list"

record index_entry =
  short_title :: "string option"
  long_title :: "string option"

record catalog_payload =
  cat_modules :: "cat_module list"
  id_label_index :: "(string \<times> index_entry) list"

record condition =
  cond_dim :: "string option"
  cond_sr :: json
  cond_lvl :: json

record rules =
  init_ssb :: json
  requirements :: "(string \<times> (string \<times> condition) list) list option"
  deact_requirements :: "(string \<times> condition list) list option"

record node_rule =
  nr_id :: "string option"
  nr_code :: "string option"
  nr_type :: "string option"
  nr_rules :: "rules option"

record module_rule =
  mr_module_code :: "string option"
  mr_map_id_code :: "(string \<times> string option) list"
  mr_node_rules :: "node_rule list"

record rules_payload =
  module_rules :: "module_rule list"
  code_to_id :: "(string \<times> string) list"

text \<open>
  In \<^typ>\<open>rules\<close>, \<open>requirements\<close> is \<open>Some\<close> of the first element of the list when
  that is an object (target identifier to source identifier to condition) and \<open>None\<close>
  otherwise; \<open>deact_requirements\<close> likewise, with a single condition object read as a list
  of one. A condition that is not an object has all its fields null.
\<close>

record node =
  module_code :: string
  node_id :: "string option"
  node_code :: string
  node_type :: string
  label :: string
  objective_code :: "string option"
  activity_index :: "int option"
  init_open :: bool
  source_primary :: string
  source_enrichment :: string
  is_ghost :: bool

record edge =
  edge_module_code :: string
  edge_id :: string
  edge_type :: string
  from_node_code :: string
  to_node_code :: string
  threshold_type :: string
  threshold_value :: "rat option"
  rule_text :: string
  edge_source_primary :: string
  edge_source_enrichment :: string
  enrich_lvl :: "int option"
  enrich_sr :: "rat option"

text \<open>
  A float is modelled by its exact value. Two conversions of Python are parameters of the
  model: \<open>float(text)\<close>, which is \<open>None\<close> where Python raises \<open>ValueError\<close> or gives a
  NaN, and \<open>round(x, 6)\<close>.
\<close>

record float_ops =
  py_float :: "string \<Rightarrow> rat option"
  py_round6 :: "rat \<Rightarrow> rat"

text \<open>\<open>_to_float\<close> and \<open>_first_numeric\<close>; \<open>str\<close> of a dict is never the text of a float.\<close>

definition to_float :: "float_ops \<Rightarrow> string option \<Rightarrow> rat option" where
  "to_float F value = (let text = clean_str value in
     if text = [] then None else py_float F text)"

fun first_numeric :: "float_ops \<Rightarrow> json \<Rightarrow> rat option"
  and first_numeric_items :: "float_ops \<Rightarrow> json list \<Rightarrow> rat option" where
  "first_numeric F (JList items) = first_numeric_items F items"
| "first_numeric F (JBool b) = Some (if b then 1 else 0)"
| "first_numeric F (JInt n) = Some (of_int n)"
| "first_numeric F (JFloat q) = Some q"
| "first_numeric F JNull = to_float F None"
| "first_numeric F (JStr s) = to_float F (Some s)"
| "first_numeric F (JDict kvs) = None"
| "first_numeric_items F [] = None"
| "first_numeric_items F (item # items) = (case first_numeric F item of
       Some out \<Rightarrow> Some out
     | None \<Rightarrow> first_numeric_items F items)"

text \<open>Python's \<open>round(x)\<close>: to the nearest integer, a half to the even one.\<close>

definition py_round :: "rat \<Rightarrow> int" where
  "py_round q = (let f = \<lfloor>q\<rfloor>; d = q - of_int f in
     if d < 1 / 2 then f else if 1 / 2 < d then f + 1 else if even f then f else f + 1)"

text \<open>\<open>_first_int\<close>.\<close>

definition first_int :: "float_ops \<Rightarrow> json \<Rightarrow> int option" where
  "first_int F value = (case first_numeric F value of
       None \<Rightarrow> None
     | Some numeric \<Rightarrow> Some (py_round numeric))"

text \<open>\<open>_label_from_catalog_entry\<close>, on the title of the entry.\<close>

definition label_from_catalog_entry :: "title option \<Rightarrow> string \<Rightarrow> string" where
  "label_from_catalog_entry t fallback = (case t of
       None \<Rightarrow> fallback
     | Some tt \<Rightarrow> (let short = clean_str (title_short tt); long = clean_str (title_long tt) in
         if short \<noteq> [] then short else if long \<noteq> [] then long else fallback))"

text \<open>
  The dict \<open>id_to_label\<close>, built from the rows of \<open>catalog_id_index_frames\<close>: a later row
  with the same cleaned identifier replaces an earlier one.
\<close>

definition id_to_label :: "(string \<times> index_entry) list \<Rightarrow> string \<Rightarrow> string option" where
  "id_to_label idx = map_of (rev (concat (map (\<lambda>(identifier, value).
       if py_strip identifier \<noteq> [] \<and> clean_str (Some identifier) \<noteq> []
       then [(clean_str (Some identifier),
              (let short = clean_str (short_title value) in
               if short \<noteq> [] then short else clean_str (long_title value)))]
       else []) idx)))"

text \<open>Python's \<open>x or None\<close> and \<open>d.get(k) or fallback\<close> on texts.\<close>

definition or_none :: "string option \<Rightarrow> string option" where
  "or_none v = (case v of None \<Rightarrow> None | Some t \<Rightarrow> if t = [] then None else Some t)"

definition or_else :: "string option \<Rightarrow> string \<Rightarrow> string" where
  "or_else v fallback = (case v of None \<Rightarrow> fallback | Some t \<Rightarrow> if t = [] then fallback else t)"

text \<open>
  A Python dict that the code fills and walks over is the list of its items in insertion
  order; \<open>d[k] = v\<close> is \<^const>\<open>AList.update\<close>, which replaces the value of a present key
  in place and appends an absent one.
\<close>

subsection \<open>Nodes of the catalog\<close>

text \<open>The dict literals of the two catalog loops, and the loops.\<close>

definition activity_node ::
  "(string \<Rightarrow> string option) \<Rightarrow> string \<Rightarrow> string \<Rightarrow> cat_activity \<Rightarrow> node" where
  "activity_node code_to_id_global module_code_norm objective_code_v activity =
     (let activity_code = clean_str (ca_code activity);
          activity_id = (let i = clean_str (ca_id activity) in
             if i \<noteq> [] then Some i else code_to_id_global activity_code)
      in \<lparr>module_code = module_code_norm,
          node_id = or_none activity_id,
          node_code = activity_code,
          node_type = ''activity'',
          label = label_from_catalog_entry (ca_title activity) activity_code,
          objective_code = Some objective_code_v,
          activity_index = parse_activity_index (Some activity_code),
          init_open = False,
          source_primary = ''catalog'',
          source_enrichment = ''rules'',
          is_ghost = False\<rparr>)"

definition objective_node ::
  "(string \<Rightarrow> string option) \<Rightarrow> string \<Rightarrow> cat_objective \<Rightarrow> node" where
  "objective_node code_to_id_global module_code_norm objective =
     (let objective_code_v = clean_str (co_code objective);
          objective_id = (let i = clean_str (co_id objective) in
             if i \<noteq> [] then Some i else code_to_id_global objective_code_v)
      in \<lparr>module_code = module_code_norm,
          node_id = or_none objective_id,
          node_code = objective_code_v,
          node_type = ''objective'',
          label = label_from_catalog_entry (co_title objective) objective_code_v,
          objective_code = Some objective_code_v,
          activity_index = None,
          init_open = False,
          source_primary = ''catalog'',
          source_enrichment = ''rules'',
          is_ghost = False\<rparr>)"

definition add_activity_node ::
  "(string \<Rightarrow> string option) \<Rightarrow> string \<Rightarrow> string \<Rightarrow> (string \<times> node) list \<Rightarrow> cat_activity
     \<Rightarrow> (string \<times> node) list" where
  "add_activity_node code_to_id_global module_code_norm objective_code_v node_map activity =
     (let activity_code = clean_str (ca_code activity)
      in if activity_code = [] then node_map
         else AList.update activity_code
                (activity_node code_to_id_global module_code_norm objective_code_v activity)
                node_map)"

definition add_objective_node ::
  "(string \<Rightarrow> string option) \<Rightarrow> string \<Rightarrow> (string \<times> node) list \<Rightarrow> cat_objective
     \<Rightarrow> (string \<times> node) list" where
  "add_objective_node code_to_id_global module_code_norm node_map objective =
     (let objective_code_v = clean_str (co_code objective)
      in if objective_code_v = [] then node_map
         else foldl (add_activity_node code_to_id_global module_code_norm objective_code_v)
           (AList.update objective_code_v
              (objective_node code_to_id_global module_code_norm objective) node_map)
           (co_activities objective))"

definition catalog_nodes ::
  "(string \<Rightarrow> string option) \<Rightarrow> string \<Rightarrow> cat_module list \<Rightarrow> (string \<times> node) list" where
  "catalog_nodes code_to_id_global module_code_norm mods =
     (case find (\<lambda>m. clean_str (cm_code m) = module_code_norm) mods of
        None \<Rightarrow> []
      | Some selected_catalog_module \<Rightarrow>
          foldl (add_objective_node code_to_id_global module_code_norm) []
            (cm_objectives selected_catalog_module))"

subsection \<open>Nodes that only the rules have\<close>

text \<open>\<open>id_to_codes_local.get(ident, [])\<close>: the cleaned codes that the module maps to \<open>ident\<close>.\<close>

definition id_to_codes_local :: "(string \<times> string option) list \<Rightarrow> string \<Rightarrow> string list" where
  "id_to_codes_local code_to_id_local ident =
     map (\<lambda>(code, identifier). clean_str (Some code))
       (filter (\<lambda>(code, identifier). clean_str (Some code) \<noteq> [] \<and> clean_str identifier \<noteq> []
                  \<and> clean_str identifier = ident) code_to_id_local)"

text \<open>\<open>_resolve_code_from_id\<close>.\<close>

definition resolve_code_from_id :: "(string \<times> string option) list \<Rightarrow> string option \<Rightarrow> string" where
  "resolve_code_from_id code_to_id_local identifier = (let ident = clean_str identifier in
     if ident = [] then []
     else or_else (preferred_code_from_list (map Some (id_to_codes_local code_to_id_local ident))) [])"

text \<open>The dict literal of a node that only the rules have, for its code.\<close>

definition rule_node ::
  "(string \<Rightarrow> string option) \<Rightarrow> string \<Rightarrow> string \<Rightarrow> node_rule \<Rightarrow> node" where
  "rule_node id_to_label_v module_code_norm code nd =
     (let node_id_v = clean_str (nr_id nd);
          label_v = or_else (id_to_label_v node_id_v) code;
          node_type_v = (let t = clean_str (nr_type nd) in
             if t \<noteq> [] then t else node_type_from_code_strict (Some code))
      in \<lparr>module_code = module_code_norm,
          node_id = or_none (Some node_id_v),
          node_code = code,
          node_type = (if node_type_v \<in> {''objective'', ''activity''} then node_type_v
                       else node_type_from_code_strict (Some code)),
          label = label_v,
          objective_code = parse_objective_code (Some code) (Some node_type_v),
          activity_index = parse_activity_index (Some code),
          init_open = False,
          source_primary = ''rules'',
          source_enrichment = ''rules'',
          is_ghost = False\<rparr>)"

text \<open>
  One turn of the loop over \<open>node_rules\<close>, on the pair of \<open>node_map\<close> and \<open>rule_by_code\<close>.
\<close>

definition add_rule_node ::
  "(string \<Rightarrow> string option) \<Rightarrow> (string \<times> string option) list \<Rightarrow> string
     \<Rightarrow> (string \<times> node) list \<times> (string \<times> node_rule) list \<Rightarrow> node_rule
     \<Rightarrow> (string \<times> node) list \<times> (string \<times> node_rule) list" where
  "add_rule_node id_to_label_v code_to_id_local module_code_norm st nd =
     (let node_map = fst st; rule_by_code = snd st;
          code0 = clean_str (nr_code nd);
          node_id_v = clean_str (nr_id nd);
          code = (if code0 = [] \<and> node_id_v \<noteq> []
                  then or_else (preferred_code_from_list
                                  (map Some (id_to_codes_local code_to_id_local node_id_v))) []
                  else code0)
      in if code = [] then (node_map, rule_by_code)
         else if map_of node_map code = None
                 \<and> node_type_from_code_strict (Some code) \<in> {''objective'', ''activity''}
         then (AList.update code (rule_node id_to_label_v module_code_norm code nd) node_map,
               AList.update code nd rule_by_code)
         else (node_map, AList.update code nd rule_by_code))"

subsection \<open>Edges of the rules\<close>

text \<open>
  \<open>_add_edge\<close>, on the pair of the list \<open>edges\<close> and the set \<open>edge_seen\<close> (the list of
  its elements): nothing is added when an end is blank or the edge was seen.
\<close>

definition add_edge ::
  "float_ops \<Rightarrow> string \<Rightarrow> string \<Rightarrow> string \<Rightarrow> string \<Rightarrow> rat option \<Rightarrow> string \<Rightarrow> int option
     \<Rightarrow> rat option \<Rightarrow> edge list \<times> (string \<times> string \<times> string \<times> rat option) list
     \<Rightarrow> edge list \<times> (string \<times> string \<times> string \<times> rat option) list" where
  "add_edge F module_code_norm edge_type_v from_code to_code threshold rule_text_v enrich_lvl_v
       enrich_sr_v st =
     (let edges = fst st; edge_seen = snd st;
          src = clean_str (Some from_code);
          dst = clean_str (Some to_code)
      in if src = [] \<or> dst = [] then (edges, edge_seen)
         else (let threshold_norm = (case threshold of
                     None \<Rightarrow> None | Some t \<Rightarrow> Some (py_round6 F t));
                   dedup = (edge_type_v, src, dst, threshold_norm)
               in if dedup \<in> set edge_seen then (edges, edge_seen)
                  else (edges @
                     [\<lparr>edge_module_code = module_code_norm,
                       edge_id = module_code_norm @ '':'' @ edge_type_v @ '':'' @ src @ ''->''
                                   @ dst @ '':'' @ str_of_nat (length edges + 1),
                       edge_type = edge_type_v,
                       from_node_code = src,
                       to_node_code = dst,
                       threshold_type = (if threshold_norm \<noteq> None then ''success_rate''
                                         else ''unknown''),
                       threshold_value = threshold_norm,
                       rule_text = rule_text_v,
                       edge_source_primary = ''rules'',
                       edge_source_enrichment = ''rules'',
                       enrich_lvl = enrich_lvl_v,
                       enrich_sr = enrich_sr_v\<rparr>],
                     dedup # edge_seen)))"

text \<open>The activation edges of one target of \<open>requirements[0]\<close>, and those of the whole map.\<close>

definition add_requirement_edges ::
  "float_ops \<Rightarrow> (string \<times> string option) list \<Rightarrow> string \<Rightarrow> string
     \<Rightarrow> edge list \<times> (string \<times> string \<times> string \<times> rat option) list
     \<Rightarrow> string \<times> (string \<times> condition) list
     \<Rightarrow> edge list \<times> (string \<times> string \<times> string \<times> rat option) list" where
  "add_requirement_edges F code_to_id_local module_code_norm code st entry =
     (let target_code = (let r = resolve_code_from_id code_to_id_local (Some (fst entry)) in
            if r \<noteq> [] then r else code)
      in foldl (\<lambda>st' src_entry.
           (let source_code = resolve_code_from_id code_to_id_local (Some (fst src_entry));
                sr = first_numeric F (cond_sr (snd src_entry));
                lvl = first_int F (cond_lvl (snd src_entry))
            in add_edge F module_code_norm ''activation'' source_code target_code sr
                 ''requirements'' lvl sr st'))
         st (snd entry))"

text \<open>The deactivation edges of one target of \<open>deact_requirements[0]\<close>.\<close>

definition add_deact_edges ::
  "float_ops \<Rightarrow> (string \<times> string option) list \<Rightarrow> string \<Rightarrow> string
     \<Rightarrow> edge list \<times> (string \<times> string \<times> string \<times> rat option) list
     \<Rightarrow> string \<times> condition list
     \<Rightarrow> edge list \<times> (string \<times> string \<times> string \<times> rat option) list" where
  "add_deact_edges F code_to_id_local module_code_norm code st entry =
     (let target_code = (let r = resolve_code_from_id code_to_id_local (Some (fst entry)) in
            if r \<noteq> [] then r else code)
      in foldl (\<lambda>st' cond.
           (let source_code = resolve_code_from_id code_to_id_local (cond_dim cond);
                sr = first_numeric F (cond_sr cond);
                lvl = first_int F (cond_lvl cond)
            in add_edge F module_code_norm ''deactivation'' source_code target_code sr
                 ''deact_requirements'' lvl sr st'))
         st (snd entry))"

text \<open>
  One turn of the loop over \<open>rule_by_code.items()\<close>, on \<open>node_map\<close> and the edges: the
  \<open>init_ssb\<close> flag of the node, then its activation edges, then its deactivation edges.
  A rule node without a \<open>rules\<close> object has the empty one.
\<close>

definition apply_rule ::
  "float_ops \<Rightarrow> (string \<times> string option) list \<Rightarrow> string
     \<Rightarrow> (string \<times> node) list \<times> edge list \<times> (string \<times> string \<times> string \<times> rat option) list
     \<Rightarrow> string \<times> node_rule
     \<Rightarrow> (string \<times> node) list \<times> edge list \<times> (string \<times> string \<times> string \<times> rat option) list" where
  "apply_rule F code_to_id_local module_code_norm st item =
     (let node_map = fst st; es = snd st; code = fst item;
          rules_v = (case nr_rules (snd item) of
              None \<Rightarrow> \<lparr>init_ssb = JNull, requirements = None, deact_requirements = None\<rparr>
            | Some r \<Rightarrow> r);
          node_map' = (if is_init_open_from_rule (init_ssb rules_v) \<and> map_of node_map code \<noteq> None
                       then AList.map_entry code (\<lambda>n. n\<lparr>init_open := True\<rparr>) node_map
                       else node_map);
          es' = (case requirements rules_v of
              None \<Rightarrow> es
            | Some req_map \<Rightarrow>
                foldl (add_requirement_edges F code_to_id_local module_code_norm code) es req_map);
          es'' = (case deact_requirements rules_v of
              None \<Rightarrow> es'
            | Some deact_map \<Rightarrow>
                foldl (add_deact_edges F code_to_id_local module_code_norm code) es' deact_map)
      in (node_map', es''))"

subsection \<open>Default-open nodes and ghost nodes\<close>

text \<open>The set \<open>incoming_activation_targets\<close>, as the list of its elements.\<close>

definition incoming_activation_targets :: "edge list \<Rightarrow> string list" where
  "incoming_activation_targets edges =
     map (\<lambda>e. clean_str (Some (to_node_code e)))
       (filter (\<lambda>e. clean_str (Some (edge_type e)) = ''activation'') edges)"

text \<open>The loop that opens every node of \<open>node_map\<close> that no activation edge targets.\<close>

definition open_untargeted :: "edge list \<Rightarrow> (string \<times> node) list \<Rightarrow> (string \<times> node) list" where
  "open_untargeted edges node_map =
     map (\<lambda>(node_code_v, nd).
            (node_code_v,
             if \<not> init_open nd \<and> node_code_v \<notin> set (incoming_activation_targets edges)
             then nd\<lparr>init_open := True\<rparr> else nd))
       node_map"

text \<open>\<open>referenced_codes\<close> and the sorted list \<open>missing_codes\<close>.\<close>

definition referenced_codes :: "edge list \<Rightarrow> string list" where
  "referenced_codes edges =
     map (\<lambda>e. clean_str (Some (from_node_code e))) edges
       @ map (\<lambda>e. clean_str (Some (to_node_code e))) edges"

definition missing_codes :: "edge list \<Rightarrow> (string \<times> node) list \<Rightarrow> string list" where
  "missing_codes edges node_map =
     sort (remdups (filter (\<lambda>code_ref. code_ref \<noteq> [] \<and> map_of node_map code_ref = None)
                      (referenced_codes edges)))"

text \<open>The dict literal of a ghost node, and one turn of the loop over \<open>missing_codes\<close>.\<close>

definition ghost_node ::
  "(string \<Rightarrow> string option) \<Rightarrow> (string \<Rightarrow> string option) \<Rightarrow> string \<Rightarrow> string \<Rightarrow> node" where
  "ghost_node code_to_id_global id_to_label_v module_code_norm ghost_code =
     (let ghost_type = node_type_from_code_strict (Some ghost_code);
          ghost_id = code_to_id_global ghost_code
      in \<lparr>module_code = module_code_norm,
          node_id = ghost_id,
          node_code = ghost_code,
          node_type = ghost_type,
          label = or_else (id_to_label_v (clean_str ghost_id)) ghost_code,
          objective_code = parse_objective_code (Some ghost_code) (Some ghost_type),
          activity_index = parse_activity_index (Some ghost_code),
          init_open = False,
          source_primary = ''rules'',
          source_enrichment = ''rules'',
          is_ghost = True\<rparr>)"

definition add_ghost_node ::
  "(string \<Rightarrow> string option) \<Rightarrow> (string \<Rightarrow> string option) \<Rightarrow> string
     \<Rightarrow> (string \<times> node) list \<Rightarrow> string \<Rightarrow> (string \<times> node) list" where
  "add_ghost_node code_to_id_global id_to_label_v module_code_norm node_map ghost_code =
     (let ghost_type = node_type_from_code_strict (Some ghost_code)
      in if ghost_type \<notin> {''objective'', ''activity''} then node_map
         else AList.update ghost_code
                (ghost_node code_to_id_global id_to_label_v module_code_norm ghost_code)
                node_map)"

subsection \<open>The derivation path\<close>

text \<open>
  The stages of \<open>_build_dependency_tables_from_rules_payload\<close> for the rule of the module:
  \<open>node_map\<close> and \<open>rule_by_code\<close> after the catalog and the loop over \<open>node_rules\<close>; then
  \<open>node_map\<close> and \<open>edges\<close> after the loop over \<open>rule_by_code\<close>; then \<open>node_map\<close> after the
  default-open loop, which is the map the ghost synthesis starts from.
\<close>

definition seeded_nodes ::
  "string \<Rightarrow> catalog_payload \<Rightarrow> rules_payload \<Rightarrow> module_rule
     \<Rightarrow> (string \<times> node) list \<times> (string \<times> node_rule) list" where
  "seeded_nodes module_code_norm catalog rules_p mr =
     foldl (add_rule_node (id_to_label (id_label_index catalog)) (mr_map_id_code mr)
              module_code_norm)
       (catalog_nodes (map_of (code_to_id rules_p)) module_code_norm (cat_modules catalog), [])
       (mr_node_rules mr)"

definition ruled_graph ::
  "float_ops \<Rightarrow> string \<Rightarrow> catalog_payload \<Rightarrow> rules_payload \<Rightarrow> module_rule
     \<Rightarrow> (string \<times> node) list \<times> edge list \<times> (string \<times> string \<times> string \<times> rat option) list" where
  "ruled_graph F module_code_norm catalog rules_p mr =
     (let seeded = seeded_nodes module_code_norm catalog rules_p mr
      in foldl (apply_rule F (mr_map_id_code mr) module_code_norm) (fst seeded, [], [])
           (snd seeded))"

definition rule_edges ::
  "float_ops \<Rightarrow> string \<Rightarrow> catalog_payload \<Rightarrow> rules_payload \<Rightarrow> module_rule \<Rightarrow> edge list" where
  "rule_edges F module_code_norm catalog rules_p mr =
     fst (snd (ruled_graph F module_code_norm catalog rules_p mr))"

definition node_map_before_ghosts ::
  "float_ops \<Rightarrow> string \<Rightarrow> catalog_payload \<Rightarrow> rules_payload \<Rightarrow> module_rule
     \<Rightarrow> (string \<times> node) list" where
  "node_map_before_ghosts F module_code_norm catalog rules_p mr =
     open_untargeted (rule_edges F module_code_norm catalog rules_p mr)
       (fst (ruled_graph F module_code_norm catalog rules_p mr))"

text \<open>
  \<open>_build_dependency_tables_from_rules_payload\<close>: the rows of \<open>nodes_df\<close>, the rows of
  \<open>edges_df\<close> and the warnings. The two frames select all the columns of the records, so
  their rows are the values of \<open>node_map\<close> and the list \<open>edges\<close>.
\<close>

definition build_dependency_tables_from_rules_payload ::
  "float_ops \<Rightarrow> string \<Rightarrow> catalog_payload \<Rightarrow> rules_payload
     \<Rightarrow> node list \<times> edge list \<times> string list" where
  "build_dependency_tables_from_rules_payload F module_code_v catalog rules_p =
     (let module_code_norm = clean_str (Some module_code_v)
      in case find (\<lambda>row. clean_str (mr_module_code row) = module_code_norm)
                (module_rules rules_p) of
           None \<Rightarrow> ([], [],
             [''Module '' @ [CHR 0x27] @ module_code_norm @ [CHR 0x27]
                @ '' not found in zpdes_rules.module_rules.''])
         | Some mr \<Rightarrow>
             (let edges = rule_edges F module_code_norm catalog rules_p mr;
                  node_map = node_map_before_ghosts F module_code_norm catalog rules_p mr;
                  missing = missing_codes edges node_map;
                  node_map' = foldl (add_ghost_node (map_of (code_to_id rules_p))
                                       (id_to_label (id_label_index catalog)) module_code_norm)
                                node_map missing;
                  warnings = (if missing \<noteq> []
                     then [''Created '' @ str_of_nat (length missing)
                             @ '' ghost node(s) for unresolved rules references.'']
                     else [])
              in (map snd node_map', edges, warnings)))"

subsection \<open>Invariants of the node map and the edges\<close>

text \<open>
  \<open>keyed\<close>: the keys are distinct and every node sits under its own code, as in a dict
  filled by \<open>node_map[code] = {..., "node_code": code, ...}\<close>. \<open>real_map\<close>: keyed, and
  no node is a ghost. \<open>clean_edges\<close>: the two ends of every edge are cleaned texts that
  are not blank.
\<close>

definition keyed :: "(string \<times> node) list \<Rightarrow> bool" where
  "keyed nm = (distinct (map fst nm) \<and> (\<forall>(k, n) \<in> set nm. node_code n = k))"

definition no_ghosts :: "(string \<times> node) list \<Rightarrow> bool" where
  "no_ghosts nm = (\<forall>(k, n) \<in> set nm. \<not> is_ghost n)"

definition real_map :: "(string \<times> node) list \<Rightarrow> bool" where
  "real_map nm = (keyed nm \<and> no_ghosts nm)"

definition clean_edges :: "edge list \<Rightarrow> bool" where
  "clean_edges es = (\<forall>e \<in> set es. from_node_code e \<noteq> [] \<and> to_node_code e \<noteq> []
      \<and> clean_str (Some (from_node_code e)) = from_node_code e
      \<and> clean_str (Some (to_node_code e)) = to_node_code e)"

subsection \<open>A worked payload\<close>

text \<open>
  A module \<open>M1\<close> with one objective and one activity in the catalog. The rule of the
  activity \<open>a1\<close> requires the identifier \<open>a9\<close>, whose code \<open>M1O1A9\<close> is not in the
  catalog, and the identifier \<open>m1\<close>, whose code \<open>M1\<close> is the module's. No threshold is a
  text and none is given, so the two float conversions are never applied to a value;
  \<open>exact_floats\<close> fixes them to reject every text and to round exactly.
\<close>

definition exact_floats :: float_ops where
  "exact_floats = \<lparr>py_float = (\<lambda>text. None), py_round6 = (\<lambda>q. q)\<rparr>"

definition example_catalog :: catalog_payload where
  "example_catalog = \<lparr>cat_modules =
     [\<lparr>cm_code = Some ''M1'', cm_objectives =
        [\<lparr>co_id = Some ''o1'', co_code = Some ''M1O1'', co_title = None, co_activities =
           [\<lparr>ca_id = Some ''a1'', ca_code = Some ''M1O1A1'', ca_title = None\<rparr>]\<rparr>]\<rparr>],
     id_label_index = []\<rparr>"

definition example_module_rule :: module_rule where
  "example_module_rule = \<lparr>mr_module_code = Some ''M1'',
     mr_map_id_code = [(''M1O1A1'', Some ''a1''), (''M1O1A9'', Some ''a9''), (''M1'', Some ''m1'')],
     mr_node_rules =
       [\<lparr>nr_id = Some ''a1'', nr_code = Some ''M1O1A1'', nr_type = Some ''activity'',
         nr_rules = Some \<lparr>init_ssb = JNull,
           requirements = Some [(''a1'',
             [(''a9'', \<lparr>cond_dim = None, cond_sr = JNull, cond_lvl = JNull\<rparr>),
              (''m1'', \<lparr>cond_dim = None, cond_sr = JNull, cond_lvl = JNull\<rparr>)])],
           deact_requirements = None\<rparr>\<rparr>]\<rparr>"

definition example_rules :: rules_payload where
  "example_rules = \<lparr>module_rules = [example_module_rule], code_to_id = []\<rparr>"

section \<open>The ragged matrix payload\<close>

text \<open>
  The exceptions of Python that the functions below can raise.
\<close>

datatype py_error = TypeError | IndexError | KeyError | ValueError

text \<open>
  A row of the cells frame, with the columns \<open>build_ragged_matrix_payload\<close> requires; every
  column may hold null. \<open>metric_value\<close> is a float, modelled by its exact value.
\<close>

record cell_row =
  cell_objective_id :: "string option"
  cell_objective_row_label :: "string option"
  cell_objective_label :: "string option"
  cell_activity_id :: "string option"
  cell_activity_label :: "string option"
  cell_activity_col_idx :: "int option"
  cell_activity_col_label :: "string option"
  cell_metric_value :: "rat option"
  cell_metric_text :: "string option"

record matrix_payload =
  x_labels :: "string list"
  y_labels :: "string list"
  z_values :: "rat option list list"
  text_values :: "string list list"
  customdata :: "string list list list"
  objective_ids :: "string list"
  max_activity_cols :: int

text \<open>\<open>str\<close> of a value that is a string or \<open>None\<close>.\<close>

definition py_str_opt :: "string option \<Rightarrow> string" where
  "py_str_opt v = (case v of None \<Rightarrow> ''None'' | Some s \<Rightarrow> s)"

text \<open>
  The first loop over the rows: the objectives in the order they first appear, their row
  labels, the dict \<open>objective_position\<close> and the running maximum of the column indices.
  \<open>int(None)\<close> raises \<open>TypeError\<close>.
\<close>

record scan_state =
  scan_ids :: "string list"
  scan_labels :: "string list"
  scan_position :: "(string \<times> nat) list"
  scan_max :: int

definition scan_row :: "scan_state \<Rightarrow> cell_row \<Rightarrow> py_error + scan_state" where
  "scan_row st row =
     (let objective_id = py_str_opt (cell_objective_id row);
          st' = (if map_of (scan_position st) objective_id = None
                 then st\<lparr>scan_position :=
                          AList.update objective_id (length (scan_ids st)) (scan_position st),
                        scan_ids := scan_ids st @ [objective_id],
                        scan_labels := scan_labels st
                          @ [py_str_opt (cell_objective_row_label row)]\<rparr>
                 else st)
      in case cell_activity_col_idx row of
           None \<Rightarrow> Inl TypeError
         | Some i \<Rightarrow> Inr (st'\<lparr>scan_max := max (scan_max st') i\<rparr>))"

fun scan_rows :: "scan_state \<Rightarrow> cell_row list \<Rightarrow> py_error + scan_state" where
  "scan_rows st [] = Inr st"
| "scan_rows st (row # rows) = (case scan_row st row of
       Inl e \<Rightarrow> Inl e
     | Inr st' \<Rightarrow> scan_rows st' rows)"

text \<open>
  \<open>xs[i] = v\<close> on a Python list: a negative index counts from the end, an index out of
  range raises \<open>IndexError\<close>. \<open>grid[r][i] = v\<close> reads the row \<open>r\<close> first.
\<close>

definition py_list_set :: "'a list \<Rightarrow> int \<Rightarrow> 'a \<Rightarrow> py_error + 'a list" where
  "py_list_set xs i v =
     (let n = int (length xs); j = (if i < 0 then n + i else i)
      in if 0 \<le> j \<and> j < n then Inr (xs[nat j := v]) else Inl IndexError)"

definition grid_set :: "'a list list \<Rightarrow> nat \<Rightarrow> int \<Rightarrow> 'a \<Rightarrow> py_error + 'a list list" where
  "grid_set grid r i v =
     (if r < length grid
      then (case py_list_set (grid ! r) i v of
              Inl e \<Rightarrow> Inl e
            | Inr row' \<Rightarrow> Inr (grid[r := row']))
      else Inl IndexError)"

text \<open>The second loop: one row written into the three grids.\<close>

definition place_row ::
  "(string \<times> nat) list \<Rightarrow> rat option list list \<times> string list list \<times> string list list list
     \<Rightarrow> cell_row
     \<Rightarrow> py_error + (rat option list list \<times> string list list \<times> string list list list)" where
  "place_row objective_position grids row =
     (case map_of objective_position (py_str_opt (cell_objective_id row)) of
        None \<Rightarrow> Inl KeyError
      | Some row_idx \<Rightarrow>
          (case cell_activity_col_idx row of
             None \<Rightarrow> Inl TypeError
           | Some i \<Rightarrow>
               (let col_idx = i - 1;
                    metric_value = cell_metric_value row
                in case grid_set (fst grids) row_idx col_idx metric_value of
                     Inl e \<Rightarrow> Inl e
                   | Inr z \<Rightarrow>
                       (case grid_set (fst (snd grids)) row_idx col_idx
                               (or_else (cell_metric_text row) []) of
                          Inl e \<Rightarrow> Inl e
                        | Inr t \<Rightarrow>
                            (case grid_set (snd (snd grids)) row_idx col_idx
                                    [or_else (cell_objective_label row)
                                       (or_else (cell_objective_id row) []),
                                     or_else (cell_objective_id row) [],
                                     or_else (cell_activity_label row)
                                       (or_else (cell_activity_id row) []),
                                     or_else (cell_activity_id row) [],
                                     or_else (cell_activity_col_label row) [],
                                     or_else (cell_metric_text row) []] of
                               Inl e \<Rightarrow> Inl e
                             | Inr c \<Rightarrow> Inr (z, t, c))))))"

fun place_rows ::
  "(string \<times> nat) list \<Rightarrow> rat option list list \<times> string list list \<times> string list list list
     \<Rightarrow> cell_row list
     \<Rightarrow> py_error + (rat option list list \<times> string list list \<times> string list list list)" where
  "place_rows objective_position grids [] = Inr grids"
| "place_rows objective_position grids (row # rows) =
     (case place_row objective_position grids row of
        Inl e \<Rightarrow> Inl e
      | Inr grids' \<Rightarrow> place_rows objective_position grids' rows)"

text \<open>\<open>build_ragged_matrix_payload\<close>, on the rows of the cells frame.\<close>

definition build_ragged_matrix_payload :: "cell_row list \<Rightarrow> py_error + matrix_payload" where
  "build_ragged_matrix_payload rows =
     (if rows = []
      then Inr \<lparr>x_labels = [], y_labels = [], z_values = [], text_values = [], customdata = [],
                 objective_ids = [], max_activity_cols = 0\<rparr>
      else (case scan_rows \<lparr>scan_ids = [], scan_labels = [], scan_position = [], scan_max = 0\<rparr>
                   rows of
              Inl e \<Rightarrow> Inl e
            | Inr st \<Rightarrow>
                (let n = nat (scan_max st); m = length (scan_ids st)
                 in case place_rows (scan_position st)
                           (replicate m (replicate n None),
                            replicate m (replicate n []),
                            replicate m (replicate n [[], [], [], [], [], []]))
                           rows of
                      Inl e \<Rightarrow> Inl e
                    | Inr grids \<Rightarrow>
                        Inr \<lparr>x_labels = map (\<lambda>idx. ''A'' @ str_of_nat idx) [1 ..< n + 1],
                             y_labels = scan_labels st,
                             z_values = fst grids,
                             text_values = fst (snd grids),
                             customdata = snd (snd grids),
                             objective_ids = scan_ids st,
                             max_activity_cols = scan_max st\<rparr>)))"

text \<open>
  The worked cells table: objective \<open>o1\<close> with two activities and \<open>o2\<close> with four.
\<close>

definition example_cell :: "string \<Rightarrow> int \<Rightarrow> rat \<Rightarrow> cell_row" where
  "example_cell oid idx v =
     \<lparr>cell_objective_id = Some oid, cell_objective_row_label = Some oid,
      cell_objective_label = Some oid, cell_activity_id = Some (oid @ ''a''),
      cell_activity_label = None, cell_activity_col_idx = Some idx,
      cell_activity_col_label = None, cell_metric_value = Some v, cell_metric_text = None\<rparr>"

definition example_cells :: "cell_row list" where
  "example_cells =
     [example_cell ''o1'' 1 0, example_cell ''o1'' 2 (1 / 2),
      example_cell ''o2'' 1 1, example_cell ''o2'' 2 0,
      example_cell ''o2'' 3 (1 / 4), example_cell ''o2'' 4 (3 / 4)]"

text \<open>
  Invariants of the two loops: \<open>objective_position\<close> numbers the distinct objectives in
  order, and a grid has \<open>m\<close> rows of \<open>n\<close> columns.
\<close>

definition scan_inv :: "scan_state \<Rightarrow> bool" where
  "scan_inv st = (scan_position st = zip (scan_ids st) [0 ..< length (scan_ids st)]
     \<and> distinct (scan_ids st))"

definition grid_shape :: "nat \<Rightarrow> nat \<Rightarrow> 'a list list \<Rightarrow> bool" where
  "grid_shape m n g = (length g = m \<and> (\<forall>row \<in> set g. length row = n))"

section \<open>The activity-daily aggregate\<close>

text \<open>
  A row of the reconciled fact table, with the columns the aggregate and matrix builders
  read. Every column may hold null. A date is a day number, a float its exact value.
\<close>

record fact_row =
  f_date_utc :: "int option"
  f_user_id :: "string option"
  f_activity_id :: "string option"
  f_activity_label :: "string option"
  f_objective_id :: "string option"
  f_objective_label :: "string option"
  f_module_id :: "string option"
  f_module_code :: "string option"
  f_module_label :: "string option"
  f_exercise_id :: "string option"
  f_work_mode :: "string option"
  f_data_correct :: "bool option"
  f_data_duration :: "rat option"
  f_attempt_number :: "int option"

text \<open>A row of \<open>agg_activity_daily\<close>.\<close>

record activity_daily =
  ad_date_utc :: "int option"
  ad_activity_id :: "string option"
  ad_activity_label :: "string option"
  ad_objective_id :: "string option"
  ad_objective_label :: "string option"
  ad_module_id :: "string option"
  ad_module_code :: "string option"
  ad_module_label :: "string option"
  ad_attempts :: nat
  ad_unique_students :: nat
  ad_success_rate :: "rat option"
  ad_first_attempt_success_rate :: "rat option"
  ad_first_attempt_count :: int
  ad_median_duration :: "rat option"
  ad_repeat_attempt_rate :: "rat option"
  ad_avg_attempt_number :: "rat option"

text \<open>
  The aggregations of the dataframe engine over a column with nulls: \<open>mean\<close> and
  \<open>median\<close> skip the nulls and are null when nothing is left, \<open>sum\<close> skips the nulls and
  is 0 when nothing is left.
\<close>

definition non_nulls :: "'a option list \<Rightarrow> 'a list" where
  "non_nulls vs = List.map_filter (\<lambda>v. v) vs"

definition mean_opt :: "rat option list \<Rightarrow> rat option" where
  "mean_opt vs = (let xs = non_nulls vs in
     if xs = [] then None else Some (sum_list xs / of_nat (length xs)))"

definition median_opt :: "rat option list \<Rightarrow> rat option" where
  "median_opt vs = (let xs = sort (non_nulls vs); n = length xs in
     if n = 0 then None
     else if odd n then Some (xs ! (n div 2))
     else Some ((xs ! (n div 2 - 1) + xs ! (n div 2)) / 2))"

definition sum_opt :: "rat option list \<Rightarrow> rat" where
  "sum_opt vs = sum_list (non_nulls vs)"

text \<open>The cast of a Boolean column to a float column.\<close>

definition float_of_bool :: "bool option \<Rightarrow> rat option" where
  "float_of_bool b = (case b of None \<Rightarrow> None | Some v \<Rightarrow> Some (if v then 1 else 0))"

text \<open>
  The two columns \<open>build_agg_activity_daily_from_fact\<close> adds: a null
  \<open>attempt_number\<close> takes the \<open>otherwise\<close> branch of both.
\<close>

definition first_attempt_correct_value :: "fact_row \<Rightarrow> rat option" where
  "first_attempt_correct_value r =
     (if f_attempt_number r = Some 1 then float_of_bool (f_data_correct r) else None)"

definition first_attempt_flag :: "fact_row \<Rightarrow> int" where
  "first_attempt_flag r = (if f_attempt_number r = Some 1 then 1 else 0)"

text \<open>The grouping key, and the aggregate row of the rows of one group.\<close>

type_synonym activity_key =
  "int option \<times> string option \<times> string option \<times> string option \<times> string option
     \<times> string option \<times> string option \<times> string option"

definition activity_group_key :: "fact_row \<Rightarrow> activity_key" where
  "activity_group_key r =
     (f_date_utc r, f_activity_id r, f_activity_label r, f_objective_id r, f_objective_label r,
      f_module_id r, f_module_code r, f_module_label r)"

definition activity_daily_key :: "activity_daily \<Rightarrow> activity_key" where
  "activity_daily_key g =
     (ad_date_utc g, ad_activity_id g, ad_activity_label g, ad_objective_id g,
      ad_objective_label g, ad_module_id g, ad_module_code g, ad_module_label g)"

definition aggregate_activity_group :: "activity_key \<Rightarrow> fact_row list \<Rightarrow> activity_daily" where
  "aggregate_activity_group k rows =
     (case k of (date_utc, activity_id, activity_label, objective_id, objective_label,
                 module_id, module_code_v, module_label) \<Rightarrow>
        \<lparr>ad_date_utc = date_utc,
         ad_activity_id = activity_id,
         ad_activity_label = activity_label,
         ad_objective_id = objective_id,
         ad_objective_label = objective_label,
         ad_module_id = module_id,
         ad_module_code = module_code_v,
         ad_module_label = module_label,
         ad_attempts = length rows,
         ad_unique_students = length (remdups (map f_user_id rows)),
         ad_success_rate = mean_opt (map (\<lambda>r. float_of_bool (f_data_correct r)) rows),
         ad_first_attempt_success_rate = mean_opt (map first_attempt_correct_value rows),
         ad_first_attempt_count = sum_list (map first_attempt_flag rows),
         ad_median_duration = median_opt (map f_data_duration rows),
         ad_repeat_attempt_rate =
           mean_opt (map (\<lambda>r. case f_attempt_number r of
                              None \<Rightarrow> None
                            | Some n \<Rightarrow> Some (if 1 < n then 1 else 0)) rows),
         ad_avg_attempt_number =
           mean_opt (map (\<lambda>r. case f_attempt_number r of
                              None \<Rightarrow> None
                            | Some n \<Rightarrow> Some (of_int n)) rows)\<rparr>)"

text \<open>
  \<open>build_agg_activity_daily_from_fact\<close>: one row per group, sorted by date (nulls first)
  and then by falling attempts. The engine fixes no order among rows that tie on both; the
  model takes the groups in the order they first appear and sorts them stably.
\<close>

definition build_agg_activity_daily_from_fact :: "fact_row list \<Rightarrow> activity_daily list" where
  "build_agg_activity_daily_from_fact fact_rows =
     sort_key (\<lambda>g. (ad_date_utc g, - int (ad_attempts g)))
       (map (\<lambda>k. aggregate_activity_group k (filter (\<lambda>r. activity_group_key r = k) fact_rows))
          (remdups (map activity_group_key fact_rows)))"

text \<open>
  The fixture: activity \<open>a1\<close> on one day; student \<open>A\<close> answers wrong and then right,
  student \<open>B\<close> answers right.
\<close>

definition fixture_attempt :: "string \<Rightarrow> bool \<Rightarrow> int \<Rightarrow> fact_row" where
  "fixture_attempt user correct attempt =
     \<lparr>f_date_utc = Some 20089, f_user_id = Some user, f_activity_id = Some ''a1'',
      f_activity_label = Some ''Activity 1'', f_objective_id = Some ''o1'',
      f_objective_label = Some ''Objective 1'', f_module_id = Some ''m1'',
      f_module_code = Some ''M1'', f_module_label = Some ''Module 1'',
      f_exercise_id = None, f_work_mode = Some ''playlist'', f_data_correct = Some correct,
      f_data_duration = None, f_attempt_number = Some attempt\<rparr>"

definition fixture_fact :: "fact_row list" where
  "fixture_fact =
     [fixture_attempt ''A'' False 1, fixture_attempt ''A'' True 2, fixture_attempt ''B'' True 1]"

section \<open>The objective-activity matrix\<close>

text \<open>
  A row of \<open>agg_activity_daily\<close> or of \<open>agg_exercise_daily\<close>, with the columns
  \<open>build_objective_activity_cells\<close> reads (\<open>exercise_id\<close> belongs to the exercise frame
  only). Every column may hold null; counts and rates are modelled by their exact value.
\<close>

record daily_row =
  dr_date_utc :: "int option"
  dr_module_code :: "string option"
  dr_objective_id :: "string option"
  dr_activity_id :: "string option"
  dr_exercise_id :: "string option"
  dr_objective_label :: "string option"
  dr_activity_label :: "string option"
  dr_attempts :: "rat option"
  dr_success_rate :: "rat option"
  dr_repeat_attempt_rate :: "rat option"
  dr_first_attempt_success_rate :: "rat option"
  dr_first_attempt_count :: "rat option"

text \<open>
  The four dicts that \<open>_summary_maps\<close> returns for the summary payload and the module.
  They only decide the order of rows and columns and the fallback labels, and are taken as
  they are.
\<close>

record summary_maps =
  objective_order_map :: "(string \<times> nat) list"
  objective_activity_order_map :: "(string \<times> (string \<times> nat) list) list"
  objective_summary_label_map :: "(string \<times> string) list"
  activity_summary_label_map :: "(string \<times> string) list"

text \<open>
  A dict of the list \<open>aggregated\<close>: the key columns, the two labels, and the sums or the
  rate that the branch of the metric computes (\<open>None\<close> for a key that the branch does not
  produce, as \<open>row.get\<close> gives it).
\<close>

record aggregated_row =
  ag_objective_id :: "string option"
  ag_activity_id :: "string option"
  ag_objective_label :: "string option"
  ag_activity_label :: "string option"
  ag_attempts_sum :: "rat option"
  ag_weighted_success_sum :: "rat option"
  ag_weighted_repeat_sum :: "rat option"
  ag_weighted_first_attempt_success_sum :: "rat option"
  ag_first_attempt_count_sum :: "rat option"
  ag_exercise_balanced_success_rate :: "rat option"
  ag_playlist_unique_exercises :: "rat option"

text \<open>A row of the cells frame that the builder returns.\<close>

record cell_record =
  cr_module_code :: string
  cr_objective_id :: string
  cr_objective_label :: string
  cr_objective_row_label :: string
  cr_activity_id :: string
  cr_activity_label :: string
  cr_activity_col_idx :: nat
  cr_activity_col_label :: string
  cr_metric_value :: rat
  cr_metric_text :: string

text \<open>An entry of \<open>per_objective[objective_id]["activities"]\<close>.\<close>

record activity_entry =
  ae_activity_id :: string
  ae_activity_label :: string
  ae_metric_value :: rat

definition VALID_MATRIX_METRICS :: "string list" where
  "VALID_MATRIX_METRICS =
     [''attempts'', ''success_rate'', ''exercise_balanced_success_rate'',
      ''repeat_attempt_rate'', ''first_attempt_success_rate'', ''playlist_unique_exercises'']"

text \<open>
  The filter on the module and the date window: a comparison with null is null, and the
  filter drops the row.
\<close>

definition in_window :: "string \<Rightarrow> int \<Rightarrow> int \<Rightarrow> string option \<Rightarrow> int option \<Rightarrow> bool" where
  "in_window module_code_v start_date end_date mc d =
     (mc = Some module_code_v
      \<and> (case d of None \<Rightarrow> False | Some day \<Rightarrow> start_date \<le> day \<and> day \<le> end_date))"

text \<open>\<open>drop_nulls().first()\<close>, and the product of two columns (null when either is).\<close>

definition first_non_null :: "'a option list \<Rightarrow> 'a option" where
  "first_non_null vs = (case non_nulls vs of [] \<Rightarrow> None | v # _ \<Rightarrow> Some v)"

definition mul_opt :: "rat option \<Rightarrow> rat option \<Rightarrow> rat option" where
  "mul_opt a b = (case a of None \<Rightarrow> None
     | Some x \<Rightarrow> (case b of None \<Rightarrow> None | Some y \<Rightarrow> Some (x * y)))"

text \<open>
  \<open>group_by(...).agg(...)\<close>: one result per distinct key, computed from the rows with
  that key. The engine fixes no order of the groups; the model lists them as \<open>remdups\<close>
  lists their keys.
\<close>

definition group_by :: "('r \<Rightarrow> 'k) \<Rightarrow> ('k \<Rightarrow> 'r list \<Rightarrow> 'g) \<Rightarrow> 'r list \<Rightarrow> 'g list" where
  "group_by key agg rows =
     map (\<lambda>k. agg k (filter (\<lambda>r. key r = k) rows)) (remdups (map key rows))"

text \<open>The branch of the metrics that are recombined from the activity-daily rows.\<close>

definition aggregate_daily ::
  "string option \<times> string option \<Rightarrow> daily_row list \<Rightarrow> aggregated_row" where
  "aggregate_daily k rows =
     \<lparr>ag_objective_id = fst k,
      ag_activity_id = snd k,
      ag_objective_label = first_non_null (map dr_objective_label rows),
      ag_activity_label = first_non_null (map dr_activity_label rows),
      ag_attempts_sum = Some (sum_opt (map dr_attempts rows)),
      ag_weighted_success_sum =
        Some (sum_opt (map (\<lambda>r. mul_opt (dr_success_rate r) (dr_attempts r)) rows)),
      ag_weighted_repeat_sum =
        Some (sum_opt (map (\<lambda>r. mul_opt (dr_repeat_attempt_rate r) (dr_attempts r)) rows)),
      ag_weighted_first_attempt_success_sum =
        Some (sum_opt (map (\<lambda>r. mul_opt (dr_first_attempt_success_rate r)
                                    (dr_first_attempt_count r)) rows)),
      ag_first_attempt_count_sum = Some (sum_opt (map dr_first_attempt_count rows)),
      ag_exercise_balanced_success_rate = None,
      ag_playlist_unique_exercises = None\<rparr>"

text \<open>
  The branch of \<open>exercise_balanced_success_rate\<close>: the rate of one exercise from its rows
  (null when its attempts do not sum above 0), then the mean of the rates of the exercises
  of one activity that are not null.
\<close>

definition exercise_success_rate :: "daily_row list \<Rightarrow> rat option" where
  "exercise_success_rate rows =
     (let exercise_attempts_sum = sum_opt (map dr_attempts rows);
          exercise_weighted_success_sum =
            sum_opt (map (\<lambda>r. mul_opt (dr_success_rate r) (dr_attempts r)) rows)
      in if 0 < exercise_attempts_sum
         then Some (exercise_weighted_success_sum / exercise_attempts_sum) else None)"

record exercise_group =
  eg_objective_id :: "string option"
  eg_activity_id :: "string option"
  eg_objective_label :: "string option"
  eg_activity_label :: "string option"
  eg_exercise_success_rate :: "rat option"

definition aggregate_exercise ::
  "string option \<times> string option \<times> string option \<Rightarrow> daily_row list \<Rightarrow> exercise_group" where
  "aggregate_exercise k rows =
     \<lparr>eg_objective_id = fst k,
      eg_activity_id = fst (snd k),
      eg_objective_label = first_non_null (map dr_objective_label rows),
      eg_activity_label = first_non_null (map dr_activity_label rows),
      eg_exercise_success_rate = exercise_success_rate rows\<rparr>"

definition aggregate_balanced ::
  "string option \<times> string option \<Rightarrow> exercise_group list \<Rightarrow> aggregated_row" where
  "aggregate_balanced k groups =
     \<lparr>ag_objective_id = fst k,
      ag_activity_id = snd k,
      ag_objective_label = first_non_null (map eg_objective_label groups),
      ag_activity_label = first_non_null (map eg_activity_label groups),
      ag_attempts_sum = None,
      ag_weighted_success_sum = None,
      ag_weighted_repeat_sum = None,
      ag_weighted_first_attempt_success_sum = None,
      ag_first_attempt_count_sum = None,
      ag_exercise_balanced_success_rate = mean_opt (map eg_exercise_success_rate groups),
      ag_playlist_unique_exercises = None\<rparr>"

text \<open>The branch of \<open>playlist_unique_exercises\<close>, from the fact table.\<close>

definition playlist_filter :: "string \<Rightarrow> int \<Rightarrow> int \<Rightarrow> fact_row \<Rightarrow> bool" where
  "playlist_filter module_code_v start_date end_date r =
     (in_window module_code_v start_date end_date (f_module_code r) (f_date_utc r)
      \<and> f_work_mode r = Some ''playlist''
      \<and> f_objective_id r \<noteq> None \<and> f_objective_id r \<noteq> Some ''None''
      \<and> f_activity_id r \<noteq> None \<and> f_activity_id r \<noteq> Some ''None''
      \<and> f_exercise_id r \<noteq> None \<and> f_exercise_id r \<noteq> Some ''None'')"

definition aggregate_playlist ::
  "string option \<times> string option \<Rightarrow> fact_row list \<Rightarrow> aggregated_row" where
  "aggregate_playlist k rows =
     \<lparr>ag_objective_id = fst k,
      ag_activity_id = snd k,
      ag_objective_label = first_non_null (map f_objective_label rows),
      ag_activity_label = first_non_null (map f_activity_label rows),
      ag_attempts_sum = None,
      ag_weighted_success_sum = None,
      ag_weighted_repeat_sum = None,
      ag_weighted_first_attempt_success_sum = None,
      ag_first_attempt_count_sum = None,
      ag_exercise_balanced_success_rate = None,
      ag_playlist_unique_exercises =
        Some (of_nat (length (remdups (map f_exercise_id rows))))\<rparr>"

text \<open>
  The list \<open>aggregated\<close> of the metric, or \<open>ValueError\<close> when the frame that the metric
  needs is not given. An empty exercise window makes the builder return the empty frame,
  as an empty list \<open>aggregated\<close> does.
\<close>

definition aggregated_rows ::
  "string \<Rightarrow> int \<Rightarrow> int \<Rightarrow> string \<Rightarrow> daily_row list \<Rightarrow> daily_row list option
     \<Rightarrow> fact_row list option \<Rightarrow> py_error + aggregated_row list" where
  "aggregated_rows module_code_v start_date end_date metric filtered agg_exercise_daily
       fact_attempt_core =
     (if metric = ''exercise_balanced_success_rate''
      then (case agg_exercise_daily of
              None \<Rightarrow> Inl ValueError
            | Some exercise_frame \<Rightarrow>
                Inr (group_by (\<lambda>g. (eg_objective_id g, eg_activity_id g)) aggregate_balanced
                  (group_by (\<lambda>r. (dr_objective_id r, dr_activity_id r, dr_exercise_id r))
                     aggregate_exercise
                     (filter (\<lambda>r. in_window module_code_v start_date end_date
                                 (dr_module_code r) (dr_date_utc r)) exercise_frame))))
      else if metric = ''playlist_unique_exercises''
      then (case fact_attempt_core of
              None \<Rightarrow> Inl ValueError
            | Some fact_rows \<Rightarrow>
                Inr (group_by (\<lambda>r. (f_objective_id r, f_activity_id r)) aggregate_playlist
                  (filter (playlist_filter module_code_v start_date end_date) fact_rows)))
      else Inr (group_by (\<lambda>r. (dr_objective_id r, dr_activity_id r)) aggregate_daily
                  filtered))"

text \<open>
  \<open>str(x or "").strip()\<close>, \<open>_safe_label\<close>, \<open>a or b\<close> on labels, and \<open>float(x or 0.0)\<close>.
\<close>

definition str_or_empty :: "string option \<Rightarrow> string" where
  "str_or_empty v = py_strip (case v of None \<Rightarrow> [] | Some s \<Rightarrow> s)"

definition safe_label :: "string option \<Rightarrow> string option \<Rightarrow> string" where
  "safe_label label_v identifier =
     (let normalized = str_or_empty label_v in
      if normalized \<noteq> [] then normalized else str_or_empty identifier)"

definition label_or :: "string option \<Rightarrow> string option \<Rightarrow> string option" where
  "label_or a b = (case a of None \<Rightarrow> b | Some s \<Rightarrow> if s = [] then b else Some s)"

definition float_or_zero :: "rat option \<Rightarrow> rat" where
  "float_or_zero v = (case v of None \<Rightarrow> 0 | Some x \<Rightarrow> x)"

text \<open>
  The metric value of one aggregated dict; \<open>None\<close> where the loop skips the dict
  (\<open>continue\<close>).
\<close>

definition metric_value_of :: "string \<Rightarrow> aggregated_row \<Rightarrow> rat option" where
  "metric_value_of metric row =
     (if metric = ''exercise_balanced_success_rate''
      then ag_exercise_balanced_success_rate row
      else if metric = ''playlist_unique_exercises''
      then Some (float_or_zero (ag_playlist_unique_exercises row))
      else (let attempts_sum = float_or_zero (ag_attempts_sum row) in
        if metric = ''attempts'' then Some attempts_sum
        else if attempts_sum \<le> 0 then Some 0
        else if metric = ''success_rate''
        then Some (float_or_zero (ag_weighted_success_sum row) / attempts_sum)
        else if metric = ''first_attempt_success_rate''
        then (let first_attempt_count_sum = float_or_zero (ag_first_attempt_count_sum row) in
          if first_attempt_count_sum \<le> 0 then Some 0
          else Some (float_or_zero (ag_weighted_first_attempt_success_sum row)
                       / first_attempt_count_sum))
        else Some (float_or_zero (ag_weighted_repeat_sum row) / attempts_sum)))"

text \<open>
  One turn of the loop that fills \<open>per_objective\<close>: the dict maps an objective to its label
  (that of the first dict seen for it) and the list of its activities.
\<close>

definition add_aggregated ::
  "string \<Rightarrow> summary_maps \<Rightarrow> (string \<times> string \<times> activity_entry list) list \<Rightarrow> aggregated_row
     \<Rightarrow> (string \<times> string \<times> activity_entry list) list" where
  "add_aggregated metric maps per_objective row =
     (let objective_id = str_or_empty (ag_objective_id row);
          activity_id = str_or_empty (ag_activity_id row)
      in if objective_id = [] \<or> activity_id = [] then per_objective
         else (let objective_label =
                     safe_label (label_or (ag_objective_label row)
                                   (map_of (objective_summary_label_map maps) objective_id))
                       (Some objective_id);
                   activity_label =
                     safe_label (label_or (ag_activity_label row)
                                   (map_of (activity_summary_label_map maps) activity_id))
                       (Some activity_id)
               in case metric_value_of metric row of
                    None \<Rightarrow> per_objective
                  | Some metric_value \<Rightarrow>
                      (let entry = \<lparr>ae_activity_id = activity_id,
                                     ae_activity_label = activity_label,
                                     ae_metric_value = metric_value\<rparr>
                       in case map_of per_objective objective_id of
                            None \<Rightarrow>
                              AList.update objective_id (objective_label, [entry]) per_objective
                          | Some (lab, activities) \<Rightarrow>
                              AList.update objective_id (lab, activities @ [entry])
                                per_objective)))"

text \<open>The order of the objectives, and the row label of each.\<close>

definition ordered_objectives ::
  "summary_maps \<Rightarrow> (string \<times> string \<times> activity_entry list) list \<Rightarrow> string list" where
  "ordered_objectives maps per_objective =
     (let ordered_summary_objectives =
            filter (\<lambda>objective_id. map_of per_objective objective_id \<noteq> None)
              (map fst (sort_key snd (objective_order_map maps)));
          fallback_objectives =
            sort_key (\<lambda>objective_id.
                (py_lower (case map_of per_objective objective_id of
                             None \<Rightarrow> [] | Some (lab, activities) \<Rightarrow> lab),
                 objective_id))
              (filter (\<lambda>objective_id. map_of (objective_order_map maps) objective_id = None)
                 (map fst per_objective))
      in ordered_summary_objectives @ fallback_objectives)"

definition objective_base_label ::
  "(string \<times> string \<times> activity_entry list) list \<Rightarrow> string \<Rightarrow> string" where
  "objective_base_label per_objective objective_id =
     safe_label (case map_of per_objective objective_id of
                   None \<Rightarrow> None | Some (lab, activities) \<Rightarrow> Some lab)
       (Some objective_id)"

definition objective_row_label ::
  "(string \<times> string \<times> activity_entry list) list \<Rightarrow> string list \<Rightarrow> string \<Rightarrow> string" where
  "objective_row_label per_objective ordered objective_id =
     (let base_label = objective_base_label per_objective objective_id;
          label_count = length (filter (\<lambda>other. objective_base_label per_objective other
                                             = base_label) (remdups ordered))
      in if label_count \<le> 1 then base_label
         else base_label @ '' ('' @ take 8 objective_id @ '')'')"

text \<open>The ordered activities of one objective, and their records.\<close>

definition ordered_activities :: "(string \<times> nat) list \<Rightarrow> activity_entry list \<Rightarrow> activity_entry list" where
  "ordered_activities activity_order_map activity_rows =
     (let in_summary_activities =
            filter (\<lambda>row. map_of activity_order_map (ae_activity_id row) \<noteq> None)
              (sort_key (\<lambda>row. case map_of activity_order_map (ae_activity_id row) of
                                  None \<Rightarrow> (10 :: int) ^ 9 | Some i \<Rightarrow> int i)
                 activity_rows);
          fallback_activities =
            sort_key (\<lambda>row. (py_lower (ae_activity_label row), ae_activity_id row))
              (filter (\<lambda>row. map_of activity_order_map (ae_activity_id row) = None)
                 activity_rows)
      in in_summary_activities @ fallback_activities)"

definition objective_records ::
  "(string \<Rightarrow> rat \<Rightarrow> string) \<Rightarrow> string \<Rightarrow> string \<Rightarrow> summary_maps
     \<Rightarrow> (string \<times> string \<times> activity_entry list) list \<Rightarrow> string list \<Rightarrow> string
     \<Rightarrow> cell_record list" where
  "objective_records format_cell_value module_code_v metric maps per_objective ordered
       objective_id =
     (let activity_rows = (case map_of per_objective objective_id of
             None \<Rightarrow> [] | Some (lab, activities) \<Rightarrow> activities);
          activity_order_map = (case map_of (objective_activity_order_map maps) objective_id of
             None \<Rightarrow> [] | Some m \<Rightarrow> m);
          ordered_rows = ordered_activities activity_order_map activity_rows
      in map (\<lambda>(idx, activity_row).
               \<lparr>cr_module_code = module_code_v,
                cr_objective_id = objective_id,
                cr_objective_label = objective_base_label per_objective objective_id,
                cr_objective_row_label = objective_row_label per_objective ordered objective_id,
                cr_activity_id = ae_activity_id activity_row,
                cr_activity_label = safe_label (Some (ae_activity_label activity_row))
                                      (Some (ae_activity_id activity_row)),
                cr_activity_col_idx = idx,
                cr_activity_col_label = ''A'' @ str_of_nat idx,
                cr_metric_value = ae_metric_value activity_row,
                cr_metric_text = format_cell_value metric (ae_metric_value activity_row)\<rparr>)
           (zip [1 ..< length ordered_rows + 1] ordered_rows))"

text \<open>
  \<open>build_objective_activity_cells\<close>: the rows of the cells frame, or \<open>ValueError\<close>.
  \<open>format_cell_value\<close>, which prints a float, is a parameter. The frames are given with all
  the columns the builder requires or fills in.
\<close>

definition build_objective_activity_cells ::
  "(string \<Rightarrow> rat \<Rightarrow> string) \<Rightarrow> daily_row list \<Rightarrow> string \<Rightarrow> int \<Rightarrow> int \<Rightarrow> string
     \<Rightarrow> summary_maps \<Rightarrow> daily_row list option \<Rightarrow> fact_row list option
     \<Rightarrow> py_error + cell_record list" where
  "build_objective_activity_cells format_cell_value agg_activity_daily module_code_v start_date
       end_date metric maps agg_exercise_daily fact_attempt_core =
     (if metric \<notin> set VALID_MATRIX_METRICS then Inl ValueError
      else (let filtered = filter (\<lambda>r. in_window module_code_v start_date end_date
                                       (dr_module_code r) (dr_date_utc r)) agg_activity_daily
            in if filtered = [] then Inr []
               else (case aggregated_rows module_code_v start_date end_date metric filtered
                            agg_exercise_daily fact_attempt_core of
                       Inl e \<Rightarrow> Inl e
                     | Inr aggregated \<Rightarrow>
                         (let per_objective = foldl (add_aggregated metric maps) [] aggregated;
                              ordered = ordered_objectives maps per_objective
                          in Inr (concat (map (objective_records format_cell_value
                                                 module_code_v metric maps per_objective
                                                 ordered) ordered))))))"


text \<open>
  The invariant of the loop that fills \<open>per_objective\<close>: every activity entry comes from
  a dict of \<open>aggregated\<close> with its stripped identifiers and its metric value.
\<close>

definition sourced ::
  "string \<Rightarrow> aggregated_row list \<Rightarrow> (string \<times> string \<times> activity_entry list) list \<Rightarrow> bool" where
  "sourced metric aggregated per_objective =
     (\<forall>(objective_id, lab, activities) \<in> set per_objective. \<forall>a \<in> set activities.
        \<exists>row \<in> set aggregated. str_or_empty (ag_objective_id row) = objective_id
           \<and> str_or_empty (ag_activity_id row) = ae_activity_id a
           \<and> metric_value_of metric row = Some (ae_metric_value a))"

text \<open>
  The recombination in the words of the specification: the source rows of a cell are the
  rows of the module and date window with the objective and activity of the cell;
  \<open>weighted_sum\<close> is the sum of rate times weight over them and \<open>total\<close> the sum of the
  weights (a null term is skipped, as the engine skips it).
\<close>

definition window_rows ::
  "string \<Rightarrow> int \<Rightarrow> int \<Rightarrow> string option \<Rightarrow> string option \<Rightarrow> daily_row list
     \<Rightarrow> daily_row list" where
  "window_rows module_code_v start_date end_date oid aid rows =
     filter (\<lambda>r. in_window module_code_v start_date end_date (dr_module_code r) (dr_date_utc r)
                \<and> dr_objective_id r = oid \<and> dr_activity_id r = aid) rows"

definition weighted_sum ::
  "(daily_row \<Rightarrow> rat option) \<Rightarrow> (daily_row \<Rightarrow> rat option) \<Rightarrow> daily_row list \<Rightarrow> rat" where
  "weighted_sum rate weight rows = sum_opt (map (\<lambda>r. mul_opt (rate r) (weight r)) rows)"

definition total :: "(daily_row \<Rightarrow> rat option) \<Rightarrow> daily_row list \<Rightarrow> rat" where
  "total weight rows = sum_opt (map weight rows)"

text \<open>
  For the exercise-balanced rate: the rows of one exercise of the cell, the exercises of
  the cell whose attempts sum above 0, and the plain mean of a list of rates.
\<close>

definition exercise_rows ::
  "string \<Rightarrow> int \<Rightarrow> int \<Rightarrow> string option \<Rightarrow> string option \<Rightarrow> string option
     \<Rightarrow> daily_row list \<Rightarrow> daily_row list" where
  "exercise_rows module_code_v start_date end_date oid aid eid rows =
     filter (\<lambda>r. dr_exercise_id r = eid)
       (window_rows module_code_v start_date end_date oid aid rows)"

definition exercise_rates ::
  "string \<Rightarrow> int \<Rightarrow> int \<Rightarrow> string option \<Rightarrow> string option \<Rightarrow> daily_row list \<Rightarrow> rat list" where
  "exercise_rates module_code_v start_date end_date oid aid rows =
     map (\<lambda>eid. weighted_sum dr_success_rate dr_attempts
                    (exercise_rows module_code_v start_date end_date oid aid eid rows)
                  / total dr_attempts
                      (exercise_rows module_code_v start_date end_date oid aid eid rows))
       (filter (\<lambda>eid. 0 < total dr_attempts
                               (exercise_rows module_code_v start_date end_date oid aid eid rows))
          (remdups (map dr_exercise_id
                      (window_rows module_code_v start_date end_date oid aid rows))))"

definition arithmetic_mean :: "rat list \<Rightarrow> rat" where
  "arithmetic_mean xs = sum_list xs / of_nat (length xs)"


text \<open>
  The fixture: in module \<open>M1\<close>, activity \<open>a1\<close> of objective \<open>o1\<close> has 10 attempts at
  rate 1/2 on one day and 30 attempts at rate 4/5 on the next, and activity \<open>a2\<close> has one
  row with no attempt. In the exercise frame the same attempts of \<open>a1\<close> belong to exercise
  \<open>e1\<close>, and exercise \<open>e2\<close> has 2 attempts at rate 1. No summary is given.
\<close>

definition fixture_daily_row ::
  "int \<Rightarrow> string \<Rightarrow> string option \<Rightarrow> rat \<Rightarrow> rat option \<Rightarrow> rat option \<Rightarrow> rat option \<Rightarrow> rat
     \<Rightarrow> daily_row" where
  "fixture_daily_row day aid eid attempts success repeat first_rate first_count =
     \<lparr>dr_date_utc = Some day, dr_module_code = Some ''M1'', dr_objective_id = Some ''o1'',
      dr_activity_id = Some aid, dr_exercise_id = eid, dr_objective_label = None,
      dr_activity_label = None, dr_attempts = Some attempts, dr_success_rate = success,
      dr_repeat_attempt_rate = repeat, dr_first_attempt_success_rate = first_rate,
      dr_first_attempt_count = Some first_count\<rparr>"

definition fixture_activity_daily :: "daily_row list" where
  "fixture_activity_daily =
     [fixture_daily_row 1 ''a1'' None 10 (Some (1 / 2)) (Some (1 / 5)) (Some 1) 4,
      fixture_daily_row 2 ''a1'' None 30 (Some (4 / 5)) (Some (1 / 10)) (Some (1 / 2)) 6,
      fixture_daily_row 1 ''a2'' None 0 None None None 0]"

definition fixture_exercise_daily :: "daily_row list" where
  "fixture_exercise_daily =
     [fixture_daily_row 1 ''a1'' (Some ''e1'') 10 (Some (1 / 2)) None None 0,
      fixture_daily_row 2 ''a1'' (Some ''e1'') 30 (Some (4 / 5)) None None 0,
      fixture_daily_row 1 ''a1'' (Some ''e2'') 2 (Some 1) None None 0]"

definition no_summary :: summary_maps where
  "no_summary = \<lparr>objective_order_map = [], objective_activity_order_map = [],
     objective_summary_label_map = [], activity_summary_label_map = []\<rparr>"

section \<open>The reconciled fact table\<close>

text \<open>
  \<open>build_fact_attempt_core\<close> of \<open>derive.py\<close> joins the raw attempt events with four frames
  that it builds from the catalog and the rules. The model starts where the payloads are
  loaded: \<open>activity_hierarchy\<close> is the frame of that name of
  \<open>catalog_to_summary_frames\<close>, with the seven columns that \<open>derive.py\<close> selects from
  it; \<open>exercise_to_hierarchy\<close>, \<open>id_to_codes\<close> and \<open>code_to_id\<close> are the JSON objects of
  these names, as the lists of their items, where a value of the wrong JSON type is
  \<open>None\<close>. Of a raw event the four identifier columns are kept. Of a reconciled row the
  model keeps the normalized \<open>playlist_or_module_id\<close> and \<open>exercise_id\<close>, the module
  identifier and code, \<open>mapping_source\<close> and \<open>fallback_code_raw\<close>; the labels and the
  objective and activity columns are left out. Where the engine leaves the order of rows
  open (\<open>unique()\<close>), the model keeps the order of the frame.
\<close>

record raw_event =
  ev_playlist_or_module_id :: "string option"
  ev_objective_id :: "string option"
  ev_activity_id :: "string option"
  ev_exercise_id :: "string option"

record hierarchy_row =
  h_activity_id :: "string option"
  h_objective_id_summary :: "string option"
  h_objective_label :: "string option"
  h_activity_label :: "string option"
  h_module_id :: "string option"
  h_module_code :: "string option"
  h_module_label :: "string option"

record exercise_mapping =
  em_activity_id :: "string option"
  em_objective_id :: "string option"
  em_module_id :: "string option"

record exercise_hierarchy_row =
  eh_exercise_id :: string
  eh_activity_id_exercise_summary :: "string option"
  eh_objective_id_exercise_summary :: "string option"
  eh_module_id_exercise_summary :: "string option"
  eh_activity_label_exercise_summary :: "string option"
  eh_objective_label_exercise_summary :: "string option"
  eh_module_label_exercise_summary :: "string option"
  eh_module_code_exercise_summary :: "string option"

record reconciled_row =
  rr_playlist_or_module_id :: "string option"
  rr_exercise_id :: "string option"
  rr_module_id :: "string option"
  rr_module_code :: "string option"
  rr_mapping_source :: string
  rr_fallback_code_raw :: "string option"

text \<open>
  The frame operations. \<open>unique(subset=..., keep="first")\<close> keeps the first row of every
  key, and null is a key like any other. A left join pairs a row with every row of the
  right frame that has its key, and with nulls (\<open>None\<close>) when there is none; a null key
  matches nothing. \<open>coalesce\<close> is the first value that is not null.
\<close>

fun unique_from :: "'k list \<Rightarrow> ('r \<Rightarrow> 'k) \<Rightarrow> 'r list \<Rightarrow> 'r list" where
  "unique_from seen key [] = []"
| "unique_from seen key (r # rows) =
     (if key r \<in> set seen then unique_from seen key rows
      else r # unique_from (key r # seen) key rows)"

definition unique_by :: "('r \<Rightarrow> 'k) \<Rightarrow> 'r list \<Rightarrow> 'r list" where
  "unique_by key rows = unique_from [] key rows"

definition join_matches :: "('r \<Rightarrow> 'k option) \<Rightarrow> 'r list \<Rightarrow> 'k option \<Rightarrow> 'r option list" where
  "join_matches key right k =
     (case filter (\<lambda>r. k \<noteq> None \<and> key r = k) right of
        [] \<Rightarrow> [None]
      | matches \<Rightarrow> map Some matches)"

definition left_join ::
  "('l \<Rightarrow> 'k option) \<Rightarrow> ('r \<Rightarrow> 'k option) \<Rightarrow> 'l list \<Rightarrow> 'r list \<Rightarrow> ('l \<times> 'r option) list" where
  "left_join left_key right_key left right =
     concat (map (\<lambda>l. map (\<lambda>m. (l, m)) (join_matches right_key right (left_key l))) left)"

primrec coalesce :: "'a option list \<Rightarrow> 'a option" where
  "coalesce [] = None"
| "coalesce (v # vs) = (case v of None \<Rightarrow> coalesce vs | Some x \<Rightarrow> Some x)"

definition column :: "('r \<Rightarrow> 'a option) \<Rightarrow> 'r option \<Rightarrow> 'a option" where
  "column col joined = (case joined of None \<Rightarrow> None | Some r \<Rightarrow> col r)"

text \<open>
  \<open>_normalized_id_expr\<close>: \<open>str.strip_chars()\<close> removes the white space of Unicode at both
  ends (below 256: 9 to 13, 32, 133 and 160), and a placeholder becomes null.
\<close>

definition is_whitespace :: "char \<Rightarrow> bool" where
  "is_whitespace c = (let n = (of_char c :: nat) in
     (9 \<le> n \<and> n \<le> 13) \<or> n = 32 \<or> n = 133 \<or> n = 160)"

definition strip_chars :: "string \<Rightarrow> string" where
  "strip_chars s = rev (dropWhile is_whitespace (rev (dropWhile is_whitespace s)))"

definition ID_PLACEHOLDER_VALUES_LOWER :: "string list" where
  "ID_PLACEHOLDER_VALUES_LOWER = [[], ''none'', ''null'', ''nan'']"

definition normalized_id_expr :: "string option \<Rightarrow> string option" where
  "normalized_id_expr v = (case v of
       None \<Rightarrow> None
     | Some s \<Rightarrow> (let normalized = strip_chars s in
         if py_lower normalized \<in> set ID_PLACEHOLDER_VALUES_LOWER then None
         else Some normalized))"

text \<open>\<open>_hierarchy_map_from_catalog\<close>: the selected columns, and \<open>unique()\<close> on whole rows.\<close>

definition hierarchy_map_from_catalog :: "hierarchy_row list \<Rightarrow> hierarchy_row list" where
  "hierarchy_map_from_catalog activity_hierarchy = unique_by (\<lambda>row. row) activity_hierarchy"

text \<open>
  \<open>_exercise_hierarchy_map_from_catalog\<close>: one row for every exercise of
  \<open>exercise_to_hierarchy\<close> whose identifier is not blank and whose value is an object,
  joined on the recorded activity with the first row that \<open>activity_hierarchy\<close> has for
  that activity.
\<close>

definition exercise_hierarchy_row_of ::
  "string \<times> exercise_mapping \<Rightarrow> hierarchy_row option \<Rightarrow> exercise_hierarchy_row" where
  "exercise_hierarchy_row_of item joined =
     \<lparr>eh_exercise_id = fst item,
      eh_activity_id_exercise_summary = em_activity_id (snd item),
      eh_objective_id_exercise_summary =
        coalesce [em_objective_id (snd item), column h_objective_id_summary joined],
      eh_module_id_exercise_summary =
        coalesce [em_module_id (snd item), column h_module_id joined],
      eh_activity_label_exercise_summary = column h_activity_label joined,
      eh_objective_label_exercise_summary = column h_objective_label joined,
      eh_module_label_exercise_summary = column h_module_label joined,
      eh_module_code_exercise_summary = column h_module_code joined\<rparr>"

definition exercise_hierarchy_map_from_catalog ::
  "hierarchy_row list \<Rightarrow> (string \<times> exercise_mapping option) list \<Rightarrow> exercise_hierarchy_row list" where
  "exercise_hierarchy_map_from_catalog activity_hierarchy exercise_to_hierarchy =
     (let rows = concat (map (\<lambda>(exercise_id, mapping).
             if py_strip exercise_id = [] then []
             else (case mapping of None \<Rightarrow> [] | Some m \<Rightarrow> [(exercise_id, m)]))
           exercise_to_hierarchy);
          map_df = unique_by fst rows;
          activity_label_lookup = unique_by h_activity_id activity_hierarchy
      in unique_by eh_exercise_id
           (map (\<lambda>(item, joined). exercise_hierarchy_row_of item joined)
              (left_join (\<lambda>item. em_activity_id (snd item)) h_activity_id map_df
                 activity_label_lookup)))"

text \<open>
  \<open>_rules_id_code_frame\<close>: the graph identifiers that are not blank, each with the code
  that \<open>chosen_code\<close> picks among its codes.
\<close>

definition rules_id_code_frame ::
  "(string \<times> string option list option) list \<Rightarrow> (string \<times> string) list" where
  "rules_id_code_frame id_to_codes =
     unique_by fst (concat (map (\<lambda>(graph_id, raw_codes).
         if py_strip graph_id = [] then []
         else (case raw_codes of
                 None \<Rightarrow> []
               | Some codes \<Rightarrow> (case chosen_code codes of
                     None \<Rightarrow> []
                   | Some code \<Rightarrow> [(graph_id, code)])))
       id_to_codes))"

text \<open>
  The module frame of \<open>_catalog_code_frames\<close>: the pairs of \<open>code_to_id\<close> whose code and
  identifier are strings that are not blank and whose code matches \<open>^M\d+$\<close> (for the
  engine \<open>$\<close> is the end of the text only), without the label column.
\<close>

definition module_code_frame :: "(string \<times> string option) list \<Rightarrow> (string \<times> string) list" where
  "module_code_frame code_map =
     unique_by fst
       (filter (\<lambda>(code, identifier).
            case eat_module code of None \<Rightarrow> False | Some (m, rest) \<Rightarrow> rest = [])
          (concat (map (\<lambda>(code, identifier).
               if py_strip code = [] then []
               else (case identifier of
                       None \<Rightarrow> []
                     | Some i \<Rightarrow> if py_strip i = [] then [] else [(code, i)]))
             code_map)))"

text \<open>
  The joins on the frames that are unique in their key give one row each: the row of
  the right frame with the key, if there is one. \<open>str.extract\<close> with \<open>^(M\d+)\<close> gives the
  module prefix of a code, or null.
\<close>

definition joined_row :: "('r \<Rightarrow> 'k) \<Rightarrow> 'r list \<Rightarrow> 'k option \<Rightarrow> 'r option" where
  "joined_row key right k =
     (case k of None \<Rightarrow> None | Some v \<Rightarrow> find (\<lambda>r. key r = v) right)"

definition extract_module_code :: "string option \<Rightarrow> string option" where
  "extract_module_code code = (case code of
       None \<Rightarrow> None
     | Some c \<Rightarrow> (case eat_module c of None \<Rightarrow> None | Some (m, rest) \<Rightarrow> Some m))"

text \<open>
  The columns of one joined row: \<open>joined\<close> is the row of \<open>hierarchy\<close> that the join on
  \<open>activity_id\<close> pairs with the event, the other frames are looked up with the normalized
  identifiers of the event.
\<close>

definition fallback_code_raw ::
  "(string \<times> string) list \<Rightarrow> raw_event \<Rightarrow> string option" where
  "fallback_code_raw graph_id_code event =
     (let graph_code = (\<lambda>identifier.
            column (\<lambda>row. Some (snd row))
              (joined_row fst graph_id_code (normalized_id_expr identifier)))
      in coalesce [graph_code (ev_activity_id event), graph_code (ev_objective_id event),
           graph_code (ev_exercise_id event), graph_code (ev_playlist_or_module_id event)])"

definition mapping_source :: "string option \<Rightarrow> string option \<Rightarrow> string option \<Rightarrow> string" where
  "mapping_source module_code_v module_code_exercise_summary module_code_fallback =
     (let has_activity_catalog_mapping = (module_code_v \<noteq> None);
          has_exercise_catalog_mapping = (module_code_exercise_summary \<noteq> None)
      in if has_activity_catalog_mapping then ''catalog_activity''
         else if has_exercise_catalog_mapping then ''catalog_exercise''
         else if module_code_fallback \<noteq> None then ''rules_code_fallback''
         else ''unmapped'')"

definition reconciled ::
  "exercise_hierarchy_row list \<Rightarrow> (string \<times> string) list \<Rightarrow> (string \<times> string) list
     \<Rightarrow> raw_event \<Rightarrow> hierarchy_row option \<Rightarrow> reconciled_row" where
  "reconciled exercise_hierarchy graph_id_code module_code_df event joined =
     (let exercise = joined_row eh_exercise_id exercise_hierarchy
            (normalized_id_expr (ev_exercise_id event));
          raw_code = fallback_code_raw graph_id_code event;
          module_code_fallback = extract_module_code raw_code;
          module_id_fallback =
            column (\<lambda>row. Some (snd row)) (joined_row fst module_code_df module_code_fallback)
      in \<lparr>rr_playlist_or_module_id = normalized_id_expr (ev_playlist_or_module_id event),
          rr_exercise_id = normalized_id_expr (ev_exercise_id event),
          rr_module_id = coalesce [column h_module_id joined,
            column eh_module_id_exercise_summary exercise, module_id_fallback],
          rr_module_code = coalesce [column h_module_code joined,
            column eh_module_code_exercise_summary exercise, module_code_fallback],
          rr_mapping_source = mapping_source (column h_module_code joined)
            (column eh_module_code_exercise_summary exercise) module_code_fallback,
          rr_fallback_code_raw = raw_code\<rparr>)"

text \<open>
  \<open>build_fact_attempt_core\<close>: the first \<open>sample_rows\<close> events if a number is given, joined
  with \<open>hierarchy\<close> on the normalized \<open>activity_id\<close>, and reconciled row by row.
\<close>

definition build_fact_attempt_core ::
  "hierarchy_row list \<Rightarrow> (string \<times> exercise_mapping option) list
     \<Rightarrow> (string \<times> string option list option) list \<Rightarrow> (string \<times> string option) list
     \<Rightarrow> nat option \<Rightarrow> raw_event list \<Rightarrow> reconciled_row list" where
  "build_fact_attempt_core activity_hierarchy exercise_to_hierarchy id_to_codes code_map
       sample_rows events =
     (let hierarchy = hierarchy_map_from_catalog activity_hierarchy;
          exercise_hierarchy =
            exercise_hierarchy_map_from_catalog activity_hierarchy exercise_to_hierarchy;
          graph_id_code = rules_id_code_frame id_to_codes;
          module_code_df = module_code_frame code_map;
          lf = (case sample_rows of None \<Rightarrow> events | Some n \<Rightarrow> take n events)
      in map (\<lambda>(event, joined).
               reconciled exercise_hierarchy graph_id_code module_code_df event joined)
           (left_join (\<lambda>event. normalized_id_expr (ev_activity_id event)) h_activity_id lf
              hierarchy))"

text \<open>
  The tiers in the words of the specification. The activity tier of an event is a row of
  the catalog hierarchy with the activity of the event (\<open>activity_tier\<close> lists what the
  rows give, and nothing when there is no row); the exercise tier is the first row of the
  hierarchy for the activity that \<open>exercise_to_hierarchy\<close> records for the exercise of
  the event; the rules tier is the module prefix of the code of the first of the activity,
  objective, exercise and playlist-or-module identifiers that the rules know. Each gives a
  module code or nothing, and \<open>first_tier\<close> is the name and the code of the first tier
  that gives one.
\<close>

definition activity_tier :: "hierarchy_row list \<Rightarrow> raw_event \<Rightarrow> string option list" where
  "activity_tier activity_hierarchy event =
     (case filter (\<lambda>h. normalized_id_expr (ev_activity_id event) \<noteq> None
                        \<and> h_activity_id h = normalized_id_expr (ev_activity_id event))
             activity_hierarchy of
        [] \<Rightarrow> [None]
      | rows \<Rightarrow> map h_module_code rows)"

definition first_tier ::
  "string option \<Rightarrow> string option \<Rightarrow> string option \<Rightarrow> string \<times> string option" where
  "first_tier activity_code exercise_code rules_module_code =
     (case activity_code of
        Some c \<Rightarrow> (''catalog_activity'', Some c)
      | None \<Rightarrow> (case exercise_code of
          Some c \<Rightarrow> (''catalog_exercise'', Some c)
        | None \<Rightarrow> (case rules_module_code of
            Some c \<Rightarrow> (''rules_code_fallback'', Some c)
          | None \<Rightarrow> (''unmapped'', None))))"

definition recorded_activity ::
  "(string \<times> exercise_mapping option) list \<Rightarrow> string \<Rightarrow> string option" where
  "recorded_activity exercise_to_hierarchy exercise_id =
     (case find (\<lambda>(k, mapping). k = exercise_id \<and> py_strip k \<noteq> [] \<and> mapping \<noteq> None)
             exercise_to_hierarchy of
        None \<Rightarrow> None
      | Some (k, mapping) \<Rightarrow> (case mapping of None \<Rightarrow> None | Some m \<Rightarrow> em_activity_id m))"

definition exercise_tier ::
  "hierarchy_row list \<Rightarrow> (string \<times> exercise_mapping option) list \<Rightarrow> raw_event
     \<Rightarrow> string option" where
  "exercise_tier activity_hierarchy exercise_to_hierarchy event =
     (case normalized_id_expr (ev_exercise_id event) of
        None \<Rightarrow> None
      | Some exercise_id \<Rightarrow>
          (case recorded_activity exercise_to_hierarchy exercise_id of
             None \<Rightarrow> None
           | Some activity_id \<Rightarrow>
               (case find (\<lambda>h. h_activity_id h = Some activity_id) activity_hierarchy of
                  None \<Rightarrow> None
                | Some h \<Rightarrow> h_module_code h)))"

definition rules_code :: "(string \<times> string option list option) list \<Rightarrow> string option \<Rightarrow> string option" where
  "rules_code id_to_codes identifier =
     (case normalized_id_expr identifier of
        None \<Rightarrow> None
      | Some graph_id \<Rightarrow>
          (case find (\<lambda>(k, raw_codes). k = graph_id \<and> py_strip k \<noteq> []
                        \<and> (case raw_codes of None \<Rightarrow> False
                            | Some codes \<Rightarrow> chosen_code codes \<noteq> None)) id_to_codes of
             None \<Rightarrow> None
           | Some (k, raw_codes) \<Rightarrow> (case raw_codes of None \<Rightarrow> None
                                     | Some codes \<Rightarrow> chosen_code codes)))"

definition rules_tier ::
  "(string \<times> string option list option) list \<Rightarrow> raw_event \<Rightarrow> string option" where
  "rules_tier id_to_codes event =
     extract_module_code
       (coalesce [rules_code id_to_codes (ev_activity_id event),
          rules_code id_to_codes (ev_objective_id event),
          rules_code id_to_codes (ev_exercise_id event),
          rules_code id_to_codes (ev_playlist_or_module_id event)])"

text \<open>
  The payloads of the repository's test of the exercise fallback: activity \<open>a1\<close> of
  objective \<open>o1\<close> of module \<open>m1\<close> with code \<open>M1\<close>, the exercise \<open>ex-1\<close>, and an
  event of that exercise whose objective and activity are the placeholder \<open>None\<close>. The
  activity that \<open>exercise_to_hierarchy\<close> records for the exercise and the
  playlist-or-module identifier of the event are left open.
\<close>

definition fixture_hierarchy :: "hierarchy_row list" where
  "fixture_hierarchy =
     [\<lparr>h_activity_id = Some ''a1'', h_objective_id_summary = Some ''o1'',
       h_objective_label = Some ''Objective 1'', h_activity_label = Some ''Activity 1'',
       h_module_id = Some ''m1'', h_module_code = Some ''M1'',
       h_module_label = Some ''Module 1''\<rparr>]"

definition fixture_exercise_to_hierarchy ::
  "string \<Rightarrow> (string \<times> exercise_mapping option) list" where
  "fixture_exercise_to_hierarchy activity_id =
     [(''ex-1'', Some \<lparr>em_activity_id = Some activity_id, em_objective_id = Some ''o1'',
                         em_module_id = Some ''m1''\<rparr>)]"

definition fixture_id_to_codes :: "(string \<times> string option list option) list" where
  "fixture_id_to_codes =
     [(''m1'', Some [Some ''M1'']), (''o1'', Some [Some ''M1O1'']),
      (''a1'', Some [Some ''M1O1A1''])]"

definition fixture_code_to_id :: "(string \<times> string option) list" where
  "fixture_code_to_id =
     [(''M1'', Some ''m1''), (''M1O1'', Some ''o1''), (''M1O1A1'', Some ''a1'')]"

definition fixture_event :: "string \<Rightarrow> raw_event" where
  "fixture_event playlist_or_module_id =
     \<lparr>ev_playlist_or_module_id = Some playlist_or_module_id, ev_objective_id = Some ''None'',
      ev_activity_id = Some ''None'', ev_exercise_id = Some ''ex-1''\<rparr>"

section \<open>Properties\<close>

lemma any_item_open_iff:
  "any_item_open items = (\<exists>item \<in> set items. is_init_open_from_rule item)"
  by (induction items) auto

lemma any_value_open_iff:
  "any_value_open kvs = (\<exists>kv \<in> set kvs. is_init_open_from_rule (snd kv))"
  by (induction kvs) auto

lemma py_int_of_float_zero_iff: "py_int_of_float q = 0 \<longleftrightarrow> \<bar>q\<bar> < 1"
proof (cases "q < 0")
  case True
  have "\<lceil>q\<rceil> = 0 \<longleftrightarrow> -1 < q \<and> q \<le> 0"
    by (simp add: ceiling_eq_iff)
  with True show ?thesis
    by (auto simp: py_int_of_float_def)
next
  case False
  have "\<lfloor>q\<rfloor> = 0 \<longleftrightarrow> 0 \<le> q \<and> q < 1"
    by (simp add: floor_eq_iff)
  with False show ?thesis
    by (auto simp: py_int_of_float_def)
qed

subsection \<open>The preferred code\<close>

lemma code_preference_score_eq: "code_preference_score c = preference_key c"
  by (simp add: code_preference_score_def preference_key_def shape_rank_def)

lemma preferred_to_iff_key: "preferred_to c d \<longleftrightarrow> preference_key c \<le> preference_key d"
  unfolding preferred_to_def preference_key_def shape_rank_def shape_of_def
  by (auto simp: less_eq_prod_def less_prod_def)

lemma sort_key_head_least:
  assumes "xs \<noteq> []"
  shows "\<exists>c r. sort_key f xs = c # r \<and> c \<in> set xs \<and> (\<forall>d \<in> set xs. f c \<le> f d)"
proof -
  have "sort_key f xs \<noteq> []"
    using assms by (metis length_0_conv length_sort)
  then obtain c r where cr: "sort_key f xs = c # r"
    by (cases "sort_key f xs") auto
  have "sorted (map f (sort_key f xs))"
    by simp
  then have "\<forall>d \<in> set (sort_key f xs). f c \<le> f d"
    using cr by auto
  then have least: "\<forall>d \<in> set xs. f c \<le> f d"
    by (simp only: set_sort)
  have "c \<in> set (sort_key f xs)"
    using cr by simp
  then have "c \<in> set xs"
    by (simp only: set_sort)
  with least cr show ?thesis
    by blast
qed

lemma is_preferred_unique: "is_preferred c cs \<Longrightarrow> is_preferred d cs \<Longrightarrow> c = d"
  unfolding is_preferred_def preferred_to_iff_key
  by (metis antisym preference_key_def prod.inject)

lemma sort_key_head_preferred:
  assumes "cs \<noteq> []"
  shows "\<exists>c r. sort_key preference_key cs = c # r \<and> is_preferred c cs"
  using sort_key_head_least [OF assms, of preference_key]
  by (auto simp: is_preferred_def preferred_to_iff_key)

text \<open>
  C8. Whenever at least one candidate code is not blank, \<open>_preferred_code_from_list\<close>
  returns the one code of the cleaned candidates that is preferred to every other: highest
  shape class (activity over objective over module over no shape), then longest, then
  lexicographically smallest. The choice of \<open>_rules_id_code_frame\<close> through
  \<open>_code_preference_score\<close> is the same on its stripped candidates.
\<close>

theorem preferred_code_is_highest_longest_smallest:
  "(cleaned_codes codes \<noteq> [] \<longrightarrow>
      (\<exists>c. preferred_code_from_list codes = Some c
         \<and> is_preferred c (cleaned_codes codes)
         \<and> (\<forall>d. is_preferred d (cleaned_codes codes) \<longrightarrow> d = c)))
   \<and> (stripped_codes raw_codes \<noteq> [] \<longrightarrow>
      (\<exists>c. chosen_code raw_codes = Some c
         \<and> is_preferred c (stripped_codes raw_codes)
         \<and> (\<forall>d. is_preferred d (stripped_codes raw_codes) \<longrightarrow> d = c)))"
proof (intro conjI impI)
  assume ne: "cleaned_codes codes \<noteq> []"
  from sort_key_head_preferred [OF ne] obtain c r where
    cr: "sort_key preference_key (cleaned_codes codes) = c # r"
    and pref: "is_preferred c (cleaned_codes codes)"
    by blast
  have "preferred_code_from_list codes = Some c"
    using cr by (simp add: preferred_code_from_list_def)
  with pref show "\<exists>c. preferred_code_from_list codes = Some c
      \<and> is_preferred c (cleaned_codes codes)
      \<and> (\<forall>d. is_preferred d (cleaned_codes codes) \<longrightarrow> d = c)"
    using is_preferred_unique by blast
next
  assume ne: "stripped_codes raw_codes \<noteq> []"
  have same: "code_preference_score = preference_key"
    by (rule ext) (rule code_preference_score_eq)
  from sort_key_head_preferred [OF ne] obtain c r where
    cr: "sort_key preference_key (stripped_codes raw_codes) = c # r"
    and pref: "is_preferred c (stripped_codes raw_codes)"
    by blast
  have "chosen_code raw_codes = Some c"
    using cr by (simp add: chosen_code_def same)
  with pref show "\<exists>c. chosen_code raw_codes = Some c
      \<and> is_preferred c (stripped_codes raw_codes)
      \<and> (\<forall>d. is_preferred d (stripped_codes raw_codes) \<longrightarrow> d = c)"
    using is_preferred_unique by blast
qed

theorem preferred_code_is_highest_longest_smallest_witness:
  "cleaned_codes [Some ''M1'', Some ''M1O2A3'', None, Some '' M10O2A3 '', Some ''M10O2A4'']
     = [''M1'', ''M1O2A3'', ''M10O2A3'', ''M10O2A4'']
   \<and> preferred_code_from_list
       [Some ''M1'', Some ''M1O2A3'', None, Some '' M10O2A3 '', Some ''M10O2A4'']
     = Some ''M10O2A3''
   \<and> is_preferred ''M10O2A3'' [''M1'', ''M1O2A3'', ''M10O2A3'', ''M10O2A4'']
   \<and> stripped_codes [Some ''zz'', Some ''M7'', Some ''M1O2'', Some '' '']
     = [''zz'', ''M7'', ''M1O2'']
   \<and> chosen_code [Some ''zz'', Some ''M7'', Some ''M1O2'', Some '' ''] = Some ''M1O2''
   \<and> is_preferred ''M1O2'' [''zz'', ''M7'', ''M1O2'']"
proof -
  let ?codes = "[Some ''M1'', Some ''M1O2A3'', None, Some '' M10O2A3 '', Some ''M10O2A4'']"
  let ?raw = "[Some ''zz'', Some ''M7'', Some ''M1O2'', Some '' '']"
  have c: "cleaned_codes ?codes = [''M1'', ''M1O2A3'', ''M10O2A3'', ''M10O2A4'']"
    by code_simp
  have s: "stripped_codes ?raw = [''zz'', ''M7'', ''M1O2'']"
    by code_simp
  have p: "preferred_code_from_list ?codes = Some ''M10O2A3''"
    by code_simp
  have q: "chosen_code ?raw = Some ''M1O2''"
    by code_simp
  from preferred_code_is_highest_longest_smallest [of ?codes ?raw] c s p q
  show ?thesis
    by auto
qed

subsection \<open>The init_ssb flag\<close>

text \<open>
  C10. A bare number is open exactly when \<open>int\<close> of it is 0, which for a float is
  \<open>\<bar>v\<bar> < 1\<close> (0.9 and -0.5 are open); a list or a dict is open exactly when the check
  holds for one of its elements or values; a string is open exactly when its cleaned text
  is \<open>0\<close>.
\<close>

theorem init_open_truncates_and_recurses:
  "is_init_open_from_rule (JInt n) = (n = 0)
   \<and> is_init_open_from_rule (JFloat q) = (py_int_of_float q = 0)
   \<and> is_init_open_from_rule (JFloat q) = (\<bar>q\<bar> < 1)
   \<and> is_init_open_from_rule (JFloat (9 / 10))
   \<and> is_init_open_from_rule (JFloat (- (1 / 2)))
   \<and> is_init_open_from_rule (JList items) = (\<exists>item \<in> set items. is_init_open_from_rule item)
   \<and> is_init_open_from_rule (JDict kvs)
       = (\<exists>kv \<in> set kvs. is_init_open_from_rule (snd kv))
   \<and> is_init_open_from_rule (JStr s) = (clean_str (Some s) = ''0'')"
  by (simp add: any_item_open_iff any_value_open_iff py_int_of_float_zero_iff)

theorem init_open_truncates_and_recurses_witness:
  "is_init_open_from_rule (JList [JInt 1, JDict [(''a'', JStr ''1''), (''b'', JFloat (9 / 10))]])
   \<and> \<not> is_init_open_from_rule (JList [JInt 1, JFloat (3 / 2), JStr ''00''])
   \<and> is_init_open_from_rule (JStr '' 0 '')"
proof -
  have a: "is_init_open_from_rule (JFloat (9 / 10))"
    using init_open_truncates_and_recurses [of 0 "9 / 10" "[]" "[]" "[]"] by simp
  have b: "clean_str (Some '' 0 '') = ''0''" "clean_str (Some ''00'') = ''00''"
    "clean_str (Some ''1'') = ''1''"
    by code_simp+
  have c: "\<not> is_init_open_from_rule (JFloat (3 / 2))"
    using init_open_truncates_and_recurses [of 0 "3 / 2" "[]" "[]" "[]"] by simp
  from a b c show ?thesis
    by simp
qed

subsection \<open>The dependency graph\<close>

lemma set_update_subset: "set (AList.update k v al) \<subseteq> insert (k, v) (set al)"
  by (induction al) auto

lemma keyed_update: "keyed nm \<Longrightarrow> node_code v = k \<Longrightarrow> keyed (AList.update k v nm)"
  unfolding keyed_def using set_update_subset [of k v nm]
  by (auto simp: distinct_update)

lemma no_ghosts_update: "no_ghosts nm \<Longrightarrow> \<not> is_ghost v \<Longrightarrow> no_ghosts (AList.update k v nm)"
  unfolding no_ghosts_def using set_update_subset [of k v nm] by auto

lemma real_map_update:
  "real_map nm \<Longrightarrow> node_code v = k \<Longrightarrow> \<not> is_ghost v \<Longrightarrow> real_map (AList.update k v nm)"
  by (simp add: real_map_def keyed_update no_ghosts_update)

lemma map_entry_keys: "map fst (AList.map_entry k f al) = map fst al"
  by (induction al) auto

lemma set_map_entry: "(k', v') \<in> set (AList.map_entry k f al) \<Longrightarrow>
   (k', v') \<in> set al \<or> (k' = k \<and> (\<exists>v. (k, v) \<in> set al \<and> v' = f v))"
  by (induction al) (auto split: if_splits)

lemma real_map_map_entry:
  "real_map nm \<Longrightarrow> real_map (AList.map_entry k (\<lambda>n. n\<lparr>init_open := True\<rparr>) nm)"
  unfolding real_map_def keyed_def no_ghosts_def
  by (auto simp: map_entry_keys dest!: set_map_entry)

lemma foldl_inv: "P s \<Longrightarrow> (\<And>s x. P s \<Longrightarrow> P (f s x)) \<Longrightarrow> P (foldl f s xs)"
  by (induction xs arbitrary: s) auto

lemma add_activity_node_real:
  "real_map nm \<Longrightarrow> real_map (add_activity_node g mc oc nm a)"
  by (simp add: add_activity_node_def activity_node_def Let_def real_map_update)

lemma add_objective_node_real:
  assumes "real_map nm"
  shows "real_map (add_objective_node g mc nm ob)"
proof (cases "clean_str (co_code ob) = []")
  case True
  then show ?thesis using assms by (simp add: add_objective_node_def Let_def)
next
  case False
  have "real_map (AList.update (clean_str (co_code ob)) (objective_node g mc ob) nm)"
    using assms by (simp add: real_map_update objective_node_def Let_def)
  then have "real_map (foldl (add_activity_node g mc (clean_str (co_code ob)))
         (AList.update (clean_str (co_code ob)) (objective_node g mc ob) nm) (co_activities ob))"
    by (rule foldl_inv) (rule add_activity_node_real)
  then show ?thesis using False by (simp add: add_objective_node_def Let_def)
qed

lemma catalog_nodes_real: "real_map (catalog_nodes g mc mods)"
proof (cases "find (\<lambda>m. clean_str (cm_code m) = mc) mods")
  case None
  then show ?thesis by (simp add: catalog_nodes_def real_map_def keyed_def no_ghosts_def)
next
  case (Some m)
  have "real_map []" by (simp add: real_map_def keyed_def no_ghosts_def)
  then have "real_map (foldl (add_objective_node g mc) [] (cm_objectives m))"
    by (rule foldl_inv) (rule add_objective_node_real)
  then show ?thesis using Some by (simp add: catalog_nodes_def)
qed

lemma add_rule_node_real:
  "real_map (fst st) \<Longrightarrow> real_map (fst (add_rule_node itl m mc st nd))"
  by (simp add: add_rule_node_def rule_node_def Let_def real_map_update)

lemma seeded_nodes_real: "real_map (fst (seeded_nodes mc catalog rules_p mr))"
  unfolding seeded_nodes_def
  by (rule foldl_inv [where P = "\<lambda>st. real_map (fst st)"])
    (simp_all add: catalog_nodes_real add_rule_node_real)

lemma apply_rule_real:
  "real_map (fst st) \<Longrightarrow> real_map (fst (apply_rule F m mc st item))"
  by (simp add: apply_rule_def Let_def real_map_map_entry)

lemma ruled_graph_real: "real_map (fst (ruled_graph F mc catalog rules_p mr))"
  unfolding ruled_graph_def Let_def
  by (rule foldl_inv [where P = "\<lambda>st. real_map (fst st)"])
    (simp_all add: seeded_nodes_real apply_rule_real)

lemma open_untargeted_keys: "map fst (open_untargeted es nm) = map fst nm"
  by (simp add: open_untargeted_def case_prod_unfold comp_def)

lemma open_untargeted_real: "real_map nm \<Longrightarrow> real_map (open_untargeted es nm)"
  unfolding real_map_def keyed_def no_ghosts_def open_untargeted_keys
  by (auto simp: open_untargeted_def split: if_splits)

lemma open_untargeted_open:
  "(k, n) \<in> set (open_untargeted es nm) \<Longrightarrow> init_open n \<or> k \<in> set (incoming_activation_targets es)"
  by (auto simp: open_untargeted_def split: if_splits)

lemma before_ghosts_real: "real_map (node_map_before_ghosts F mc catalog rules_p mr)"
  unfolding node_map_before_ghosts_def
  by (rule open_untargeted_real) (rule ruled_graph_real)

lemma ghost_node_simps:
  "node_code (ghost_node g itl mc c) = c" "is_ghost (ghost_node g itl mc c)"
  "\<not> init_open (ghost_node g itl mc c)"
  by (simp_all add: ghost_node_def Let_def)

lemma add_ghost_keyed: "keyed nm \<Longrightarrow> keyed (add_ghost_node g itl mc nm c)"
  by (simp add: add_ghost_node_def Let_def keyed_update ghost_node_simps)

lemma ghosts_keyed: "keyed nm \<Longrightarrow> keyed (foldl (add_ghost_node g itl mc) nm cs)"
  by (rule foldl_inv) (simp_all add: add_ghost_keyed)

lemma add_ghost_entries:
  "(k, n) \<in> set (add_ghost_node g itl mc nm c) \<Longrightarrow>
     (k, n) \<in> set nm \<or> (k = c \<and> node_type_from_code_strict (Some c) \<in> {''objective'', ''activity''}
        \<and> n = ghost_node g itl mc c)"
  using set_update_subset [of c "ghost_node g itl mc c" nm]
  by (auto simp: add_ghost_node_def Let_def split: if_splits)

lemma ghosts_entries:
  "(k, n) \<in> set (foldl (add_ghost_node g itl mc) nm cs) \<Longrightarrow>
     (k, n) \<in> set nm \<or> (k \<in> set cs \<and> node_type_from_code_strict (Some k) \<in> {''objective'', ''activity''}
        \<and> n = ghost_node g itl mc k)"
proof (induction cs arbitrary: nm)
  case Nil
  then show ?case by simp
next
  case (Cons c cs)
  from Cons.IH [of "add_ghost_node g itl mc nm c"] Cons.prems
  show ?case by (auto dest: add_ghost_entries)
qed

lemma add_ghost_map_of_same:
  "node_type_from_code_strict (Some c) \<in> {''objective'', ''activity''} \<Longrightarrow>
     map_of (add_ghost_node g itl mc nm c) c = Some (ghost_node g itl mc c)"
  by (auto simp: add_ghost_node_def Let_def update_conv')

lemma add_ghost_map_of_other:
  "x \<noteq> c \<Longrightarrow> map_of (add_ghost_node g itl mc nm x) c = map_of nm c"
  by (simp add: add_ghost_node_def Let_def update_conv')

lemma ghosts_present:
  assumes "c \<in> set cs" "node_type_from_code_strict (Some c) \<in> {''objective'', ''activity''}"
  shows "map_of (foldl (add_ghost_node g itl mc) nm cs) c = Some (ghost_node g itl mc c)"
  using assms(1)
proof (induction cs rule: rev_induct)
  case Nil
  then show ?case by simp
next
  case (snoc x xs)
  show ?case
  proof (cases "x = c")
    case True
    then show ?thesis
      by (simp add: add_ghost_map_of_same [OF assms(2)])
  next
    case False
    then have "c \<in> set xs" using snoc.prems by simp
    from snoc.IH [OF this] False show ?thesis
      by (simp add: add_ghost_map_of_other)
  qed
qed

lemma keyed_unique_node:
  "keyed nm \<Longrightarrow> map_of nm c = Some v \<Longrightarrow> filter (\<lambda>n. node_code n = c) (map snd nm) = [v]"
proof (induction nm)
  case Nil
  then show ?case by simp
next
  case (Cons p nm)
  obtain k n where p: "p = (k, n)" by (cases p)
  have kd: "keyed nm" using Cons.prems(1) by (auto simp: keyed_def)
  show ?case
  proof (cases "k = c")
    case True
    have "\<forall>(k', n') \<in> set nm. node_code n' \<noteq> c"
      using Cons.prems(1) True p by (force simp: keyed_def)
    then have "filter (\<lambda>n. node_code n = c) (map snd nm) = []"
      by (auto simp: filter_empty_conv)
    then show ?thesis using Cons.prems True p by (auto simp: keyed_def)
  next
    case False
    then have "map_of nm c = Some v" using Cons.prems(2) p by simp
    from Cons.IH [OF kd this] False Cons.prems(1) p show ?thesis
      by (auto simp: keyed_def)
  qed
qed

lemma dropWhile_idem_hd: "xs = [] \<or> \<not> P (hd xs) \<Longrightarrow> dropWhile P xs = xs"
  by (cases xs) auto

lemma py_strip_idem: "py_strip (py_strip s) = py_strip s"
proof -
  let ?P = py_isspace
  define u where "u = dropWhile ?P s"
  define v where "v = dropWhile ?P (rev u)"
  have t: "py_strip s = rev v" by (simp add: py_strip_def u_def v_def)
  have u_hd: "u = [] \<or> \<not> ?P (hd u)" unfolding u_def by (metis hd_dropWhile)
  have v_hd: "v = [] \<or> \<not> ?P (hd v)" unfolding v_def by (metis hd_dropWhile)
  obtain w where w: "rev u = w @ v" unfolding v_def by (metis takeWhile_dropWhile_id)
  then have u: "u = rev v @ rev w" by (metis rev_append rev_rev_ident)
  have "rev v = [] \<or> \<not> ?P (hd (rev v))"
  proof (cases "v = []")
    case True then show ?thesis by simp
  next
    case False
    then have "hd (rev v) = hd u" using u by simp
    moreover have "u \<noteq> []" using u False by simp
    ultimately show ?thesis using u_hd by simp
  qed
  then have 1: "dropWhile ?P (rev v) = rev v" by (rule dropWhile_idem_hd)
  have 2: "dropWhile ?P v = v" using v_hd by (rule dropWhile_idem_hd)
  show ?thesis unfolding t by (simp add: py_strip_def 1 2)
qed

lemma clean_str_idem: "clean_str (Some (clean_str v)) = clean_str v"
proof (cases v)
  case None
  then show ?thesis by (simp add: clean_str_def py_strip_def)
next
  case (Some s)
  show ?thesis
  proof (cases "py_strip s = [] \<or> py_lower (py_strip s) = ''nan''")
    case True
    then show ?thesis using Some by (auto simp: clean_str_def py_strip_def Let_def)
  next
    case False
    then show ?thesis using Some by (simp add: clean_str_def Let_def py_strip_idem)
  qed
qed

lemma add_edge_clean:
  "clean_edges (fst st) \<Longrightarrow> clean_edges (fst (add_edge F mc ty src dst th rt lv sr st))"
  by (auto simp: add_edge_def Let_def clean_edges_def clean_str_idem)

lemma add_requirement_edges_clean:
  "clean_edges (fst st) \<Longrightarrow> clean_edges (fst (add_requirement_edges F m mc code st entry))"
  unfolding add_requirement_edges_def Let_def
  by (rule foldl_inv [where P = "\<lambda>st. clean_edges (fst st)"]) (simp_all add: add_edge_clean)

lemma add_deact_edges_clean:
  "clean_edges (fst st) \<Longrightarrow> clean_edges (fst (add_deact_edges F m mc code st entry))"
  unfolding add_deact_edges_def Let_def
  by (rule foldl_inv [where P = "\<lambda>st. clean_edges (fst st)"]) (simp_all add: add_edge_clean)

lemma apply_rule_clean:
  assumes "clean_edges (fst (snd st))"
  shows "clean_edges (fst (snd (apply_rule F m mc st item)))"
proof -
  let ?P = "\<lambda>st. clean_edges (fst st)"
  have r: "\<And>es xs. ?P es \<Longrightarrow> ?P (foldl (add_requirement_edges F m mc (fst item)) es xs)"
    by (rule foldl_inv) (simp_all add: add_requirement_edges_clean)
  have d: "\<And>es xs. ?P es \<Longrightarrow> ?P (foldl (add_deact_edges F m mc (fst item)) es xs)"
    by (rule foldl_inv) (simp_all add: add_deact_edges_clean)
  show ?thesis using assms
    by (auto simp: apply_rule_def Let_def split: option.splits intro!: r d)
qed

lemma rule_edges_clean: "clean_edges (rule_edges F mc catalog rules_p mr)"
proof -
  let ?P = "\<lambda>st. clean_edges (fst (snd st))"
  have "?P (fst (seeded_nodes mc catalog rules_p mr), [], [])"
    by (simp add: clean_edges_def)
  then have "?P (foldl (apply_rule F (mr_map_id_code mr) mc)
       (fst (seeded_nodes mc catalog rules_p mr), [], []) (snd (seeded_nodes mc catalog rules_p mr)))"
    by (rule foldl_inv) (rule apply_rule_clean)
  then show ?thesis
    by (simp add: rule_edges_def ruled_graph_def Let_def)
qed

lemma missing_codes_iff:
  "c \<in> set (missing_codes es nm) \<longleftrightarrow>
     c \<in> set (referenced_codes es) \<and> c \<noteq> [] \<and> map_of nm c = None"
  by (auto simp: missing_codes_def)

lemma clean_edge_referenced:
  assumes "clean_edges es" "e \<in> set es" "c = from_node_code e \<or> c = to_node_code e"
  shows "c \<in> set (referenced_codes es) \<and> c \<noteq> []"
proof -
  from assms(1,2) have ce: "from_node_code e \<noteq> []" "to_node_code e \<noteq> []"
    "clean_str (Some (from_node_code e)) = from_node_code e"
    "clean_str (Some (to_node_code e)) = to_node_code e"
    by (auto simp: clean_edges_def)
  from assms(3) show ?thesis
  proof
    assume "c = from_node_code e"
    then have "c = (\<lambda>e. clean_str (Some (from_node_code e))) e" using ce by simp
    then have "c \<in> (\<lambda>e. clean_str (Some (from_node_code e))) ` set es"
      using assms(2) by blast
    then show ?thesis using ce \<open>c = from_node_code e\<close> by (simp add: referenced_codes_def)
  next
    assume "c = to_node_code e"
    then have "c = (\<lambda>e. clean_str (Some (to_node_code e))) e" using ce by simp
    then have "c \<in> (\<lambda>e. clean_str (Some (to_node_code e))) ` set es"
      using assms(2) by blast
    then show ?thesis using ce \<open>c = to_node_code e\<close> by (simp add: referenced_codes_def)
  qed
qed

lemma build_found:
  assumes "find (\<lambda>row. clean_str (mr_module_code row) = clean_str (Some module_code_v))
             (module_rules rules_p) = Some mr"
  shows "fst (build_dependency_tables_from_rules_payload F module_code_v catalog rules_p)
       = map snd (foldl (add_ghost_node (map_of (code_to_id rules_p))
                    (id_to_label (id_label_index catalog)) (clean_str (Some module_code_v)))
            (node_map_before_ghosts F (clean_str (Some module_code_v)) catalog rules_p mr)
            (missing_codes (rule_edges F (clean_str (Some module_code_v)) catalog rules_p mr)
               (node_map_before_ghosts F (clean_str (Some module_code_v)) catalog rules_p mr)))"
    and "fst (snd (build_dependency_tables_from_rules_payload F module_code_v catalog rules_p))
       = rule_edges F (clean_str (Some module_code_v)) catalog rules_p mr"
  using assms by (simp_all add: build_dependency_tables_from_rules_payload_def Let_def)

text \<open>The worked payload, evaluated stage by stage.\<close>

lemma ex_clean:
  "clean_str (Some ''M1'') = ''M1''" "clean_str (Some ''M1O1'') = ''M1O1''"
  "clean_str (Some ''M1O1A1'') = ''M1O1A1''" "clean_str (Some ''M1O1A9'') = ''M1O1A9''"
  "clean_str (Some ''a1'') = ''a1''" "clean_str (Some ''a9'') = ''a9''"
  "clean_str (Some ''m1'') = ''m1''" "clean_str (Some ''o1'') = ''o1''"
  "clean_str (Some ''activity'') = ''activity''"
  "clean_str (Some ''activation'') = ''activation''"
  "clean_str None = []"
  by code_simp+

lemma ex_types:
  "node_type_from_code_strict (Some ''M1'') = ''module''"
  "node_type_from_code_strict (Some ''M1O1A1'') = ''activity''"
  "node_type_from_code_strict (Some ''M1O1A9'') = ''activity''"
  by code_simp+

lemma ex_resolve:
  "resolve_code_from_id (mr_map_id_code example_module_rule) (Some ''a1'') = ''M1O1A1''"
  "resolve_code_from_id (mr_map_id_code example_module_rule) (Some ''a9'') = ''M1O1A9''"
  "resolve_code_from_id (mr_map_id_code example_module_rule) (Some ''m1'') = ''M1''"
  by code_simp+


lemma ex_catalog_nodes:
  "catalog_nodes (map_of (code_to_id example_rules)) ''M1'' (cat_modules example_catalog)
     = [(''M1O1'', objective_node (map_of []) ''M1''
           \<lparr>co_id = Some ''o1'', co_code = Some ''M1O1'', co_title = None, co_activities =
              [\<lparr>ca_id = Some ''a1'', ca_code = Some ''M1O1A1'', ca_title = None\<rparr>]\<rparr>),
        (''M1O1A1'', activity_node (map_of []) ''M1'' ''M1O1''
           \<lparr>ca_id = Some ''a1'', ca_code = Some ''M1O1A1'', ca_title = None\<rparr>)]"
  by (simp add: catalog_nodes_def example_catalog_def example_rules_def add_objective_node_def
        add_activity_node_def Let_def ex_clean)

lemma ex_seeded:
  "seeded_nodes ''M1'' example_catalog example_rules example_module_rule
     = (catalog_nodes (map_of (code_to_id example_rules)) ''M1'' (cat_modules example_catalog),
        [(''M1O1A1'', hd (mr_node_rules example_module_rule))])"
  by (simp add: seeded_nodes_def ex_catalog_nodes add_rule_node_def Let_def ex_clean
        example_module_rule_def)


lemma ex_prims:
  "str_of_nat (Suc 0) = ''1''" "str_of_nat (Suc (Suc 0)) = ''2''"
  "parse_activity_index (Some ''M1O1A1'') = Some 1"
  "parse_activity_index (Some ''M1O1A9'') = Some 9"
  "parse_objective_code (Some ''M1O1A9'') (Some ''activity'') = Some ''M1O1''"
  "sort (remdups [''M1O1A9'', ''M1'', ''M1O1A1'']) = [''M1'', ''M1O1A1'', ''M1O1A9'']"
  "sort (remdups [''M1O1A9'', ''M1'']) = [''M1'', ''M1O1A9'']"
  by code_simp+

lemma ex_edges:
  "rule_edges exact_floats ''M1'' example_catalog example_rules example_module_rule
     = [\<lparr>edge_module_code = ''M1'', edge_id = ''M1:activation:M1O1A9->M1O1A1:1'',
          edge_type = ''activation'', from_node_code = ''M1O1A9'', to_node_code = ''M1O1A1'',
          threshold_type = ''unknown'', threshold_value = None, rule_text = ''requirements'',
          edge_source_primary = ''rules'', edge_source_enrichment = ''rules'',
          enrich_lvl = None, enrich_sr = None\<rparr>,
        \<lparr>edge_module_code = ''M1'', edge_id = ''M1:activation:M1->M1O1A1:2'',
          edge_type = ''activation'', from_node_code = ''M1'', to_node_code = ''M1O1A1'',
          threshold_type = ''unknown'', threshold_value = None, rule_text = ''requirements'',
          edge_source_primary = ''rules'', edge_source_enrichment = ''rules'',
          enrich_lvl = None, enrich_sr = None\<rparr>]"
  unfolding rule_edges_def ruled_graph_def ex_seeded Let_def
  by (simp add: apply_rule_def add_requirement_edges_def add_edge_def Let_def ex_resolve ex_clean
        example_module_rule_def [THEN arg_cong [where f = mr_node_rules]] first_numeric.simps
        first_int_def to_float_def ex_prims)

lemma ex_before:
  "node_map_before_ghosts exact_floats ''M1'' example_catalog example_rules example_module_rule
     = [(''M1O1'', \<lparr>module_code = ''M1'', node_id = Some ''o1'', node_code = ''M1O1'',
           node_type = ''objective'', label = ''M1O1'', objective_code = Some ''M1O1'',
           activity_index = None, init_open = True, source_primary = ''catalog'',
           source_enrichment = ''rules'', is_ghost = False\<rparr>),
        (''M1O1A1'', \<lparr>module_code = ''M1'', node_id = Some ''a1'', node_code = ''M1O1A1'',
           node_type = ''activity'', label = ''M1O1A1'', objective_code = Some ''M1O1'',
           activity_index = Some 1, init_open = False, source_primary = ''catalog'',
           source_enrichment = ''rules'', is_ghost = False\<rparr>)]"
  unfolding node_map_before_ghosts_def ex_edges
  unfolding ruled_graph_def ex_seeded Let_def ex_catalog_nodes
  by (simp add: apply_rule_def Let_def open_untargeted_def incoming_activation_targets_def
        example_module_rule_def [THEN arg_cong [where f = mr_node_rules]]
        objective_node_def activity_node_def ex_clean ex_prims or_none_def
        label_from_catalog_entry_def)


lemma ex_found: "find (\<lambda>row. clean_str (mr_module_code row) = ''M1'')
     (module_rules example_rules) = Some example_module_rule"
  by code_simp

lemma ex_missing:
  "missing_codes
     (rule_edges exact_floats ''M1'' example_catalog example_rules example_module_rule)
     (node_map_before_ghosts exact_floats ''M1'' example_catalog example_rules
        example_module_rule)
   = [''M1'', ''M1O1A9'']"
  unfolding ex_edges ex_before
  by (simp add: missing_codes_def referenced_codes_def ex_clean ex_prims)

lemma ex_build:
  "build_dependency_tables_from_rules_payload exact_floats ''M1'' example_catalog example_rules
     = ([\<lparr>module_code = ''M1'', node_id = Some ''o1'', node_code = ''M1O1'',
           node_type = ''objective'', label = ''M1O1'', objective_code = Some ''M1O1'',
           activity_index = None, init_open = True, source_primary = ''catalog'',
           source_enrichment = ''rules'', is_ghost = False\<rparr>,
         \<lparr>module_code = ''M1'', node_id = Some ''a1'', node_code = ''M1O1A1'',
           node_type = ''activity'', label = ''M1O1A1'', objective_code = Some ''M1O1'',
           activity_index = Some 1, init_open = False, source_primary = ''catalog'',
           source_enrichment = ''rules'', is_ghost = False\<rparr>,
         \<lparr>module_code = ''M1'', node_id = None, node_code = ''M1O1A9'',
           node_type = ''activity'', label = ''M1O1A9'', objective_code = Some ''M1O1'',
           activity_index = Some 9, init_open = False, source_primary = ''rules'',
           source_enrichment = ''rules'', is_ghost = True\<rparr>],
        [\<lparr>edge_module_code = ''M1'', edge_id = ''M1:activation:M1O1A9->M1O1A1:1'',
          edge_type = ''activation'', from_node_code = ''M1O1A9'', to_node_code = ''M1O1A1'',
          threshold_type = ''unknown'', threshold_value = None, rule_text = ''requirements'',
          edge_source_primary = ''rules'', edge_source_enrichment = ''rules'',
          enrich_lvl = None, enrich_sr = None\<rparr>,
        \<lparr>edge_module_code = ''M1'', edge_id = ''M1:activation:M1->M1O1A1:2'',
          edge_type = ''activation'', from_node_code = ''M1'', to_node_code = ''M1O1A1'',
          threshold_type = ''unknown'', threshold_value = None, rule_text = ''requirements'',
          edge_source_primary = ''rules'', edge_source_enrichment = ''rules'',
          enrich_lvl = None, enrich_sr = None\<rparr>],
        [''Created 2 ghost node(s) for unresolved rules references.''])"
  unfolding build_dependency_tables_from_rules_payload_def Let_def ex_clean ex_found
    option.case ex_missing
  unfolding ex_edges ex_before
  by (simp add: add_ghost_node_def ghost_node_def Let_def ex_types ex_prims ex_clean
        example_rules_def example_catalog_def id_to_label_def or_else_def)

text \<open>
  C4. In the derivation path, for every edge of the rules with an end whose code is not a
  key of the node map when the ghost synthesis starts and is shaped like an objective or
  an activity, the output nodes hold exactly one node with that code, it is a ghost, and
  the edge is among the output edges.
\<close>

theorem ghost_node_for_every_dangling_reference:
  assumes found: "find (\<lambda>row. clean_str (mr_module_code row) = clean_str (Some module_code_v))
             (module_rules rules_p) = Some mr"
    and e: "e \<in> set (rule_edges F (clean_str (Some module_code_v)) catalog rules_p mr)"
    and c: "c = from_node_code e \<or> c = to_node_code e"
    and absent: "map_of (node_map_before_ghosts F (clean_str (Some module_code_v))
                   catalog rules_p mr) c = None"
    and shape: "node_type_from_code_strict (Some c) \<in> {''objective'', ''activity''}"
  shows "(\<exists>g. filter (\<lambda>n. node_code n = c)
              (fst (build_dependency_tables_from_rules_payload F module_code_v catalog rules_p))
            = [g] \<and> is_ghost g)
    \<and> e \<in> set (fst (snd (build_dependency_tables_from_rules_payload F module_code_v
                             catalog rules_p)))"
proof -
  let ?mc = "clean_str (Some module_code_v)"
  let ?es = "rule_edges F ?mc catalog rules_p mr"
  let ?nm = "node_map_before_ghosts F ?mc catalog rules_p mr"
  let ?g = "map_of (code_to_id rules_p)"
  let ?itl = "id_to_label (id_label_index catalog)"
  let ?final = "foldl (add_ghost_node ?g ?itl ?mc) ?nm (missing_codes ?es ?nm)"
  have "c \<in> set (referenced_codes ?es) \<and> c \<noteq> []"
    using rule_edges_clean e c by (rule clean_edge_referenced)
  then have "c \<in> set (missing_codes ?es ?nm)"
    using absent by (simp add: missing_codes_iff)
  then have present: "map_of ?final c = Some (ghost_node ?g ?itl ?mc c)"
    using shape by (rule ghosts_present)
  have "keyed ?nm"
    using before_ghosts_real [of F ?mc catalog rules_p mr] by (simp add: real_map_def)
  then have "keyed ?final"
    by (rule ghosts_keyed)
  then have "filter (\<lambda>n. node_code n = c) (map snd ?final) = [ghost_node ?g ?itl ?mc c]"
    using present by (rule keyed_unique_node)
  then show ?thesis
    using e by (simp add: build_found [OF found] ghost_node_simps)
qed

theorem ghost_node_for_every_dangling_reference_witness:
  "(\<exists>g. filter (\<lambda>n. node_code n = ''M1O1A9'')
          (fst (build_dependency_tables_from_rules_payload exact_floats ''M1'' example_catalog
                  example_rules))
        = [g] \<and> is_ghost g)
   \<and> rule_edges exact_floats ''M1'' example_catalog example_rules example_module_rule ! 0
       \<in> set (fst (snd (build_dependency_tables_from_rules_payload exact_floats ''M1''
                              example_catalog example_rules)))"
proof -
  let ?e = "rule_edges exact_floats ''M1'' example_catalog example_rules example_module_rule ! 0"
  have found: "find (\<lambda>row. clean_str (mr_module_code row) = clean_str (Some ''M1''))
      (module_rules example_rules) = Some example_module_rule"
    by (simp add: ex_clean ex_found)
  have e: "?e \<in> set (rule_edges exact_floats (clean_str (Some ''M1'')) example_catalog
      example_rules example_module_rule)"
    by (simp add: ex_clean ex_edges)
  have c: "''M1O1A9'' = from_node_code ?e \<or> ''M1O1A9'' = to_node_code ?e"
    by (simp add: ex_edges)
  have absent: "map_of (node_map_before_ghosts exact_floats (clean_str (Some ''M1''))
      example_catalog example_rules example_module_rule) ''M1O1A9'' = None"
    by (simp add: ex_clean ex_before)
  have shape: "node_type_from_code_strict (Some ''M1O1A9'') \<in> {''objective'', ''activity''}"
    by (simp add: ex_types)
  show ?thesis
    by (rule ghost_node_for_every_dangling_reference [OF found e c absent shape])
qed

text \<open>
  C3, as the code has it. In the derivation path, for every edge of the rules with an end
  whose code is not a key of the node map when the ghost synthesis starts and is not
  shaped like an objective or an activity (module-shaped or malformed), no output node has
  that code, and the edge is among the output edges.
\<close>

theorem no_ghost_for_module_or_malformed_reference:
  assumes found: "find (\<lambda>row. clean_str (mr_module_code row) = clean_str (Some module_code_v))
             (module_rules rules_p) = Some mr"
    and e: "e \<in> set (rule_edges F (clean_str (Some module_code_v)) catalog rules_p mr)"
    and c: "c = from_node_code e \<or> c = to_node_code e"
    and absent: "map_of (node_map_before_ghosts F (clean_str (Some module_code_v))
                   catalog rules_p mr) c = None"
    and shape: "node_type_from_code_strict (Some c) \<notin> {''objective'', ''activity''}"
  shows "(\<forall>n \<in> set (fst (build_dependency_tables_from_rules_payload F module_code_v
                             catalog rules_p)). node_code n \<noteq> c)
    \<and> e \<in> set (fst (snd (build_dependency_tables_from_rules_payload F module_code_v
                             catalog rules_p)))"
proof -
  let ?mc = "clean_str (Some module_code_v)"
  let ?es = "rule_edges F ?mc catalog rules_p mr"
  let ?nm = "node_map_before_ghosts F ?mc catalog rules_p mr"
  let ?g = "map_of (code_to_id rules_p)"
  let ?itl = "id_to_label (id_label_index catalog)"
  let ?final = "foldl (add_ghost_node ?g ?itl ?mc) ?nm (missing_codes ?es ?nm)"
  have kd: "keyed ?nm"
    using before_ghosts_real [of F ?mc catalog rules_p mr] by (simp add: real_map_def)
  have nc: "node_code n \<noteq> c" if "(k, n) \<in> set ?final" for k n
  proof
    assume eq: "node_code n = c"
    from ghosts_entries [OF that] show False
    proof
      assume mem: "(k, n) \<in> set ?nm"
      then have "k = c" using kd eq by (auto simp: keyed_def)
      moreover have "map_of ?nm k = Some n"
        using kd mem by (simp add: keyed_def)
      ultimately show False using absent by simp
    next
      assume "k \<in> set (missing_codes ?es ?nm)
        \<and> node_type_from_code_strict (Some k) \<in> {''objective'', ''activity''}
        \<and> n = ghost_node ?g ?itl ?mc k"
      then show False using eq shape by (simp add: ghost_node_simps)
    qed
  qed
  have "\<forall>p \<in> set ?final. node_code (snd p) \<noteq> c"
    using nc by (metis prod.collapse)
  then have "\<forall>n \<in> set (map snd ?final). node_code n \<noteq> c"
    by simp
  then show ?thesis
    using e by (simp add: build_found [OF found])
qed

text \<open>
  The edge of the worked payload from the module code \<open>M1\<close>, which is not a node and gets
  no ghost, is the second row of the edge output.
\<close>

theorem module_shaped_reference_edge_kept_counterexample:
  "from_node_code (fst (snd (build_dependency_tables_from_rules_payload exact_floats ''M1''
       example_catalog example_rules)) ! 1) = ''M1''
   \<and> length (fst (snd (build_dependency_tables_from_rules_payload exact_floats ''M1''
       example_catalog example_rules))) = 2
   \<and> node_type_from_code_strict (Some ''M1'') = ''module''
   \<and> map_of (node_map_before_ghosts exact_floats ''M1'' example_catalog example_rules
        example_module_rule) ''M1'' = None"
  by (simp add: ex_build ex_types ex_before)

theorem no_ghost_for_module_or_malformed_reference_witness:
  "''M1'' \<notin> set (map node_code (fst (build_dependency_tables_from_rules_payload
       exact_floats ''M1'' example_catalog example_rules)))
   \<and> rule_edges exact_floats ''M1'' example_catalog example_rules example_module_rule ! 1
       \<in> set (fst (snd (build_dependency_tables_from_rules_payload exact_floats ''M1''
                              example_catalog example_rules)))"
proof -
  let ?e = "rule_edges exact_floats ''M1'' example_catalog example_rules example_module_rule ! 1"
  have found: "find (\<lambda>row. clean_str (mr_module_code row) = clean_str (Some ''M1''))
      (module_rules example_rules) = Some example_module_rule"
    by (simp add: ex_clean ex_found)
  have e: "?e \<in> set (rule_edges exact_floats (clean_str (Some ''M1'')) example_catalog
      example_rules example_module_rule)"
    by (simp add: ex_clean ex_edges)
  have c: "''M1'' = from_node_code ?e \<or> ''M1'' = to_node_code ?e"
    by (simp add: ex_edges)
  have absent: "map_of (node_map_before_ghosts exact_floats (clean_str (Some ''M1''))
      example_catalog example_rules example_module_rule) ''M1'' = None"
    by (simp add: ex_clean ex_before)
  have shape: "node_type_from_code_strict (Some ''M1'') \<notin> {''objective'', ''activity''}"
    by (simp add: ex_types)
  from no_ghost_for_module_or_malformed_reference [OF found e c absent shape]
  show ?thesis
    by auto
qed

text \<open>
  C2, as the code has it. The default-open loop runs before the ghost synthesis: every
  output node that is not a ghost and that no activation edge of the output targets has
  \<open>init_open\<close> true, and every ghost node has \<open>init_open\<close> false, targeted or not.
\<close>

theorem default_open_for_real_nodes_only:
  assumes "n \<in> set (fst (build_dependency_tables_from_rules_payload F module_code_v
                            catalog rules_p))"
  shows "(\<not> is_ghost n
          \<and> node_code n \<notin> set (incoming_activation_targets
               (fst (snd (build_dependency_tables_from_rules_payload F module_code_v
                            catalog rules_p))))
          \<longrightarrow> init_open n)
    \<and> (is_ghost n \<longrightarrow> \<not> init_open n)"
proof (cases "find (\<lambda>row. clean_str (mr_module_code row) = clean_str (Some module_code_v))
                (module_rules rules_p)")
  case None
  then show ?thesis
    using assms by (simp add: build_dependency_tables_from_rules_payload_def Let_def)
next
  case (Some mr)
  let ?mc = "clean_str (Some module_code_v)"
  let ?es = "rule_edges F ?mc catalog rules_p mr"
  let ?nm = "node_map_before_ghosts F ?mc catalog rules_p mr"
  let ?g = "map_of (code_to_id rules_p)"
  let ?itl = "id_to_label (id_label_index catalog)"
  let ?final = "foldl (add_ghost_node ?g ?itl ?mc) ?nm (missing_codes ?es ?nm)"
  have rm: "real_map ?nm"
    by (rule before_ghosts_real)
  from assms obtain k where "(k, n) \<in> set ?final"
    by (auto simp: build_found [OF Some])
  from ghosts_entries [OF this] show ?thesis
  proof
    assume mem: "(k, n) \<in> set ?nm"
    then have kn: "node_code n = k" "\<not> is_ghost n"
      using rm by (auto simp: real_map_def keyed_def no_ghosts_def)
    have "init_open n \<or> k \<in> set (incoming_activation_targets ?es)"
      using mem unfolding node_map_before_ghosts_def by (rule open_untargeted_open)
    then show ?thesis
      using kn by (auto simp: build_found [OF Some])
  next
    assume "k \<in> set (missing_codes ?es ?nm)
        \<and> node_type_from_code_strict (Some k) \<in> {''objective'', ''activity''}
        \<and> n = ghost_node ?g ?itl ?mc k"
    then show ?thesis
      by (simp add: ghost_node_simps)
  qed
qed

text \<open>
  The ghost node \<open>M1O1A9\<close> of the worked payload is the source of an activation edge and
  the target of none, no rule names it, and its \<open>init_open\<close> is false.
\<close>

theorem ghost_node_not_default_open_counterexample:
  "length (fst (build_dependency_tables_from_rules_payload exact_floats ''M1'' example_catalog
       example_rules)) = 3
   \<and> node_code (fst (build_dependency_tables_from_rules_payload exact_floats ''M1''
       example_catalog example_rules) ! 2) = ''M1O1A9''
   \<and> is_ghost (fst (build_dependency_tables_from_rules_payload exact_floats ''M1''
       example_catalog example_rules) ! 2)
   \<and> ''M1O1A9'' \<notin> set (incoming_activation_targets
       (fst (snd (build_dependency_tables_from_rules_payload exact_floats ''M1''
          example_catalog example_rules))))
   \<and> map_of (snd (seeded_nodes ''M1'' example_catalog example_rules example_module_rule))
       ''M1O1A9'' = None
   \<and> \<not> init_open (fst (build_dependency_tables_from_rules_payload exact_floats ''M1''
       example_catalog example_rules) ! 2)"
  by (simp add: ex_build ex_seeded incoming_activation_targets_def ex_clean)

theorem default_open_for_real_nodes_only_witness:
  "\<not> is_ghost (fst (build_dependency_tables_from_rules_payload exact_floats ''M1''
       example_catalog example_rules) ! 0)
   \<and> node_code (fst (build_dependency_tables_from_rules_payload exact_floats ''M1''
       example_catalog example_rules) ! 0)
     \<notin> set (incoming_activation_targets
       (fst (snd (build_dependency_tables_from_rules_payload exact_floats ''M1''
          example_catalog example_rules))))
   \<and> init_open (fst (build_dependency_tables_from_rules_payload exact_floats ''M1''
       example_catalog example_rules) ! 0)"
proof -
  let ?B = "build_dependency_tables_from_rules_payload exact_floats ''M1'' example_catalog
    example_rules"
  have mem: "fst ?B ! 0 \<in> set (fst ?B)"
    by (simp add: ex_build)
  have a: "\<not> is_ghost (fst ?B ! 0)"
    by (simp add: ex_build)
  have b: "node_code (fst ?B ! 0) \<notin> set (incoming_activation_targets (fst (snd ?B)))"
    by (simp add: ex_build incoming_activation_targets_def ex_clean)
  from default_open_for_real_nodes_only [OF mem] a b show ?thesis
    by simp
qed

subsection \<open>The ragged matrix payload\<close>

lemma update_absent_append: "k \<notin> fst ` set al \<Longrightarrow> AList.update k v al = al @ [(k, v)]"
  by (induction al) auto

lemma zip_upt_lookup_None:
  "map_of (zip ids [0 ..< length ids]) k = None \<longleftrightarrow> k \<notin> set ids"
  by (simp add: map_of_zip_is_None)

lemma zip_upt_snoc:
  "zip (ids @ [k]) [0 ..< Suc (length ids)] = zip ids [0 ..< length ids] @ [(k, length ids)]"
  by simp

lemma scan_row_ok:
  assumes "scan_inv st" "cell_activity_col_idx row = Some i"
  shows "\<exists>st'. scan_row st row = Inr st' \<and> scan_inv st'
     \<and> set (scan_ids st') = insert (py_str_opt (cell_objective_id row)) (set (scan_ids st))
     \<and> scan_max st' = max (scan_max st) i"
proof (cases "py_str_opt (cell_objective_id row) \<in> set (scan_ids st)")
  case True
  then have "map_of (scan_position st) (py_str_opt (cell_objective_id row)) \<noteq> None"
    using assms(1) by (simp add: scan_inv_def zip_upt_lookup_None)
  then show ?thesis using assms True
    by (auto simp: scan_row_def Let_def scan_inv_def)
next
  case False
  then have none: "map_of (scan_position st) (py_str_opt (cell_objective_id row)) = None"
    using assms(1) by (simp add: scan_inv_def zip_upt_lookup_None)
  have "py_str_opt (cell_objective_id row) \<notin> fst ` set (scan_position st)"
    using none by (simp add: map_of_eq_None_iff)
  then have upd: "AList.update (py_str_opt (cell_objective_id row)) (length (scan_ids st))
      (scan_position st)
    = scan_position st @ [(py_str_opt (cell_objective_id row), length (scan_ids st))]"
    by (rule update_absent_append)
  have pos: "scan_position st = zip (scan_ids st) [0 ..< length (scan_ids st)]"
    using assms(1) by (simp add: scan_inv_def)
  have upd': "AList.update (py_str_opt (cell_objective_id row)) (length (scan_ids st))
      (zip (scan_ids st) [0 ..< length (scan_ids st)])
    = zip (scan_ids st) [0 ..< length (scan_ids st)]
        @ [(py_str_opt (cell_objective_id row), length (scan_ids st))]"
    using upd by (simp only: pos [symmetric])
  show ?thesis using assms False none
    by (simp add: scan_row_def Let_def scan_inv_def upd')
qed

lemma scan_rows_ok:
  assumes "scan_inv st" "\<forall>row \<in> set rows. cell_activity_col_idx row \<noteq> None"
  shows "\<exists>st'. scan_rows st rows = Inr st' \<and> scan_inv st'
     \<and> set (scan_ids st') = set (scan_ids st) \<union> (\<lambda>row. py_str_opt (cell_objective_id row)) ` set rows
     \<and> scan_max st' = Max (insert (scan_max st) (set (List.map_filter cell_activity_col_idx rows)))"
  using assms
proof (induction rows arbitrary: st)
  case Nil
  then show ?case by (simp add: List.map_filter_simps)
next
  case (Cons row rows)
  then obtain i where i: "cell_activity_col_idx row = Some i" by auto
  from scan_row_ok [OF Cons.prems(1) i] obtain st1 where
    st1: "scan_row st row = Inr st1" "scan_inv st1"
      "set (scan_ids st1) = insert (py_str_opt (cell_objective_id row)) (set (scan_ids st))"
      "scan_max st1 = max (scan_max st) i"
    by blast
  from Cons.IH [OF st1(2)] Cons.prems(2) obtain st' where
    st': "scan_rows st1 rows = Inr st'" "scan_inv st'"
      "set (scan_ids st') = set (scan_ids st1) \<union> (\<lambda>row. py_str_opt (cell_objective_id row)) ` set rows"
      "scan_max st' = Max (insert (scan_max st1) (set (List.map_filter cell_activity_col_idx rows)))"
    by auto
  have fin: "finite (set (List.map_filter cell_activity_col_idx rows))" by simp
  have "Max (insert (max (scan_max st) i) (set (List.map_filter cell_activity_col_idx rows)))
      = Max (insert (scan_max st) (insert i (set (List.map_filter cell_activity_col_idx rows))))"
  proof (cases "set (List.map_filter cell_activity_col_idx rows) = {}")
    case True
    then show ?thesis by (simp add: max.commute)
  next
    case False
    then show ?thesis using fin by (simp add: max.assoc)
  qed
  then show ?case
    using st1 st' i by (auto simp: List.map_filter_simps)
qed

lemma py_list_set_ok:
  "0 \<le> j \<Longrightarrow> j < int (length xs) \<Longrightarrow> py_list_set xs j v = Inr (xs[nat j := v])"
  by (simp add: py_list_set_def Let_def)

lemma grid_set_ok:
  assumes "grid_shape m n g" "r < m" "0 \<le> j" "j < int n"
  shows "grid_set g r j v = Inr (g[r := (g ! r)[nat j := v]])"
    and "grid_shape m n (g[r := (g ! r)[nat j := v]])"
proof -
  have len: "length (g ! r) = n" using assms(1,2) by (simp add: grid_shape_def)
  show "grid_set g r j v = Inr (g[r := (g ! r)[nat j := v]])"
    using assms len by (simp add: grid_set_def py_list_set_ok grid_shape_def)
  show "grid_shape m n (g[r := (g ! r)[nat j := v]])"
    using assms(1) len by (auto simp: grid_shape_def dest!: set_update_subset_insert [THEN subsetD])
qed

lemma place_row_ok:
  assumes "grid_shape m n z" "grid_shape m n t" "grid_shape m n c"
    and "map_of pos (py_str_opt (cell_objective_id row)) = Some r" "r < m"
    and "cell_activity_col_idx row = Some i" "1 \<le> i" "i \<le> int n"
  shows "\<exists>z' t' c'. place_row pos (z, t, c) row = Inr (z', t', c')
     \<and> grid_shape m n z' \<and> grid_shape m n t' \<and> grid_shape m n c'
     \<and> z' = z[r := (z ! r)[nat (i - 1) := cell_metric_value row]]"
proof -
  have j: "0 \<le> i - 1" "i - 1 < int n" using assms(7,8) by auto
  show ?thesis
    using assms(4,6)
    by (simp add: place_row_def Let_def
          grid_set_ok [OF assms(1) assms(5) j] grid_set_ok [OF assms(2) assms(5) j]
          grid_set_ok [OF assms(3) assms(5) j])
qed

lemma place_rows_ok:
  assumes "grid_shape m n z" "grid_shape m n t" "grid_shape m n c"
    and "\<forall>row \<in> set rows. \<exists>r i. map_of pos (py_str_opt (cell_objective_id row)) = Some r \<and> r < m
           \<and> cell_activity_col_idx row = Some i \<and> 1 \<le> i \<and> i \<le> int n"
  shows "\<exists>z' t' c'. place_rows pos (z, t, c) rows = Inr (z', t', c')
     \<and> grid_shape m n z'
     \<and> (\<forall>r k. r < m \<longrightarrow> k < n \<longrightarrow> z' ! r ! k \<noteq> z ! r ! k \<longrightarrow>
           (\<exists>row \<in> set rows. map_of pos (py_str_opt (cell_objective_id row)) = Some r
              \<and> cell_activity_col_idx row = Some (int k + 1)))"
  using assms
proof (induction rows arbitrary: z t c)
  case Nil
  then show ?case by simp
next
  case (Cons row rows)
  from Cons.prems(4) obtain r i where ri:
    "map_of pos (py_str_opt (cell_objective_id row)) = Some r" "r < m"
    "cell_activity_col_idx row = Some i" "1 \<le> i" "i \<le> int n"
    by auto
  from place_row_ok [OF Cons.prems(1-3) ri] obtain z1 t1 c1 where
    p1: "place_row pos (z, t, c) row = Inr (z1, t1, c1)"
      "grid_shape m n z1" "grid_shape m n t1" "grid_shape m n c1"
      "z1 = z[r := (z ! r)[nat (i - 1) := cell_metric_value row]]"
    by blast
  from Cons.IH [OF p1(2-4)] Cons.prems(4) obtain z' t' c' where
    p2: "place_rows pos (z1, t1, c1) rows = Inr (z', t', c')" "grid_shape m n z'"
      "\<forall>r k. r < m \<longrightarrow> k < n \<longrightarrow> z' ! r ! k \<noteq> z1 ! r ! k \<longrightarrow>
           (\<exists>row \<in> set rows. map_of pos (py_str_opt (cell_objective_id row)) = Some r
              \<and> cell_activity_col_idx row = Some (int k + 1))"
    by auto
  have step: "z1 ! r' ! k \<noteq> z ! r' ! k \<Longrightarrow> r' = r \<and> int k + 1 = i" if "r' < m" "k < n" for r' k
  proof -
    assume ne: "z1 ! r' ! k \<noteq> z ! r' ! k"
    have lz: "length z = m" using Cons.prems(1) by (simp add: grid_shape_def)
    have r_eq: "r' = r" using ne p1(5) that lz by (cases "r' = r") auto
    have lr: "length (z ! r) = n" using Cons.prems(1) ri(2) by (simp add: grid_shape_def)
    have "k = nat (i - 1)"
      using ne p1(5) r_eq lz ri(2) lr that by (cases "k = nat (i - 1)") auto
    then show ?thesis using r_eq ri(4) by auto
  qed
  have "\<exists>row' \<in> set (row # rows). map_of pos (py_str_opt (cell_objective_id row')) = Some r'
              \<and> cell_activity_col_idx row' = Some (int k + 1)"
    if "r' < m" "k < n" "z' ! r' ! k \<noteq> z ! r' ! k" for r' k
  proof (cases "z' ! r' ! k = z1 ! r' ! k")
    case True
    then have "z1 ! r' ! k \<noteq> z ! r' ! k" using that(3) by simp
    from step [OF that(1,2) this] ri show ?thesis by auto
  next
    case False
    with p2(3) that show ?thesis by auto
  qed
  then show ?case using p1(1) p2(1,2) by auto
qed


lemma set_map_filter: "set (List.map_filter f xs) = {y. \<exists>x \<in> set xs. f x = Some y}"
  unfolding List.map_filter_def by force

lemma zip_upt_lookup_Some:
  "map_of (zip ids [0 ..< length ids]) k = Some r \<Longrightarrow> r < length ids \<and> ids ! r = k"
proof -
  assume "map_of (zip ids [0 ..< length ids]) k = Some r"
  then have "(k, r) \<in> set (zip ids [0 ..< length ids])"
    by (rule map_of_SomeD)
  then obtain i where "i < length ids" "ids ! i = k" "[0 ..< length ids] ! i = r"
    by (auto simp: in_set_zip)
  then show ?thesis by simp
qed

lemma zip_upt_lookup_ex:
  "k \<in> set ids \<Longrightarrow> \<exists>r. map_of (zip ids [0 ..< length ids]) k = Some r \<and> r < length ids"
proof -
  assume "k \<in> set ids"
  then have "map_of (zip ids [0 ..< length ids]) k \<noteq> None"
    by (simp add: zip_upt_lookup_None)
  then obtain r where "map_of (zip ids [0 ..< length ids]) k = Some r"
    by (cases "map_of (zip ids [0 ..< length ids]) k") auto
  then show ?thesis using zip_upt_lookup_Some [of ids k r] by simp
qed

text \<open>
  C9. For a cells table that is not empty and whose column indices are the 1-based
  positions the cells builder assigns, \<open>build_ragged_matrix_payload\<close> returns a payload
  whose \<open>z_values\<close> has one row per distinct objective, every row as long as the largest
  column index, and null at every position for which the table has no cell.
\<close>

theorem ragged_payload_is_dense_and_null_padded:
  assumes ne: "rows \<noteq> []"
    and idx: "\<forall>row \<in> set rows. \<exists>i. cell_activity_col_idx row = Some i \<and> 1 \<le> i"
  shows "\<exists>p. build_ragged_matrix_payload rows = Inr p
     \<and> distinct (objective_ids p)
     \<and> set (objective_ids p) = (\<lambda>row. py_str_opt (cell_objective_id row)) ` set rows
     \<and> length (z_values p) = card ((\<lambda>row. py_str_opt (cell_objective_id row)) ` set rows)
     \<and> length (z_values p) = length (objective_ids p)
     \<and> max_activity_cols p = Max (set (List.map_filter cell_activity_col_idx rows))
     \<and> (\<forall>zr \<in> set (z_values p). int (length zr) = max_activity_cols p)
     \<and> (\<forall>r k. r < length (objective_ids p) \<longrightarrow> int k < max_activity_cols p \<longrightarrow>
            \<not> (\<exists>row \<in> set rows. py_str_opt (cell_objective_id row) = objective_ids p ! r
                   \<and> cell_activity_col_idx row = Some (int k + 1))
            \<longrightarrow> z_values p ! r ! k = None)"
proof -
  let ?oid = "\<lambda>row. py_str_opt (cell_objective_id row)"
  let ?S = "set (List.map_filter cell_activity_col_idx rows)"
  let ?st0 = "\<lparr>scan_ids = [], scan_labels = [], scan_position = [], scan_max = 0\<rparr>"
  have inv0: "scan_inv ?st0" by (simp add: scan_inv_def)
  have nonnull: "\<forall>row \<in> set rows. cell_activity_col_idx row \<noteq> None"
    using idx by auto
  from scan_rows_ok [OF inv0 nonnull] obtain st where
    st: "scan_rows ?st0 rows = Inr st" "scan_inv st"
      "set (scan_ids st) = ?oid ` set rows"
      "scan_max st = Max (insert 0 ?S)"
    by auto
  obtain row0 where row0: "row0 \<in> set rows" using ne by (cases rows) auto
  then obtain i0 where "cell_activity_col_idx row0 = Some i0" using idx by auto
  then have i0: "i0 \<in> ?S" using row0 by (auto simp: set_map_filter)
  then have S_ne: "?S \<noteq> {}" by (metis empty_iff)
  have S_pos: "\<forall>i \<in> ?S. 1 \<le> i"
    using idx by (auto simp: set_map_filter)
  have "0 \<le> Max ?S"
  proof -
    have "1 \<le> i0" "i0 \<le> Max ?S" using S_pos i0 by auto
    then show ?thesis by simp
  qed
  then have mx: "scan_max st = Max ?S"
    using st(4) S_ne by (simp add: max_def)
  let ?m = "length (scan_ids st)"
  let ?n = "nat (scan_max st)"
  have pos: "scan_position st = zip (scan_ids st) [0 ..< ?m]" and dist: "distinct (scan_ids st)"
    using st(2) by (simp_all add: scan_inv_def)
  have shapes: "grid_shape ?m ?n (replicate ?m (replicate ?n (None :: rat option)))"
    "grid_shape ?m ?n (replicate ?m (replicate ?n ([] :: string)))"
    "grid_shape ?m ?n (replicate ?m (replicate ?n [[], [], [], [], [], [] :: string]))"
    by (simp_all add: grid_shape_def)
  have each: "\<forall>row \<in> set rows. \<exists>r i. map_of (scan_position st) (?oid row) = Some r \<and> r < ?m
           \<and> cell_activity_col_idx row = Some i \<and> 1 \<le> i \<and> i \<le> int ?n"
  proof
    fix row assume row: "row \<in> set rows"
    then have "?oid row \<in> set (scan_ids st)" using st(3) by auto
    from zip_upt_lookup_ex [OF this] obtain r where
      r: "map_of (scan_position st) (?oid row) = Some r" "r < ?m"
      using pos by auto
    from idx row obtain i where i: "cell_activity_col_idx row = Some i" "1 \<le> i" by auto
    then have "i \<in> ?S" using row by (auto simp: set_map_filter)
    then have "i \<le> Max ?S" by simp
    then have "i \<le> int ?n" using mx i(2) by simp
    with r i show "\<exists>r i. map_of (scan_position st) (?oid row) = Some r \<and> r < ?m
           \<and> cell_activity_col_idx row = Some i \<and> 1 \<le> i \<and> i \<le> int ?n"
      by blast
  qed
  from place_rows_ok [OF shapes each] obtain z' t' c' where
    pl: "place_rows (scan_position st)
           (replicate ?m (replicate ?n None), replicate ?m (replicate ?n []),
            replicate ?m (replicate ?n [[], [], [], [], [], []])) rows = Inr (z', t', c')"
      "grid_shape ?m ?n z'"
      "\<forall>r k. r < ?m \<longrightarrow> k < ?n \<longrightarrow>
           z' ! r ! k \<noteq> replicate ?m (replicate ?n None) ! r ! k \<longrightarrow>
           (\<exists>row \<in> set rows. map_of (scan_position st) (?oid row) = Some r
              \<and> cell_activity_col_idx row = Some (int k + 1))"
    by blast
  define p where "p = \<lparr>x_labels = map (\<lambda>idx. ''A'' @ str_of_nat idx) [1 ..< ?n + 1],
      y_labels = scan_labels st, z_values = z', text_values = t', customdata = c',
      objective_ids = scan_ids st, max_activity_cols = scan_max st\<rparr>"
  have build: "build_ragged_matrix_payload rows = Inr p"
    using ne st(1) pl(1) by (simp add: build_ragged_matrix_payload_def Let_def p_def)
  have n_int: "int ?n = scan_max st"
    using mx \<open>0 \<le> Max ?S\<close> by simp
  have pad: "z' ! r ! k = None"
    if "r < ?m" "int k < scan_max st"
      "\<not> (\<exists>row \<in> set rows. ?oid row = scan_ids st ! r
             \<and> cell_activity_col_idx row = Some (int k + 1))" for r k
  proof (rule ccontr)
    assume "z' ! r ! k \<noteq> None"
    moreover have "k < ?n" using that(2) n_int by simp
    ultimately have "z' ! r ! k \<noteq> replicate ?m (replicate ?n None) ! r ! k"
      using that(1) by simp
    with pl(3) that(1) \<open>k < ?n\<close> obtain row where row: "row \<in> set rows"
      "map_of (scan_position st) (?oid row) = Some r"
      "cell_activity_col_idx row = Some (int k + 1)"
      by blast
    from row(2) have "scan_ids st ! r = ?oid row"
      using zip_upt_lookup_Some [of "scan_ids st" "?oid row" r] pos by simp
    with row that(3) show False by auto
  qed
  have "card (set (scan_ids st)) = ?m"
    using dist by (rule distinct_card)
  then have "card (?oid ` set rows) = ?m"
    by (simp only: st(3))
  then have c1: "length z' = card (?oid ` set rows)"
    using pl(2) by (simp add: grid_shape_def)
  have c2: "\<forall>zr \<in> set z'. int (length zr) = scan_max st"
    using pl(2) n_int by (simp add: grid_shape_def)
  have c3: "length z' = ?m"
    using pl(2) by (simp add: grid_shape_def)
  have c4: "\<forall>r k. r < ?m \<longrightarrow> int k < scan_max st \<longrightarrow>
            \<not> (\<exists>row \<in> set rows. ?oid row = scan_ids st ! r
                   \<and> cell_activity_col_idx row = Some (int k + 1))
            \<longrightarrow> z' ! r ! k = None"
    using pad by blast
  have sel: "objective_ids p = scan_ids st" "z_values p = z'"
    "max_activity_cols p = scan_max st"
    by (simp_all add: p_def)
  show ?thesis
    apply (rule exI [of _ p])
    apply (simp only: sel)
    apply (intro conjI)
           apply (rule build)
          apply (rule dist)
         apply (rule st(3))
        apply (rule c1)
       apply (rule c3)
      apply (rule mx)
     apply (rule c2)
    apply (rule c4)
    done
qed

text \<open>
  The worked table, where \<open>o1\<close> has two activities and \<open>o2\<close> has four: both rows have
  length 4, and columns 3 and 4 of the first row are null.
\<close>

lemma ex_ragged_prims:
  "str_of_nat (Suc 0) = ''1''" "str_of_nat (Suc (Suc 0)) = ''2''"
  "str_of_nat (Suc (Suc (Suc 0))) = ''3''" "str_of_nat (Suc (Suc (Suc (Suc 0)))) = ''4''"
  by code_simp+

lemma ex_scan:
  "scan_rows \<lparr>scan_ids = [], scan_labels = [], scan_position = [], scan_max = 0\<rparr> example_cells
     = Inr \<lparr>scan_ids = [''o1'', ''o2''], scan_labels = [''o1'', ''o2''],
            scan_position = [(''o1'', 0), (''o2'', 1)], scan_max = 4\<rparr>"
  by (simp add: example_cells_def example_cell_def scan_row_def Let_def py_str_opt_def)

lemma ex_ragged:
  "build_ragged_matrix_payload example_cells =
     Inr \<lparr>x_labels = [''A1'', ''A2'', ''A3'', ''A4''], y_labels = [''o1'', ''o2''],
       z_values = [[Some 0, Some (1 / 2), None, None],
                   [Some 1, Some 0, Some (1 / 4), Some (3 / 4)]],
       text_values = [[[], [], [], []], [[], [], [], []]],
       customdata =
         [[[''o1'', ''o1'', ''o1a'', ''o1a'', [], []], [''o1'', ''o1'', ''o1a'', ''o1a'', [], []],
           [[], [], [], [], [], []], [[], [], [], [], [], []]],
          [[''o2'', ''o2'', ''o2a'', ''o2a'', [], []], [''o2'', ''o2'', ''o2a'', ''o2a'', [], []],
           [''o2'', ''o2'', ''o2a'', ''o2a'', [], []], [''o2'', ''o2'', ''o2a'', ''o2a'', [], []]]],
       objective_ids = [''o1'', ''o2''], max_activity_cols = 4\<rparr>"
  unfolding build_ragged_matrix_payload_def ex_scan
  by (simp add: example_cells_def example_cell_def place_row_def grid_set_def py_list_set_def
        Let_def py_str_opt_def or_else_def eval_nat_numeral ex_ragged_prims)

theorem ragged_payload_is_dense_and_null_padded_witness:
  "(\<exists>p. build_ragged_matrix_payload example_cells = Inr p
      \<and> length (z_values p) = 2
      \<and> map length (z_values p) = [4, 4]
      \<and> z_values p ! 0 ! 2 = None \<and> z_values p ! 0 ! 3 = None
      \<and> z_values p ! 0 ! 1 = Some (1 / 2))"
proof -
  have ne: "example_cells \<noteq> []"
    by (simp add: example_cells_def)
  have idx: "\<forall>row \<in> set example_cells. \<exists>i. cell_activity_col_idx row = Some i \<and> 1 \<le> i"
    by (simp add: example_cells_def example_cell_def)
  from ragged_payload_is_dense_and_null_padded [OF ne idx] obtain p where
    p: "build_ragged_matrix_payload example_cells = Inr p"
      "\<forall>r k. r < length (objective_ids p) \<longrightarrow> int k < max_activity_cols p \<longrightarrow>
            \<not> (\<exists>row \<in> set example_cells.
                   py_str_opt (cell_objective_id row) = objective_ids p ! r
                   \<and> cell_activity_col_idx row = Some (int k + 1))
            \<longrightarrow> z_values p ! r ! k = None"
    by (elim exE conjE)
  have pp: "\<lparr>x_labels = [''A1'', ''A2'', ''A3'', ''A4''], y_labels = [''o1'', ''o2''],
       z_values = [[Some 0, Some (1 / 2), None, None],
                   [Some 1, Some 0, Some (1 / 4), Some (3 / 4)]],
       text_values = [[[], [], [], []], [[], [], [], []]],
       customdata =
         [[[''o1'', ''o1'', ''o1a'', ''o1a'', [], []], [''o1'', ''o1'', ''o1a'', ''o1a'', [], []],
           [[], [], [], [], [], []], [[], [], [], [], [], []]],
          [[''o2'', ''o2'', ''o2a'', ''o2a'', [], []], [''o2'', ''o2'', ''o2a'', ''o2a'', [], []],
           [''o2'', ''o2'', ''o2a'', ''o2a'', [], []], [''o2'', ''o2'', ''o2a'', ''o2a'', [], []]]],
       objective_ids = [''o1'', ''o2''], max_activity_cols = 4\<rparr> = p"
    using p(1) unfolding ex_ragged by (simp only: sum.inject)
  have ids: "objective_ids p = [''o1'', ''o2'']" "max_activity_cols p = 4"
    "length (z_values p) = 2" "map length (z_values p) = [4, 4]"
    "z_values p ! 0 ! Suc 0 = Some (1 / 2)"
    by (simp_all add: pp [symmetric])
  have z2: "z_values p ! 0 ! 2 = None"
    using p(2) [rule_format, of 0 2]
    by (simp add: ids example_cells_def example_cell_def py_str_opt_def)
  have z3: "z_values p ! 0 ! 3 = None"
    using p(2) [rule_format, of 0 3]
    by (simp add: ids example_cells_def example_cell_def py_str_opt_def)
  show ?thesis
    by (rule exI [of _ p]) (simp add: p(1) ids z2 z3)
qed

subsection \<open>The activity-daily aggregate\<close>

lemma non_nulls_map_if:
  "non_nulls (map (\<lambda>r. if P r then f r else None) rows) = non_nulls (map f (filter P rows))"
  by (induction rows) (auto simp: non_nulls_def List.map_filter_simps split: option.splits)

lemma mean_opt_map_if:
  "mean_opt (map (\<lambda>r. if P r then f r else None) rows) = mean_opt (map f (filter P rows))"
  by (simp add: mean_opt_def non_nulls_map_if)

lemma aggregate_key: "activity_daily_key (aggregate_activity_group k rows) = k"
  by (simp add: activity_daily_key_def aggregate_activity_group_def split: prod.splits)

lemma ex_fixture:
  "build_agg_activity_daily_from_fact fixture_fact =
     [\<lparr>ad_date_utc = Some 20089, ad_activity_id = Some ''a1'',
       ad_activity_label = Some ''Activity 1'', ad_objective_id = Some ''o1'',
       ad_objective_label = Some ''Objective 1'', ad_module_id = Some ''m1'',
       ad_module_code = Some ''M1'', ad_module_label = Some ''Module 1'',
       ad_attempts = 3, ad_unique_students = 2, ad_success_rate = Some (2 / 3),
       ad_first_attempt_success_rate = Some (1 / 2), ad_first_attempt_count = 2,
       ad_median_duration = None, ad_repeat_attempt_rate = Some (1 / 3),
       ad_avg_attempt_number = Some (4 / 3)\<rparr>]"
  by (simp add: build_agg_activity_daily_from_fact_def fixture_fact_def fixture_attempt_def
        activity_group_key_def aggregate_activity_group_def mean_opt_def median_opt_def
        non_nulls_def List.map_filter_simps float_of_bool_def first_attempt_correct_value_def
        first_attempt_flag_def)


lemma build_agg_rows:
  assumes "g \<in> set (build_agg_activity_daily_from_fact fact_rows)"
  shows "g = aggregate_activity_group (activity_daily_key g)
               (filter (\<lambda>r. activity_group_key r = activity_daily_key g) fact_rows)"
proof -
  from assms have "g \<in> (\<lambda>k. aggregate_activity_group k
        (filter (\<lambda>r. activity_group_key r = k) fact_rows))
      ` set (remdups (map activity_group_key fact_rows))"
    unfolding build_agg_activity_daily_from_fact_def set_sort set_map .
  then obtain k where
    "g = aggregate_activity_group k (filter (\<lambda>r. activity_group_key r = k) fact_rows)"
    by (rule imageE)
  then show ?thesis
    by (simp add: aggregate_key)
qed

lemma aggregate_fields:
  "ad_attempts (aggregate_activity_group k rows) = length rows"
  "ad_success_rate (aggregate_activity_group k rows)
     = mean_opt (map (\<lambda>r. float_of_bool (f_data_correct r)) rows)"
  "ad_first_attempt_success_rate (aggregate_activity_group k rows)
     = mean_opt (map first_attempt_correct_value rows)"
  by (simp_all add: aggregate_activity_group_def split: prod.splits)

text \<open>
  C7. In every row of the activity-daily aggregate, \<open>first_attempt_success_rate\<close> is the
  mean of \<open>data_correct\<close> over the rows of the group with \<open>attempt_number = 1\<close> only,
  while \<open>attempts\<close> counts and \<open>success_rate\<close> averages all the rows of the group. On the
  fixture (student A wrong then right, student B right, one activity, one day) the
  aggregate has the single row of \<open>a1\<close> with 3 attempts, success rate 2/3 and first-attempt
  success rate 1/2.
\<close>

theorem first_attempt_rate_over_first_attempts_only:
  "(\<forall>g \<in> set (build_agg_activity_daily_from_fact fact_rows).
      ad_first_attempt_success_rate g
        = mean_opt (map (\<lambda>r. float_of_bool (f_data_correct r))
            (filter (\<lambda>r. f_attempt_number r = Some 1)
               (filter (\<lambda>r. activity_group_key r = activity_daily_key g) fact_rows)))
      \<and> ad_attempts g
        = length (filter (\<lambda>r. activity_group_key r = activity_daily_key g) fact_rows)
      \<and> ad_success_rate g
        = mean_opt (map (\<lambda>r. float_of_bool (f_data_correct r))
            (filter (\<lambda>r. activity_group_key r = activity_daily_key g) fact_rows)))
   \<and> map (\<lambda>g. (ad_activity_id g, ad_attempts g, ad_success_rate g,
                ad_first_attempt_success_rate g))
       (build_agg_activity_daily_from_fact fixture_fact)
     = [(Some ''a1'', 3, Some (2 / 3), Some (1 / 2))]"
proof (intro conjI ballI)
  fix g assume g: "g \<in> set (build_agg_activity_daily_from_fact fact_rows)"
  let ?rows = "filter (\<lambda>r. activity_group_key r = activity_daily_key g) fact_rows"
  have eq: "g = aggregate_activity_group (activity_daily_key g) ?rows"
    using g by (rule build_agg_rows)
  have "ad_first_attempt_success_rate g = mean_opt (map first_attempt_correct_value ?rows)"
    by (subst eq) (simp only: aggregate_fields)
  also have "first_attempt_correct_value
      = (\<lambda>r. if f_attempt_number r = Some 1 then float_of_bool (f_data_correct r) else None)"
    by (rule ext) (simp add: first_attempt_correct_value_def)
  also have "mean_opt (map (\<lambda>r. if f_attempt_number r = Some 1
                 then float_of_bool (f_data_correct r) else None) ?rows)
      = mean_opt (map (\<lambda>r. float_of_bool (f_data_correct r))
          (filter (\<lambda>r. f_attempt_number r = Some 1) ?rows))"
    by (rule mean_opt_map_if)
  finally show "ad_first_attempt_success_rate g
      = mean_opt (map (\<lambda>r. float_of_bool (f_data_correct r))
          (filter (\<lambda>r. f_attempt_number r = Some 1) ?rows))" .
  show "ad_attempts g = length ?rows"
    by (subst eq) (simp only: aggregate_fields)
  show "ad_success_rate g = mean_opt (map (\<lambda>r. float_of_bool (f_data_correct r)) ?rows)"
    by (subst eq) (simp only: aggregate_fields)
next
  show "map (\<lambda>g. (ad_activity_id g, ad_attempts g, ad_success_rate g,
                ad_first_attempt_success_rate g))
       (build_agg_activity_daily_from_fact fixture_fact)
     = [(Some ''a1'', 3, Some (2 / 3), Some (1 / 2))]"
    by (simp add: ex_fixture)
qed

theorem first_attempt_rate_over_first_attempts_only_witness:
  "ad_first_attempt_success_rate (hd (build_agg_activity_daily_from_fact fixture_fact))
     = mean_opt (map (\<lambda>r. float_of_bool (f_data_correct r))
         (filter (\<lambda>r. f_attempt_number r = Some 1)
            (filter (\<lambda>r. activity_group_key r
                = activity_daily_key (hd (build_agg_activity_daily_from_fact fixture_fact)))
               fixture_fact)))
   \<and> ad_first_attempt_success_rate (hd (build_agg_activity_daily_from_fact fixture_fact))
     = Some (1 / 2)"
proof -
  have mem: "hd (build_agg_activity_daily_from_fact fixture_fact)
      \<in> set (build_agg_activity_daily_from_fact fixture_fact)"
    by (simp add: ex_fixture)
  from first_attempt_rate_over_first_attempts_only [of fixture_fact, THEN conjunct1,
      THEN bspec, OF mem, THEN conjunct1]
  show ?thesis
    by (simp add: ex_fixture)
qed


subsection \<open>The cells of the objective-activity matrix\<close>

lemma group_by_member:
  "g \<in> set (group_by key agg rows) \<Longrightarrow>
     \<exists>r \<in> set rows. g = agg (key r) (filter (\<lambda>r'. key r' = key r) rows)"
  by (auto simp: group_by_def)

lemma ordered_activities_subset:
  "set (ordered_activities m acts) \<subseteq> set acts"
  by (auto simp: ordered_activities_def Let_def)

lemma objective_records_source:
  assumes "c \<in> set (objective_records fmt mc metric maps po ordered oid)"
  shows "\<exists>lab acts a. (oid, lab, acts) \<in> set po \<and> a \<in> set acts
     \<and> cr_objective_id c = oid \<and> cr_activity_id c = ae_activity_id a
     \<and> cr_metric_value c = ae_metric_value a"
proof (cases "map_of po oid")
  case None
  then show ?thesis using assms by (simp add: objective_records_def ordered_activities_def)
next
  case (Some p)
  obtain lab acts where p: "p = (lab, acts)" by (cases p)
  let ?m = "case map_of (objective_activity_order_map maps) oid of None \<Rightarrow> [] | Some m \<Rightarrow> m"
  let ?rows = "ordered_activities ?m acts"
  from assms obtain idx a where ia: "(idx, a) \<in> set (zip [1 ..< length ?rows + 1] ?rows)"
    and c: "cr_objective_id c = oid" "cr_activity_id c = ae_activity_id a"
      "cr_metric_value c = ae_metric_value a"
    using Some p by (auto simp: objective_records_def Let_def)
  from ia have "a \<in> set ?rows" by (rule set_zip_rightD)
  then have a: "a \<in> set acts" using ordered_activities_subset by blast
  have "(oid, lab, acts) \<in> set po"
    using Some p by (auto dest: map_of_SomeD)
  then show ?thesis using a c by blast
qed

lemma sourced_update:
  assumes "sourced metric aggregated po"
    and "\<forall>a \<in> set acts. \<exists>row \<in> set aggregated. str_or_empty (ag_objective_id row) = oid
           \<and> str_or_empty (ag_activity_id row) = ae_activity_id a
           \<and> metric_value_of metric row = Some (ae_metric_value a)"
  shows "sourced metric aggregated (AList.update oid (lab, acts) po)"
  unfolding sourced_def
proof (intro ballI, clarify)
  fix oid' lab' acts' a
  assume "(oid', lab', acts') \<in> set (AList.update oid (lab, acts) po)" and a: "a \<in> set acts'"
  then have "(oid', lab', acts') = (oid, lab, acts) \<or> (oid', lab', acts') \<in> set po"
    using set_update_subset [of oid "(lab, acts)" po] by auto
  then show "\<exists>row \<in> set aggregated. str_or_empty (ag_objective_id row) = oid'
           \<and> str_or_empty (ag_activity_id row) = ae_activity_id a
           \<and> metric_value_of metric row = Some (ae_metric_value a)"
  proof
    assume "(oid', lab', acts') = (oid, lab, acts)"
    then show ?thesis using assms(2) a by simp
  next
    assume "(oid', lab', acts') \<in> set po"
    then show ?thesis using assms(1) a unfolding sourced_def by fast
  qed
qed

lemma add_aggregated_sourced:
  assumes "sourced metric aggregated po" "row \<in> set aggregated"
  shows "sourced metric aggregated (add_aggregated metric maps po row)"
proof (cases "str_or_empty (ag_objective_id row) = [] \<or> str_or_empty (ag_activity_id row) = []
    \<or> metric_value_of metric row = None")
  case True
  then show ?thesis using assms(1)
    by (auto simp: add_aggregated_def Let_def)
next
  case False
  then obtain v where v: "metric_value_of metric row = Some v" by auto
  let ?oid = "str_or_empty (ag_objective_id row)"
  define entry where "entry = \<lparr>ae_activity_id = str_or_empty (ag_activity_id row),
      ae_activity_label = safe_label (label_or (ag_activity_label row)
          (map_of (activity_summary_label_map maps) (str_or_empty (ag_activity_id row))))
        (Some (str_or_empty (ag_activity_id row))),
      ae_metric_value = v\<rparr>"
  have entry_ok: "\<exists>row \<in> set aggregated. str_or_empty (ag_objective_id row) = ?oid
      \<and> str_or_empty (ag_activity_id row) = ae_activity_id entry
      \<and> metric_value_of metric row = Some (ae_metric_value entry)"
    using assms(2) by (rule bexI [rotated]) (simp add: entry_def v)
  show ?thesis
  proof (cases "map_of po ?oid")
    case None
    obtain lab0 where eq: "add_aggregated metric maps po row
        = AList.update ?oid (lab0, [entry]) po"
      using False v None by (simp add: add_aggregated_def Let_def entry_def)
    show ?thesis
      unfolding eq using assms(1) entry_ok by (intro sourced_update) simp_all
  next
    case (Some p)
    obtain lab0 acts0 where p: "p = (lab0, acts0)" by (cases p)
    have eq: "add_aggregated metric maps po row
        = AList.update ?oid (lab0, acts0 @ [entry]) po"
      using False v Some p by (simp add: add_aggregated_def Let_def entry_def)
    have "(?oid, lab0, acts0) \<in> set po"
      using Some p by (auto dest: map_of_SomeD)
    then have old: "\<forall>a \<in> set acts0. \<exists>row \<in> set aggregated.
        str_or_empty (ag_objective_id row) = ?oid
        \<and> str_or_empty (ag_activity_id row) = ae_activity_id a
        \<and> metric_value_of metric row = Some (ae_metric_value a)"
      using assms(1) unfolding sourced_def by fast
    show ?thesis
      unfolding eq using assms(1) entry_ok old by (intro sourced_update) simp_all
  qed
qed

lemma foldl_sourced:
  assumes "sourced metric aggregated po" "set rows \<subseteq> set aggregated"
  shows "sourced metric aggregated (foldl (add_aggregated metric maps) po rows)"
  using assms
proof (induction rows arbitrary: po)
  case Nil
  then show ?case by simp
next
  case (Cons row rows)
  have "sourced metric aggregated (add_aggregated metric maps po row)"
    using Cons.prems by (intro add_aggregated_sourced) auto
  then show ?case using Cons by simp
qed

lemma cells_source:
  assumes "build_objective_activity_cells fmt daily mc s e metric maps ex fa = Inr cells"
    and "c \<in> set cells"
  shows "\<exists>aggregated row.
      aggregated_rows mc s e metric
        (filter (\<lambda>r. in_window mc s e (dr_module_code r) (dr_date_utc r)) daily) ex fa
        = Inr aggregated
      \<and> row \<in> set aggregated
      \<and> cr_objective_id c = str_or_empty (ag_objective_id row)
      \<and> cr_activity_id c = str_or_empty (ag_activity_id row)
      \<and> metric_value_of metric row = Some (cr_metric_value c)"
proof -
  let ?filtered = "filter (\<lambda>r. in_window mc s e (dr_module_code r) (dr_date_utc r)) daily"
  have valid: "metric \<in> set VALID_MATRIX_METRICS"
    using assms(1) by (auto simp: build_objective_activity_cells_def split: if_splits)
  have ne: "?filtered \<noteq> []"
    using assms valid by (auto simp: build_objective_activity_cells_def Let_def split: if_splits)
  obtain aggregated where ag: "aggregated_rows mc s e metric ?filtered ex fa = Inr aggregated"
    using assms(1) valid ne
    by (cases "aggregated_rows mc s e metric ?filtered ex fa")
      (auto simp: build_objective_activity_cells_def Let_def)
  let ?po = "foldl (add_aggregated metric maps) [] aggregated"
  let ?ordered = "ordered_objectives maps ?po"
  have cells: "cells = concat (map (objective_records fmt mc metric maps ?po ?ordered) ?ordered)"
    using assms(1) valid ne ag by (simp add: build_objective_activity_cells_def Let_def)
  then obtain oid where "c \<in> set (objective_records fmt mc metric maps ?po ?ordered oid)"
    using assms(2) by auto
  from objective_records_source [OF this] obtain lab acts a where
    src: "(oid, lab, acts) \<in> set ?po" "a \<in> set acts"
      "cr_objective_id c = oid" "cr_activity_id c = ae_activity_id a"
      "cr_metric_value c = ae_metric_value a"
    by blast
  have "sourced metric aggregated []" by (simp add: sourced_def)
  then have "sourced metric aggregated ?po" by (rule foldl_sourced) simp
  with src(1,2) obtain row where "row \<in> set aggregated"
    "str_or_empty (ag_objective_id row) = oid"
    "str_or_empty (ag_activity_id row) = ae_activity_id a"
    "metric_value_of metric row = Some (ae_metric_value a)"
    unfolding sourced_def by fast
  then show ?thesis using ag src(3-5) by auto
qed

lemma non_nulls_map_Some: "non_nulls (map (\<lambda>x. Some (f x)) xs) = map f xs"
  by (induction xs) (auto simp: non_nulls_def List.map_filter_simps)

lemma window_rows_filter:
  "filter (\<lambda>r'. (dr_objective_id r', dr_activity_id r') = (oid, aid))
       (filter (\<lambda>r. in_window mc s e (dr_module_code r) (dr_date_utc r)) rows)
     = window_rows mc s e oid aid rows"
  by (simp add: window_rows_def conj_commute)

lemma metric_value_of_daily:
  "metric_value_of ''success_rate'' (aggregate_daily k rows)
     = Some (if total dr_attempts rows \<le> 0 then 0
             else weighted_sum dr_success_rate dr_attempts rows / total dr_attempts rows)"
  "metric_value_of ''repeat_attempt_rate'' (aggregate_daily k rows)
     = Some (if total dr_attempts rows \<le> 0 then 0
             else weighted_sum dr_repeat_attempt_rate dr_attempts rows / total dr_attempts rows)"
  "metric_value_of ''first_attempt_success_rate'' (aggregate_daily k rows)
     = Some (if total dr_attempts rows \<le> 0 then 0
             else if total dr_first_attempt_count rows \<le> 0 then 0
             else weighted_sum dr_first_attempt_success_rate dr_first_attempt_count rows
                    / total dr_first_attempt_count rows)"
  by (simp_all add: metric_value_of_def aggregate_daily_def float_or_zero_def total_def
        weighted_sum_def Let_def)

lemma fx_prims:
  "str_or_empty (Some ''o1'') = ''o1''" "str_or_empty (Some ''a1'') = ''a1''"
  "str_or_empty (Some ''a2'') = ''a2''" "str_or_empty None = []"
  "py_lower ''o1'' = ''o1''" "py_lower ''a1'' = ''a1''" "py_lower ''a2'' = ''a2''"
  "str_of_nat (Suc 0) = ''1''" "str_of_nat (Suc (Suc 0)) = ''2''"
  "sort_key (\<lambda>row. (py_lower (ae_activity_label row), ae_activity_id row))
     [\<lparr>ae_activity_id = ''a1'', ae_activity_label = ''a1'', ae_metric_value = x\<rparr>,
      \<lparr>ae_activity_id = ''a2'', ae_activity_label = ''a2'', ae_metric_value = y\<rparr>]
   = [\<lparr>ae_activity_id = ''a1'', ae_activity_label = ''a1'', ae_metric_value = x\<rparr>,
      \<lparr>ae_activity_id = ''a2'', ae_activity_label = ''a2'', ae_metric_value = y\<rparr>]"
  by code_simp+

lemmas matrix_fixture_defs = build_objective_activity_cells_def VALID_MATRIX_METRICS_def
  fixture_activity_daily_def fixture_exercise_daily_def fixture_daily_row_def in_window_def
  aggregated_rows_def group_by_def aggregate_daily_def aggregate_exercise_def
  aggregate_balanced_def exercise_success_rate_def mean_opt_def add_aggregated_def
  metric_value_of_def float_or_zero_def sum_opt_def non_nulls_def List.map_filter_simps
  mul_opt_def first_non_null_def safe_label_def label_or_def no_summary_def Let_def
  ordered_objectives_def objective_records_def ordered_activities_def
  objective_base_label_def objective_row_label_def

lemma fx_success:
  "map_sum id (map (\<lambda>c. (cr_objective_id c, cr_activity_id c, cr_metric_value c)))
     (build_objective_activity_cells fmt fixture_activity_daily ''M1'' 1 31
        ''success_rate'' no_summary None None)
   = Inr [(''o1'', ''a1'', 29 / 40), (''o1'', ''a2'', 0)]"
  by (simp add: matrix_fixture_defs fx_prims)

lemma fx_repeat:
  "map_sum id (map (\<lambda>c. (cr_objective_id c, cr_activity_id c, cr_metric_value c)))
     (build_objective_activity_cells fmt fixture_activity_daily ''M1'' 1 31
        ''repeat_attempt_rate'' no_summary None None)
   = Inr [(''o1'', ''a1'', 1 / 8), (''o1'', ''a2'', 0)]"
  by (simp add: matrix_fixture_defs fx_prims)

lemma fx_first:
  "map_sum id (map (\<lambda>c. (cr_objective_id c, cr_activity_id c, cr_metric_value c)))
     (build_objective_activity_cells fmt fixture_activity_daily ''M1'' 1 31
        ''first_attempt_success_rate'' no_summary None None)
   = Inr [(''o1'', ''a1'', 7 / 10), (''o1'', ''a2'', 0)]"
  by (simp add: matrix_fixture_defs fx_prims)

lemma fx_balanced:
  "map_sum id (map (\<lambda>c. (cr_objective_id c, cr_activity_id c, cr_metric_value c)))
     (build_objective_activity_cells fmt fixture_activity_daily ''M1'' 1 31
        ''exercise_balanced_success_rate'' no_summary (Some fixture_exercise_daily) None)
   = Inr [(''o1'', ''a1'', 69 / 80)]"
  by (simp add: matrix_fixture_defs fx_prims)

lemma fx_exercise_weighted:
  "weighted_sum dr_success_rate dr_attempts
     (window_rows ''M1'' 1 31 (Some ''o1'') (Some ''a1'') fixture_exercise_daily)
   / total dr_attempts
     (window_rows ''M1'' 1 31 (Some ''o1'') (Some ''a1'') fixture_exercise_daily) = 31 / 42"
  by (simp add: weighted_sum_def total_def window_rows_def matrix_fixture_defs)

lemma fx_exercise_rates:
  "exercise_rates ''M1'' 1 31 (Some ''o1'') (Some ''a1'') fixture_exercise_daily = [29 / 40, 1]"
  by (simp add: exercise_rates_def exercise_rows_def weighted_sum_def total_def window_rows_def
        matrix_fixture_defs)

lemma fixture_window_keys:
  assumes "window_rows ''M1'' 1 31 oid aid frame \<noteq> []"
    and "frame = fixture_activity_daily \<or> frame = fixture_exercise_daily"
    and "str_or_empty aid = ''a1''"
  shows "oid = Some ''o1'' \<and> aid = Some ''a1''"
proof -
  from assms(1) obtain r where "r \<in> set frame" "dr_objective_id r = oid" "dr_activity_id r = aid"
    by (auto simp: window_rows_def filter_empty_conv)
  then have "oid = Some ''o1'' \<and> (aid = Some ''a1'' \<or> aid = Some ''a2'')"
    using assms(2)
    by (auto simp: fixture_activity_daily_def fixture_exercise_daily_def fixture_daily_row_def)
  then show ?thesis
    using assms(3) by (auto simp: fx_prims)
qed

lemma fixture_cells:
  assumes "map_sum id (map (\<lambda>c. (cr_objective_id c, cr_activity_id c, cr_metric_value c))) b
      = Inr (x # xs)"
  shows "\<exists>cells. b = Inr cells \<and> cells \<noteq> []
     \<and> (cr_objective_id (hd cells), cr_activity_id (hd cells), cr_metric_value (hd cells)) = x"
  using assms by (cases b) auto

lemma fx_attempts_total:
  "total dr_attempts (window_rows ''M1'' 1 31 (Some ''o1'') (Some ''a1'') fixture_activity_daily)
     = 40"
  "total dr_attempts (window_rows ''M1'' 1 31 (Some ''o1'') (Some ''a2'') fixture_activity_daily)
     = 0"
  by (simp_all add: total_def window_rows_def matrix_fixture_defs)

text \<open>
  C6. Every cell that \<open>build_objective_activity_cells\<close> returns for the metric
  \<open>success_rate\<close> or \<open>repeat_attempt_rate\<close> belongs to an objective and an activity
  that have rows in the module and date window, and its value is the sum of rate times
  attempts over those rows divided by the sum of their attempts, and exactly 0 when the
  attempts do not sum above 0. For \<open>first_attempt_success_rate\<close> the weight is
  \<open>first_attempt_count\<close>: the value is the sum of rate times first-attempt count divided
  by the sum of the first-attempt counts, and 0 when the attempts or the first-attempt
  counts do not sum above 0.
\<close>

theorem cell_value_is_attempts_weighted_rate:
  assumes build: "build_objective_activity_cells fmt daily mc s e metric maps ex fa = Inr cells"
    and c: "c \<in> set cells"
    and metric: "metric = ''success_rate'' \<or> metric = ''repeat_attempt_rate''
                 \<or> metric = ''first_attempt_success_rate''"
  shows "\<exists>oid aid. window_rows mc s e oid aid daily \<noteq> []
     \<and> cr_objective_id c = str_or_empty oid \<and> cr_activity_id c = str_or_empty aid
     \<and> (metric = ''success_rate'' \<longrightarrow> cr_metric_value c =
          (if total dr_attempts (window_rows mc s e oid aid daily) \<le> 0 then 0
           else weighted_sum dr_success_rate dr_attempts (window_rows mc s e oid aid daily)
                  / total dr_attempts (window_rows mc s e oid aid daily)))
     \<and> (metric = ''repeat_attempt_rate'' \<longrightarrow> cr_metric_value c =
          (if total dr_attempts (window_rows mc s e oid aid daily) \<le> 0 then 0
           else weighted_sum dr_repeat_attempt_rate dr_attempts
                    (window_rows mc s e oid aid daily)
                  / total dr_attempts (window_rows mc s e oid aid daily)))
     \<and> (metric = ''first_attempt_success_rate'' \<longrightarrow> cr_metric_value c =
          (if total dr_attempts (window_rows mc s e oid aid daily) \<le> 0 then 0
           else if total dr_first_attempt_count (window_rows mc s e oid aid daily) \<le> 0 then 0
           else weighted_sum dr_first_attempt_success_rate dr_first_attempt_count
                    (window_rows mc s e oid aid daily)
                  / total dr_first_attempt_count (window_rows mc s e oid aid daily)))"
proof -
  let ?filtered = "filter (\<lambda>r. in_window mc s e (dr_module_code r) (dr_date_utc r)) daily"
  let ?key = "\<lambda>r. (dr_objective_id r, dr_activity_id r)"
  from cells_source [OF build c] obtain aggregated row where
    ag: "aggregated_rows mc s e metric ?filtered ex fa = Inr aggregated"
    and row: "row \<in> set aggregated"
    and ids: "cr_objective_id c = str_or_empty (ag_objective_id row)"
      "cr_activity_id c = str_or_empty (ag_activity_id row)"
    and val: "metric_value_of metric row = Some (cr_metric_value c)"
    by blast
  have "aggregated = group_by ?key aggregate_daily ?filtered"
    using ag metric by (auto simp: aggregated_rows_def)
  with row obtain r where r: "r \<in> set ?filtered"
    and row_eq: "row = aggregate_daily (?key r) (filter (\<lambda>r'. ?key r' = ?key r) ?filtered)"
    using group_by_member [of row ?key aggregate_daily ?filtered] by blast
  let ?oid = "dr_objective_id r" and ?aid = "dr_activity_id r"
  let ?W = "window_rows mc s e ?oid ?aid daily"
  have W: "filter (\<lambda>r'. ?key r' = ?key r) ?filtered = ?W"
    by (rule window_rows_filter)
  have "r \<in> set ?W"
    using r by (simp add: window_rows_def)
  then have ne: "?W \<noteq> []" by auto
  have row_W: "row = aggregate_daily (?oid, ?aid) ?W"
    using row_eq by (simp only: W)
  have id1: "cr_objective_id c = str_or_empty ?oid" and id2: "cr_activity_id c = str_or_empty ?aid"
    using ids by (simp_all add: row_W aggregate_daily_def)
  have v: "metric_value_of metric (aggregate_daily (?oid, ?aid) ?W) = Some (cr_metric_value c)"
    using val by (simp only: row_W)
  show ?thesis
    apply (rule exI [of _ ?oid])
    apply (rule exI [of _ ?aid])
    apply (intro conjI impI)
        apply (rule ne)
       apply (rule id1)
      apply (rule id2)
     using v apply (simp_all only: metric_value_of_daily option.inject)
    done
qed

theorem cell_value_is_attempts_weighted_rate_witness:
  "\<exists>cells. build_objective_activity_cells (\<lambda>m v. []) fixture_activity_daily ''M1'' 1 31
        ''success_rate'' no_summary None None = Inr cells
     \<and> cr_metric_value (hd cells)
         = weighted_sum dr_success_rate dr_attempts
             (window_rows ''M1'' 1 31 (Some ''o1'') (Some ''a1'') fixture_activity_daily)
           / total dr_attempts
               (window_rows ''M1'' 1 31 (Some ''o1'') (Some ''a1'') fixture_activity_daily)
     \<and> cr_metric_value (hd cells) = 29 / 40"
proof -
  let ?b = "build_objective_activity_cells (\<lambda>m v. []) fixture_activity_daily ''M1'' 1 31
        ''success_rate'' no_summary None None"
  from fixture_cells [OF fx_success] obtain cells where b: "?b = Inr cells"
    and ne: "cells \<noteq> []"
    and c: "cr_activity_id (hd cells) = ''a1''" "cr_metric_value (hd cells) = 29 / 40"
    by auto
  have mem: "hd cells \<in> set cells" using ne by simp
  from cell_value_is_attempts_weighted_rate [OF b mem] obtain oid aid where
    w: "window_rows ''M1'' 1 31 oid aid fixture_activity_daily \<noteq> []"
    and aid: "cr_activity_id (hd cells) = str_or_empty aid"
    and v: "cr_metric_value (hd cells) =
        (if total dr_attempts (window_rows ''M1'' 1 31 oid aid fixture_activity_daily) \<le> 0
         then 0
         else weighted_sum dr_success_rate dr_attempts
                (window_rows ''M1'' 1 31 oid aid fixture_activity_daily)
              / total dr_attempts (window_rows ''M1'' 1 31 oid aid fixture_activity_daily))"
    by auto
  have "oid = Some ''o1'' \<and> aid = Some ''a1''"
    using w aid c(1) by (intro fixture_window_keys [of oid aid fixture_activity_daily]) simp_all
  then have wv: "cr_metric_value (hd cells)
      = weighted_sum dr_success_rate dr_attempts
             (window_rows ''M1'' 1 31 (Some ''o1'') (Some ''a1'') fixture_activity_daily)
           / total dr_attempts
               (window_rows ''M1'' 1 31 (Some ''o1'') (Some ''a1'') fixture_activity_daily)"
    using v by (simp add: fx_attempts_total)
  show ?thesis
    apply (rule exI [of _ cells])
    apply (intro conjI)
      apply (rule b)
     apply (rule wv)
    apply (rule c(2))
    done
qed

lemma remdups_map_inj_on: "inj f \<Longrightarrow> remdups (map f xs) = map f (remdups xs)"
  by (induction xs) (auto simp: inj_def)

lemma exercise_keys:
  "filter (\<lambda>k. (fst k, fst (snd k)) = (oid, aid))
     (remdups (map (\<lambda>r. (dr_objective_id r, dr_activity_id r, dr_exercise_id r))
        (filter (\<lambda>r. in_window mc s e (dr_module_code r) (dr_date_utc r)) frame)))
   = map (\<lambda>eid. (oid, aid, eid)) (remdups (map dr_exercise_id (window_rows mc s e oid aid frame)))"
proof -
  let ?EF = "filter (\<lambda>r. in_window mc s e (dr_module_code r) (dr_date_utc r)) frame"
  let ?key = "\<lambda>r. (dr_objective_id r, dr_activity_id r, dr_exercise_id r)"
  let ?W = "window_rows mc s e oid aid frame"
  have "filter (\<lambda>k. (fst k, fst (snd k)) = (oid, aid)) (remdups (map ?key ?EF))
      = remdups (map ?key (filter (\<lambda>r. (dr_objective_id r, dr_activity_id r) = (oid, aid)) ?EF))"
    by (simp add: remdups_filter [symmetric] filter_map comp_def)
  also have "filter (\<lambda>r. (dr_objective_id r, dr_activity_id r) = (oid, aid)) ?EF = ?W"
    by (rule window_rows_filter)
  also have "map ?key ?W = map (\<lambda>eid. (oid, aid, eid)) (map dr_exercise_id ?W)"
    by (simp add: window_rows_def)
  also have "remdups (map (\<lambda>eid. (oid, aid, eid)) (map dr_exercise_id ?W))
      = map (\<lambda>eid. (oid, aid, eid)) (remdups (map dr_exercise_id ?W))"
    by (rule remdups_map_inj_on) (simp add: inj_def)
  finally show ?thesis .
qed

lemma exercise_rows_filter:
  "filter (\<lambda>r. (dr_objective_id r, dr_activity_id r, dr_exercise_id r) = (oid, aid, eid))
     (filter (\<lambda>r. in_window mc s e (dr_module_code r) (dr_date_utc r)) frame)
   = exercise_rows mc s e oid aid eid frame"
  by (auto simp: exercise_rows_def window_rows_def intro: filter_cong)

lemma exercise_success_rate_spec:
  "exercise_success_rate rows
     = (if 0 < total dr_attempts rows
        then Some (weighted_sum dr_success_rate dr_attempts rows / total dr_attempts rows)
        else None)"
  by (simp add: exercise_success_rate_def total_def weighted_sum_def Let_def)

lemma mean_opt_map_if_Some:
  "mean_opt (map (\<lambda>x. if P x then Some (f x) else None) xs)
     = (if filter P xs = [] then None else Some (arithmetic_mean (map f (filter P xs))))"
  by (simp add: mean_opt_def non_nulls_map_if non_nulls_map_Some arithmetic_mean_def)

lemma balanced_rate_of_group:
  "mean_opt (map eg_exercise_success_rate
      (filter (\<lambda>g. (eg_objective_id g, eg_activity_id g) = (oid, aid))
         (group_by (\<lambda>r. (dr_objective_id r, dr_activity_id r, dr_exercise_id r))
            aggregate_exercise
            (filter (\<lambda>r. in_window mc s e (dr_module_code r) (dr_date_utc r)) frame))))
   = (if exercise_rates mc s e oid aid frame = [] then None
      else Some (arithmetic_mean (exercise_rates mc s e oid aid frame)))"
proof -
  let ?EF = "filter (\<lambda>r. in_window mc s e (dr_module_code r) (dr_date_utc r)) frame"
  let ?key = "\<lambda>r. (dr_objective_id r, dr_activity_id r, dr_exercise_id r)"
  let ?eids = "remdups (map dr_exercise_id (window_rows mc s e oid aid frame))"
  have "map eg_exercise_success_rate
      (filter (\<lambda>g. (eg_objective_id g, eg_activity_id g) = (oid, aid))
         (group_by ?key aggregate_exercise ?EF))
    = map (\<lambda>k. exercise_success_rate (filter (\<lambda>r. ?key r = k) ?EF))
        (filter (\<lambda>k. (fst k, fst (snd k)) = (oid, aid)) (remdups (map ?key ?EF)))"
    by (simp add: group_by_def filter_map comp_def aggregate_exercise_def)
  also have "\<dots> = map (\<lambda>eid. exercise_success_rate (exercise_rows mc s e oid aid eid frame)) ?eids"
    by (simp only: exercise_keys map_map comp_def exercise_rows_filter)
  finally show ?thesis
    by (simp only: exercise_success_rate_spec mean_opt_map_if_Some exercise_rates_def
          map_map comp_def map_is_Nil_conv)
qed

lemma balanced_key:
  "ag_objective_id (aggregate_balanced k groups) = fst k"
  "ag_activity_id (aggregate_balanced k groups) = snd k"
  "ag_exercise_balanced_success_rate (aggregate_balanced k groups)
     = mean_opt (map eg_exercise_success_rate groups)"
  by (simp_all add: aggregate_balanced_def)

lemma balanced_cell_source:
  assumes build: "build_objective_activity_cells fmt daily mc s e
        ''exercise_balanced_success_rate'' maps (Some exercise_frame) fa = Inr cells"
    and c: "c \<in> set cells"
  shows "\<exists>oid aid. cr_objective_id c = str_or_empty oid \<and> cr_activity_id c = str_or_empty aid
     \<and> exercise_rates mc s e oid aid exercise_frame \<noteq> []
     \<and> cr_metric_value c = arithmetic_mean (exercise_rates mc s e oid aid exercise_frame)"
proof -
  let ?metric = "''exercise_balanced_success_rate''"
  let ?filtered = "filter (\<lambda>r. in_window mc s e (dr_module_code r) (dr_date_utc r)) daily"
  let ?EF = "filter (\<lambda>r. in_window mc s e (dr_module_code r) (dr_date_utc r)) exercise_frame"
  let ?key3 = "\<lambda>r. (dr_objective_id r, dr_activity_id r, dr_exercise_id r)"
  let ?key = "\<lambda>g. (eg_objective_id g, eg_activity_id g)"
  let ?G = "group_by ?key3 aggregate_exercise ?EF"
  from cells_source [OF build c] obtain aggregated row where
    ag: "aggregated_rows mc s e ?metric ?filtered (Some exercise_frame) fa = Inr aggregated"
    and row: "row \<in> set aggregated"
    and ids: "cr_objective_id c = str_or_empty (ag_objective_id row)"
      "cr_activity_id c = str_or_empty (ag_activity_id row)"
    and val: "metric_value_of ?metric row = Some (cr_metric_value c)"
    by blast
  have "aggregated = group_by ?key aggregate_balanced ?G"
    using ag by (simp add: aggregated_rows_def)
  with row have "row \<in> set (group_by ?key aggregate_balanced ?G)"
    by simp
  from group_by_member [OF this] obtain g where "g \<in> set ?G"
    and row_eq: "row = aggregate_balanced (?key g) (filter (\<lambda>g'. ?key g' = ?key g) ?G)"
    by (rule bexE)
  let ?oid = "eg_objective_id g" and ?aid = "eg_activity_id g"
  have "ag_exercise_balanced_success_rate row = Some (cr_metric_value c)"
    using val by (simp add: metric_value_of_def)
  then have "mean_opt (map eg_exercise_success_rate
      (filter (\<lambda>g'. ?key g' = (?oid, ?aid)) ?G)) = Some (cr_metric_value c)"
    by (simp only: row_eq balanced_key)
  then have m: "(if exercise_rates mc s e ?oid ?aid exercise_frame = [] then None
      else Some (arithmetic_mean (exercise_rates mc s e ?oid ?aid exercise_frame)))
      = Some (cr_metric_value c)"
    by (simp only: balanced_rate_of_group)
  have ne: "exercise_rates mc s e ?oid ?aid exercise_frame \<noteq> []"
    using m by (auto split: if_splits)
  have v: "cr_metric_value c = arithmetic_mean (exercise_rates mc s e ?oid ?aid exercise_frame)"
    using m ne by simp
  have id1: "cr_objective_id c = str_or_empty ?oid" and id2: "cr_activity_id c = str_or_empty ?aid"
    using ids by (simp_all add: row_eq balanced_key)
  show ?thesis
    apply (rule exI [of _ ?oid])
    apply (rule exI [of _ ?aid])
    apply (intro conjI)
       apply (rule id1)
      apply (rule id2)
     apply (rule ne)
    apply (rule v)
    done
qed

lemma exercise_rates_window:
  "exercise_rates mc s e oid aid frame \<noteq> [] \<Longrightarrow> window_rows mc s e oid aid frame \<noteq> []"
  by (auto simp: exercise_rates_def)

text \<open>
  C5. Every cell that \<open>build_objective_activity_cells\<close> returns for the metric
  \<open>exercise_balanced_success_rate\<close> holds the plain arithmetic mean of the rates of the
  exercises of its objective and activity, where the rate of an exercise is the sum of
  success rate times attempts over its rows of the exercise frame in the module and date
  window, divided by the sum of their attempts (an exercise whose attempts do not sum
  above 0 has no rate and is left out). On the fixture the exercises \<open>e1\<close> (40 attempts,
  rate 29/40) and \<open>e2\<close> (2 attempts, rate 1) give the cell 69/80, which is neither the
  attempts-weighted rate 31/42 of the same exercise rows nor the value 29/40 of the
  \<open>success_rate\<close> cell.
\<close>

theorem balanced_cell_is_plain_mean_of_exercise_rates:
  "(build_objective_activity_cells fmt daily mc s e ''exercise_balanced_success_rate'' maps
        (Some exercise_frame) fa = Inr cells \<and> c \<in> set cells
      \<longrightarrow> (\<exists>oid aid. cr_objective_id c = str_or_empty oid
            \<and> cr_activity_id c = str_or_empty aid
            \<and> exercise_rates mc s e oid aid exercise_frame \<noteq> []
            \<and> cr_metric_value c
                = arithmetic_mean (exercise_rates mc s e oid aid exercise_frame)))
   \<and> map_sum id (map (\<lambda>c. (cr_objective_id c, cr_activity_id c, cr_metric_value c)))
       (build_objective_activity_cells fmt fixture_activity_daily ''M1'' 1 31
          ''exercise_balanced_success_rate'' no_summary (Some fixture_exercise_daily) None)
     = Inr [(''o1'', ''a1'', 69 / 80)]
   \<and> exercise_rates ''M1'' 1 31 (Some ''o1'') (Some ''a1'') fixture_exercise_daily
     = [29 / 40, 1]
   \<and> weighted_sum dr_success_rate dr_attempts
       (window_rows ''M1'' 1 31 (Some ''o1'') (Some ''a1'') fixture_exercise_daily)
     / total dr_attempts
         (window_rows ''M1'' 1 31 (Some ''o1'') (Some ''a1'') fixture_exercise_daily)
     = 31 / 42
   \<and> map_sum id (map (\<lambda>c. (cr_objective_id c, cr_activity_id c, cr_metric_value c)))
       (build_objective_activity_cells fmt fixture_activity_daily ''M1'' 1 31
          ''success_rate'' no_summary None None)
     = Inr [(''o1'', ''a1'', 29 / 40), (''o1'', ''a2'', 0)]"
  apply (intro conjI impI)
      apply (erule conjE)
      apply (erule (1) balanced_cell_source)
     apply (rule fx_balanced)
    apply (rule fx_exercise_rates)
   apply (rule fx_exercise_weighted)
  apply (rule fx_success)
  done

theorem balanced_cell_is_plain_mean_of_exercise_rates_witness:
  "\<exists>cells. build_objective_activity_cells (\<lambda>m v. []) fixture_activity_daily ''M1'' 1 31
        ''exercise_balanced_success_rate'' no_summary (Some fixture_exercise_daily) None
        = Inr cells
     \<and> cr_metric_value (hd cells)
         = arithmetic_mean
             (exercise_rates ''M1'' 1 31 (Some ''o1'') (Some ''a1'') fixture_exercise_daily)
     \<and> cr_metric_value (hd cells) = 69 / 80"
proof -
  let ?b = "build_objective_activity_cells (\<lambda>m v. []) fixture_activity_daily ''M1'' 1 31
        ''exercise_balanced_success_rate'' no_summary (Some fixture_exercise_daily) None"
  from fixture_cells [OF fx_balanced] obtain cells where b: "?b = Inr cells"
    and ne: "cells \<noteq> []"
    and c: "cr_activity_id (hd cells) = ''a1''" "cr_metric_value (hd cells) = 69 / 80"
    by auto
  have mem: "hd cells \<in> set cells" using ne by simp
  from balanced_cell_is_plain_mean_of_exercise_rates [THEN conjunct1, rule_format,
      OF conjI, OF b mem]
  obtain oid aid where
    aid: "cr_activity_id (hd cells) = str_or_empty aid"
    and r: "exercise_rates ''M1'' 1 31 oid aid fixture_exercise_daily \<noteq> []"
    and v: "cr_metric_value (hd cells)
        = arithmetic_mean (exercise_rates ''M1'' 1 31 oid aid fixture_exercise_daily)"
    by auto
  have "window_rows ''M1'' 1 31 oid aid fixture_exercise_daily \<noteq> []"
    using r by (rule exercise_rates_window)
  then have "oid = Some ''o1'' \<and> aid = Some ''a1''"
    using aid c(1) by (intro fixture_window_keys [of oid aid fixture_exercise_daily]) simp_all
  then have wv: "cr_metric_value (hd cells)
      = arithmetic_mean
          (exercise_rates ''M1'' 1 31 (Some ''o1'') (Some ''a1'') fixture_exercise_daily)"
    using v by simp
  show ?thesis
    apply (rule exI [of _ cells])
    apply (intro conjI)
      apply (rule b)
     apply (rule wv)
    apply (rule c(2))
    done
qed

subsection \<open>The mapping source of a reconciled row\<close>

lemma find_unique_from:
  "find (\<lambda>r. key r = k) (unique_from seen key rows)
     = (if k \<in> set seen then None else find (\<lambda>r. key r = k) rows)"
  by (induction rows arbitrary: seen) auto

lemma find_unique_by:
  "find (\<lambda>r. key r = k) (unique_by key rows) = find (\<lambda>r. key r = k) rows"
  by (simp add: unique_by_def find_unique_from)

lemma filter_unique_from:
  "filter (\<lambda>r. key r = k) (unique_from seen key rows)
     = (if k \<in> set seen then []
        else (case find (\<lambda>r. key r = k) rows of None \<Rightarrow> [] | Some r \<Rightarrow> [r]))"
  by (induction rows arbitrary: seen) auto

lemma filter_unique_by:
  "filter (\<lambda>r. key r = k) (unique_by key rows)
     = (case find (\<lambda>r. key r = k) rows of None \<Rightarrow> [] | Some r \<Rightarrow> [r])"
  by (simp add: unique_by_def filter_unique_from)

lemma set_unique_from: "set (unique_from seen key rows) \<subseteq> set rows"
  by (induction rows arbitrary: seen) auto

lemma set_unique_by: "set (unique_by key rows) \<subseteq> set rows"
  by (simp add: unique_by_def set_unique_from)

lemma join_matches_unique:
  "join_matches key (unique_by key right) k
     = [case k of None \<Rightarrow> None | Some v \<Rightarrow> find (\<lambda>r. key r = Some v) right]"
proof (cases k)
  case None
  then show ?thesis by (simp add: join_matches_def)
next
  case (Some v)
  have "filter (\<lambda>r. k \<noteq> None \<and> key r = k) (unique_by key right)
      = filter (\<lambda>r. key r = Some v) (unique_by key right)"
    using Some by simp
  then show ?thesis
    using Some by (simp add: join_matches_def filter_unique_by split: option.splits)
qed

lemma left_join_unique:
  "left_join left_key key left (unique_by key right)
     = map (\<lambda>l. (l, case left_key l of None \<Rightarrow> None
                      | Some v \<Rightarrow> find (\<lambda>r. key r = Some v) right)) left"
  by (induction left) (simp_all add: left_join_def join_matches_unique)

lemma join_matches_member:
  assumes "joined \<in> set (join_matches key right k)"
  shows "(joined = None \<and> filter (\<lambda>r. k \<noteq> None \<and> key r = k) right = [])
     \<or> (\<exists>r \<in> set right. joined = Some r \<and> key r = k \<and> k \<noteq> None)"
proof (cases "filter (\<lambda>r. k \<noteq> None \<and> key r = k) right")
  case Nil
  then show ?thesis using assms by (simp add: join_matches_def)
next
  case (Cons m ms)
  then have "joined \<in> Some ` set (filter (\<lambda>r. k \<noteq> None \<and> key r = k) right)"
    using assms by (simp add: join_matches_def)
  then obtain r where "r \<in> set (filter (\<lambda>r. k \<noteq> None \<and> key r = k) right)"
    and "joined = Some r"
    by (rule imageE)
  then show ?thesis by auto
qed

lemma find_app:
  "find P (xs @ ys) = (case find P xs of None \<Rightarrow> find P ys | Some x \<Rightarrow> Some x)"
  by (induction xs) auto

lemma find_mapped: "find P (map f xs) = map_option f (find (\<lambda>x. P (f x)) xs)"
  by (induction xs) auto

lemma find_exercise_rows:
  "find (\<lambda>item. fst item = x)
     (concat (map (\<lambda>(exercise_id, mapping).
             if py_strip exercise_id = [] then []
             else (case mapping of None \<Rightarrow> [] | Some m \<Rightarrow> [(exercise_id, m)])) eth))
   = (case find (\<lambda>(k, mapping). k = x \<and> py_strip k \<noteq> [] \<and> mapping \<noteq> None) eth of
        None \<Rightarrow> None
      | Some (k, mapping) \<Rightarrow> map_option (Pair k) mapping)"
proof (induction eth)
  case Nil
  then show ?case by simp
next
  case (Cons item eth)
  obtain k mapping where item: "item = (k, mapping)" by (cases item)
  show ?case
    using Cons.IH by (cases mapping) (simp_all add: item find_app)
qed

lemma exercise_row_id: "eh_exercise_id (exercise_hierarchy_row_of item joined) = fst item"
  by (simp add: exercise_hierarchy_row_of_def)

lemma exercise_module_code:
  "column eh_module_code_exercise_summary
     (joined_row eh_exercise_id (exercise_hierarchy_map_from_catalog ah eth)
        (normalized_id_expr (ev_exercise_id event)))
   = exercise_tier ah eth event"
proof (cases "normalized_id_expr (ev_exercise_id event)")
  case None
  then show ?thesis by (simp add: joined_row_def column_def exercise_tier_def)
next
  case (Some x)
  let ?rows = "concat (map (\<lambda>(exercise_id, mapping).
             if py_strip exercise_id = [] then []
             else (case mapping of None \<Rightarrow> [] | Some m \<Rightarrow> [(exercise_id, m)])) eth)"
  let ?G = "\<lambda>item. case em_activity_id (snd item) of None \<Rightarrow> None
      | Some v \<Rightarrow> find (\<lambda>h. h_activity_id h = Some v) ah"
  have "find (\<lambda>r. eh_exercise_id r = x) (exercise_hierarchy_map_from_catalog ah eth)
      = find (\<lambda>r. eh_exercise_id r = x)
          (map (\<lambda>item. exercise_hierarchy_row_of item (?G item)) (unique_by fst ?rows))"
    by (simp add: exercise_hierarchy_map_from_catalog_def Let_def find_unique_by
          left_join_unique comp_def)
  also have "\<dots> = map_option (\<lambda>item. exercise_hierarchy_row_of item (?G item))
      (find (\<lambda>item. fst item = x) (unique_by fst ?rows))"
    by (simp add: find_mapped exercise_row_id)
  also have "find (\<lambda>item. fst item = x) (unique_by fst ?rows)
      = find (\<lambda>item. fst item = x) ?rows"
    by (rule find_unique_by)
  finally have "find (\<lambda>r. eh_exercise_id r = x) (exercise_hierarchy_map_from_catalog ah eth)
      = map_option (\<lambda>item. exercise_hierarchy_row_of item (?G item))
          (case find (\<lambda>(k, mapping). k = x \<and> py_strip k \<noteq> [] \<and> mapping \<noteq> None) eth of
             None \<Rightarrow> None
           | Some (k, mapping) \<Rightarrow> map_option (Pair k) mapping)"
    by (simp only: find_exercise_rows)
  then show ?thesis
    using Some
    by (auto simp: joined_row_def column_def exercise_tier_def recorded_activity_def
          exercise_hierarchy_row_of_def split: option.splits)
qed

lemma find_rules_rows:
  "find (\<lambda>row. fst row = g)
     (concat (map (\<lambda>(graph_id, raw_codes).
         if py_strip graph_id = [] then []
         else (case raw_codes of
                 None \<Rightarrow> []
               | Some codes \<Rightarrow> (case chosen_code codes of
                     None \<Rightarrow> []
                   | Some code \<Rightarrow> [(graph_id, code)]))) itc))
   = (case find (\<lambda>(k, raw_codes). k = g \<and> py_strip k \<noteq> []
                        \<and> (case raw_codes of None \<Rightarrow> False
                            | Some codes \<Rightarrow> chosen_code codes \<noteq> None)) itc of
        None \<Rightarrow> None
      | Some (k, raw_codes) \<Rightarrow> (case raw_codes of None \<Rightarrow> None
            | Some codes \<Rightarrow> map_option (Pair k) (chosen_code codes)))"
proof (induction itc)
  case Nil
  then show ?case by simp
next
  case (Cons item itc)
  obtain k raw_codes where item: "item = (k, raw_codes)" by (cases item)
  show ?case
  proof (cases raw_codes)
    case None
    then show ?thesis using Cons.IH by (simp add: item find_app)
  next
    case (Some codes)
    then show ?thesis
      using Cons.IH by (cases "chosen_code codes") (simp_all add: item find_app)
  qed
qed

lemma graph_code_rules:
  "column (\<lambda>row. Some (snd row))
     (joined_row fst (rules_id_code_frame itc) (normalized_id_expr identifier))
   = rules_code itc identifier"
  by (auto simp: joined_row_def column_def rules_code_def rules_id_code_frame_def
        find_unique_by find_rules_rows split: option.splits)

lemma fallback_module_code:
  "extract_module_code (fallback_code_raw (rules_id_code_frame itc) event) = rules_tier itc event"
  by (simp add: fallback_code_raw_def rules_tier_def graph_code_rules Let_def)

lemma mapping_source_first_tier:
  "(mapping_source t1 t2 t3, coalesce [t1, t2, t3]) = first_tier t1 t2 t3"
  by (simp add: mapping_source_def first_tier_def Let_def split: option.splits)

lemma reconciled_tiers:
  "(rr_mapping_source (reconciled (exercise_hierarchy_map_from_catalog ah eth)
        (rules_id_code_frame itc) mcd event joined),
    rr_module_code (reconciled (exercise_hierarchy_map_from_catalog ah eth)
        (rules_id_code_frame itc) mcd event joined))
   = first_tier (column h_module_code joined) (exercise_tier ah eth event)
       (rules_tier itc event)"
  by (simp add: reconciled_def Let_def exercise_module_code fallback_module_code
        mapping_source_first_tier del: coalesce.simps)

lemma set_unique_from_rows:
  "set (unique_from seen (\<lambda>row. row) rows) = set rows - set seen"
  by (induction rows arbitrary: seen) auto

lemma set_hierarchy_map: "set (hierarchy_map_from_catalog ah) = set ah"
  by (simp add: hierarchy_map_from_catalog_def unique_by_def set_unique_from_rows)

lemma hierarchy_match_tier:
  assumes "joined \<in> set (join_matches h_activity_id (hierarchy_map_from_catalog ah)
      (normalized_id_expr (ev_activity_id event)))"
  shows "column h_module_code joined \<in> set (activity_tier ah event)"
proof -
  let ?a = "normalized_id_expr (ev_activity_id event)"
  let ?P = "\<lambda>h. ?a \<noteq> None \<and> h_activity_id h = ?a"
  from join_matches_member [OF assms]
  show ?thesis
  proof
    assume "joined = None \<and> filter ?P (hierarchy_map_from_catalog ah) = []"
    then have none: "joined = None" and "\<forall>h \<in> set (hierarchy_map_from_catalog ah). \<not> ?P h"
      by (simp_all add: filter_empty_conv)
    then have "filter ?P ah = []"
      by (simp add: filter_empty_conv set_hierarchy_map)
    then show ?thesis
      using none by (simp add: activity_tier_def column_def)
  next
    assume "\<exists>h \<in> set (hierarchy_map_from_catalog ah).
      joined = Some h \<and> h_activity_id h = ?a \<and> ?a \<noteq> None"
    then obtain h where h: "h \<in> set ah" "joined = Some h" "?P h"
      by (auto simp: set_hierarchy_map)
    define rows where "rows = filter ?P ah"
    have mem: "h \<in> set rows" using h(1,3) by (simp add: rows_def)
    then obtain x xs where ne: "rows = x # xs" by (cases rows) auto
    have "activity_tier ah event
        = (case rows of [] \<Rightarrow> [None] | y # ys \<Rightarrow> map h_module_code (y # ys))"
      unfolding activity_tier_def rows_def ..
    then have "activity_tier ah event = map h_module_code rows"
      by (simp add: ne)
    moreover have "h_module_code h \<in> set (map h_module_code rows)"
      using mem by simp
    ultimately show ?thesis
      using h(2) by (simp add: column_def)
  qed
qed

lemma left_join_append:
  "left_join lk rk (xs @ ys) right = left_join lk rk xs right @ left_join lk rk ys right"
  by (simp add: left_join_def)

lemma left_join_member:
  "(l, m) \<in> set (left_join lk rk left right) \<Longrightarrow>
     l \<in> set left \<and> m \<in> set (join_matches rk right (lk l))"
  by (auto simp: left_join_def)

lemma build_append:
  "build_fact_attempt_core ah eth itc ctm None (xs @ ys)
     = build_fact_attempt_core ah eth itc ctm None xs
       @ build_fact_attempt_core ah eth itc ctm None ys"
  by (simp add: build_fact_attempt_core_def Let_def left_join_append)

lemma build_row_source:
  assumes "r \<in> set (build_fact_attempt_core ah eth itc ctm sample_rows events)"
  shows "\<exists>event \<in> set (case sample_rows of None \<Rightarrow> events | Some n \<Rightarrow> take n events).
     \<exists>tier \<in> set (activity_tier ah event).
       rr_exercise_id r = normalized_id_expr (ev_exercise_id event)
       \<and> rr_playlist_or_module_id r = normalized_id_expr (ev_playlist_or_module_id event)
       \<and> (rr_mapping_source r, rr_module_code r)
           = first_tier tier (exercise_tier ah eth event) (rules_tier itc event)"
proof -
  let ?lf = "case sample_rows of None \<Rightarrow> events | Some n \<Rightarrow> take n events"
  let ?F = "\<lambda>event joined. reconciled (exercise_hierarchy_map_from_catalog ah eth)
      (rules_id_code_frame itc) (module_code_frame ctm) event joined"
  from assms obtain p where p: "p \<in> set (left_join
        (\<lambda>event. normalized_id_expr (ev_activity_id event)) h_activity_id ?lf
        (hierarchy_map_from_catalog ah))"
    and r: "r = ?F (fst p) (snd p)"
    by (auto simp: build_fact_attempt_core_def Let_def split: prod.splits)
  obtain event joined where pe: "p = (event, joined)" by (cases p)
  from left_join_member [OF p [unfolded pe]]
  have ev: "event \<in> set ?lf"
    and j: "joined \<in> set (join_matches h_activity_id (hierarchy_map_from_catalog ah)
        (normalized_id_expr (ev_activity_id event)))"
    by simp_all
  have tier: "column h_module_code joined \<in> set (activity_tier ah event)"
    using j by (rule hierarchy_match_tier)
  have r': "r = ?F event joined" using r pe by simp
  have ids: "rr_exercise_id r = normalized_id_expr (ev_exercise_id event)"
    "rr_playlist_or_module_id r = normalized_id_expr (ev_playlist_or_module_id event)"
    by (simp_all add: r' reconciled_def Let_def)
  have ft: "(rr_mapping_source r, rr_module_code r)
      = first_tier (column h_module_code joined) (exercise_tier ah eth event)
          (rules_tier itc event)"
    unfolding r' by (rule reconciled_tiers)
  show ?thesis
    apply (rule bexI [OF _ ev])
    apply (rule bexI [OF _ tier])
    apply (intro conjI)
      apply (rule ids(1))
     apply (rule ids(2))
    apply (rule ft)
    done
qed

lemma join_matches_nonempty: "join_matches key right k \<noteq> []"
  by (simp add: join_matches_def split: list.splits)

lemma left_join_intro:
  "l \<in> set left \<Longrightarrow> m \<in> set (join_matches rk right (lk l)) \<Longrightarrow>
     (l, m) \<in> set (left_join lk rk left right)"
  by (auto simp: left_join_def)

lemma build_event_rows:
  assumes "event \<in> set (case sample_rows of None \<Rightarrow> events | Some n \<Rightarrow> take n events)"
  shows "\<exists>r \<in> set (build_fact_attempt_core ah eth itc ctm sample_rows events).
     \<exists>tier \<in> set (activity_tier ah event).
       rr_exercise_id r = normalized_id_expr (ev_exercise_id event)
       \<and> rr_playlist_or_module_id r = normalized_id_expr (ev_playlist_or_module_id event)
       \<and> (rr_mapping_source r, rr_module_code r)
           = first_tier tier (exercise_tier ah eth event) (rules_tier itc event)"
proof -
  let ?lf = "case sample_rows of None \<Rightarrow> events | Some n \<Rightarrow> take n events"
  let ?F = "\<lambda>event joined. reconciled (exercise_hierarchy_map_from_catalog ah eth)
      (rules_id_code_frame itc) (module_code_frame ctm) event joined"
  let ?ms = "join_matches h_activity_id (hierarchy_map_from_catalog ah)
      (normalized_id_expr (ev_activity_id event))"
  define joined where "joined = hd ?ms"
  have j: "joined \<in> set ?ms"
    unfolding joined_def by (rule hd_in_set) (rule join_matches_nonempty)
  have "(event, joined) \<in> set (left_join
        (\<lambda>event. normalized_id_expr (ev_activity_id event)) h_activity_id ?lf
        (hierarchy_map_from_catalog ah))"
    using assms j by (rule left_join_intro)
  then have "(\<lambda>(event, joined). ?F event joined) (event, joined)
      \<in> set (build_fact_attempt_core ah eth itc ctm sample_rows events)"
    unfolding build_fact_attempt_core_def Let_def set_map by (rule imageI)
  then have mem: "?F event joined \<in> set (build_fact_attempt_core ah eth itc ctm sample_rows events)"
    by simp
  have tier: "column h_module_code joined \<in> set (activity_tier ah event)"
    using j by (rule hierarchy_match_tier)
  have ids: "rr_exercise_id (?F event joined) = normalized_id_expr (ev_exercise_id event)"
    "rr_playlist_or_module_id (?F event joined)
       = normalized_id_expr (ev_playlist_or_module_id event)"
    by (simp_all add: reconciled_def Let_def)
  have ft: "(rr_mapping_source (?F event joined), rr_module_code (?F event joined))
      = first_tier (column h_module_code joined) (exercise_tier ah eth event)
          (rules_tier itc event)"
    by (rule reconciled_tiers)
  show ?thesis
    apply (rule bexI [OF _ mem])
    apply (rule bexI [OF _ tier])
    apply (intro conjI)
      apply (rule ids(1))
     apply (rule ids(2))
    apply (rule ft)
    done
qed

lemma build_exercise_event:
  assumes "normalized_id_expr (ev_activity_id event) = None"
    and "exercise_tier ah eth event = Some c"
  shows "\<exists>r. build_fact_attempt_core ah eth itc ctm None (pre @ event # post)
        = build_fact_attempt_core ah eth itc ctm None pre
          @ r # build_fact_attempt_core ah eth itc ctm None post
      \<and> rr_mapping_source r = ''catalog_exercise'' \<and> rr_module_code r = Some c"
proof -
  let ?r = "reconciled (exercise_hierarchy_map_from_catalog ah eth)
      (rules_id_code_frame itc) (module_code_frame ctm) event None"
  have one: "build_fact_attempt_core ah eth itc ctm None [event] = [?r]"
    using assms(1)
    by (simp add: build_fact_attempt_core_def Let_def left_join_def join_matches_def)
  have "build_fact_attempt_core ah eth itc ctm None (pre @ [event] @ post)
      = build_fact_attempt_core ah eth itc ctm None pre
        @ [?r] @ build_fact_attempt_core ah eth itc ctm None post"
    by (simp only: build_append one)
  then have eq: "build_fact_attempt_core ah eth itc ctm None (pre @ event # post)
      = build_fact_attempt_core ah eth itc ctm None pre
        @ ?r # build_fact_attempt_core ah eth itc ctm None post"
    by simp
  have "(rr_mapping_source ?r, rr_module_code ?r)
      = first_tier None (exercise_tier ah eth event) (rules_tier itc event)"
    using reconciled_tiers [of ah eth itc "module_code_frame ctm" event None]
    by (simp add: column_def)
  then have src: "rr_mapping_source ?r = ''catalog_exercise''" "rr_module_code ?r = Some c"
    using assms(2) by (simp_all add: first_tier_def column_def)
  show ?thesis
    apply (rule exI [of _ ?r])
    apply (intro conjI)
      apply (rule eq)
     apply (rule src(1))
    apply (rule src(2))
    done
qed

lemma fact_fixture_prims:
  "normalized_id_expr (Some ''None'') = None"
  "normalized_id_expr (Some ''ex-1'') = Some ''ex-1''"
  "normalized_id_expr (Some ''playlist-1'') = Some ''playlist-1''"
  "normalized_id_expr (Some ''m1'') = Some ''m1''"
  "py_strip ''ex-1'' = ''ex-1''" "py_strip ''m1'' = ''m1''" "py_strip ''o1'' = ''o1''"
  "py_strip ''a1'' = ''a1''" "py_strip ''M1'' = ''M1''" "py_strip ''M1O1'' = ''M1O1''"
  "py_strip ''M1O1A1'' = ''M1O1A1''"
  "chosen_code [Some ''M1''] = Some ''M1''" "chosen_code [Some ''M1O1''] = Some ''M1O1''"
  "chosen_code [Some ''M1O1A1''] = Some ''M1O1A1''"
  "eat_module ''M1'' = Some (''M1'', [])" "eat_module ''M1O1'' = Some (''M1'', ''O1'')"
  "eat_module ''M1O1A1'' = Some (''M1'', ''O1A1'')"
  by code_simp+

lemmas fact_fixture_defs = build_fact_attempt_core_def hierarchy_map_from_catalog_def
  exercise_hierarchy_map_from_catalog_def exercise_hierarchy_row_of_def
  rules_id_code_frame_def module_code_frame_def unique_by_def left_join_def
  join_matches_def joined_row_def column_def extract_module_code_def fallback_code_raw_def
  mapping_source_def reconciled_def fixture_hierarchy_def fixture_exercise_to_hierarchy_def
  fixture_id_to_codes_def fixture_code_to_id_def fixture_event_def Let_def

lemma ex_fact_resolved:
  "build_fact_attempt_core fixture_hierarchy (fixture_exercise_to_hierarchy ''a1'')
     fixture_id_to_codes fixture_code_to_id None [fixture_event ''playlist-1'', fixture_event ''m1'']
   = [\<lparr>rr_playlist_or_module_id = Some ''playlist-1'', rr_exercise_id = Some ''ex-1'',
        rr_module_id = Some ''m1'', rr_module_code = Some ''M1'',
        rr_mapping_source = ''catalog_exercise'', rr_fallback_code_raw = None\<rparr>,
      \<lparr>rr_playlist_or_module_id = Some ''m1'', rr_exercise_id = Some ''ex-1'',
        rr_module_id = Some ''m1'', rr_module_code = Some ''M1'',
        rr_mapping_source = ''catalog_exercise'', rr_fallback_code_raw = Some ''M1''\<rparr>]"
  by (simp add: fact_fixture_defs fact_fixture_prims)

lemma ex_fact_unresolved:
  "build_fact_attempt_core fixture_hierarchy (fixture_exercise_to_hierarchy ''aX'')
     fixture_id_to_codes fixture_code_to_id None [fixture_event ''playlist-1'', fixture_event ''m1'']
   = [\<lparr>rr_playlist_or_module_id = Some ''playlist-1'', rr_exercise_id = Some ''ex-1'',
        rr_module_id = Some ''m1'', rr_module_code = None,
        rr_mapping_source = ''unmapped'', rr_fallback_code_raw = None\<rparr>,
      \<lparr>rr_playlist_or_module_id = Some ''m1'', rr_exercise_id = Some ''ex-1'',
        rr_module_id = Some ''m1'', rr_module_code = Some ''M1'',
        rr_mapping_source = ''rules_code_fallback'', rr_fallback_code_raw = Some ''M1''\<rparr>]"
  by (simp add: fact_fixture_defs fact_fixture_prims)

lemma ex_fact_tiers:
  "normalized_id_expr (ev_activity_id (fixture_event p)) = None"
  "normalized_id_expr (ev_objective_id (fixture_event p)) = None"
  "exercise_tier fixture_hierarchy (fixture_exercise_to_hierarchy ''a1'') (fixture_event p)
     = Some ''M1''"
  "exercise_tier fixture_hierarchy (fixture_exercise_to_hierarchy ''aX'') (fixture_event p)
     = None"
  "recorded_activity (fixture_exercise_to_hierarchy ''aX'') ''ex-1'' = Some ''aX''"
  "rules_tier fixture_id_to_codes (fixture_event ''m1'') = Some ''M1''"
  by (simp_all add: exercise_tier_def recorded_activity_def rules_tier_def rules_code_def
        extract_module_code_def fixture_hierarchy_def fixture_exercise_to_hierarchy_def
        fixture_id_to_codes_def fixture_event_def fact_fixture_prims)

lemma build_no_events: "build_fact_attempt_core ah eth itc ctm None [] = []"
  by (simp add: build_fact_attempt_core_def left_join_def)

text \<open>
  C1. Every row of the reconciled table comes from an event of the (sampled) raw table
  and a module code that the catalog hierarchy gives for the activity of the event, and
  every such event has a row. In the row \<open>mapping_source\<close> names the first tier, in the
  order \<open>catalog_activity\<close>, \<open>catalog_exercise\<close>, \<open>rules_code_fallback\<close>, that gives a
  module code, and that code is the \<open>module_code\<close> of the row; when no tier gives one, the
  row is \<open>unmapped\<close> and has no module code. In particular an event whose \<open>activity_id\<close>
  is null or a placeholder, and for whose exercise \<open>exercise_to_hierarchy\<close> records an
  activity for which the catalog hierarchy has a module code, gives exactly one row, with
  \<open>mapping_source = catalog_exercise\<close> and that module code, whatever the rules tier
  finds for its identifiers.
\<close>

theorem mapping_source_names_first_tier_with_module_code:
  "(\<forall>r \<in> set (build_fact_attempt_core ah eth itc ctm sample_rows events).
      \<exists>event \<in> set (case sample_rows of None \<Rightarrow> events | Some n \<Rightarrow> take n events).
      \<exists>tier \<in> set (activity_tier ah event).
        rr_exercise_id r = normalized_id_expr (ev_exercise_id event)
        \<and> rr_playlist_or_module_id r = normalized_id_expr (ev_playlist_or_module_id event)
        \<and> (rr_mapping_source r, rr_module_code r)
            = first_tier tier (exercise_tier ah eth event) (rules_tier itc event))
   \<and> (\<forall>event \<in> set (case sample_rows of None \<Rightarrow> events | Some n \<Rightarrow> take n events).
      \<exists>r \<in> set (build_fact_attempt_core ah eth itc ctm sample_rows events).
      \<exists>tier \<in> set (activity_tier ah event).
        rr_exercise_id r = normalized_id_expr (ev_exercise_id event)
        \<and> rr_playlist_or_module_id r = normalized_id_expr (ev_playlist_or_module_id event)
        \<and> (rr_mapping_source r, rr_module_code r)
            = first_tier tier (exercise_tier ah eth event) (rules_tier itc event))
   \<and> (normalized_id_expr (ev_activity_id e) = None \<and> exercise_tier ah eth e = Some c
        \<longrightarrow> (\<exists>r. build_fact_attempt_core ah eth itc ctm None (pre @ e # post)
                  = build_fact_attempt_core ah eth itc ctm None pre
                    @ r # build_fact_attempt_core ah eth itc ctm None post
                \<and> rr_mapping_source r = ''catalog_exercise'' \<and> rr_module_code r = Some c))"
  apply (intro conjI ballI impI)
    apply (erule build_row_source)
   apply (erule build_event_rows)
  apply (erule conjE)
  apply (erule (1) build_exercise_event)
  done

text \<open>
  With the payloads of the test, but \<open>exercise_to_hierarchy\<close> recording for \<open>ex-1\<close> an
  activity \<open>aX\<close> that the catalog hierarchy does not have: the exercise of the two events
  is present in \<open>exercise_to_hierarchy\<close> and their activity and objective are null, yet
  the first row is \<open>unmapped\<close>, with the module identifier \<open>m1\<close> that the exercise
  records, and the second, whose playlist-or-module identifier the rules resolve, is
  \<open>rules_code_fallback\<close>.
\<close>

theorem exercise_without_module_code_counterexample:
  "build_fact_attempt_core fixture_hierarchy (fixture_exercise_to_hierarchy ''aX'')
     fixture_id_to_codes fixture_code_to_id None [fixture_event ''playlist-1'', fixture_event ''m1'']
   = [\<lparr>rr_playlist_or_module_id = Some ''playlist-1'', rr_exercise_id = Some ''ex-1'',
        rr_module_id = Some ''m1'', rr_module_code = None,
        rr_mapping_source = ''unmapped'', rr_fallback_code_raw = None\<rparr>,
      \<lparr>rr_playlist_or_module_id = Some ''m1'', rr_exercise_id = Some ''ex-1'',
        rr_module_id = Some ''m1'', rr_module_code = Some ''M1'',
        rr_mapping_source = ''rules_code_fallback'', rr_fallback_code_raw = Some ''M1''\<rparr>]
   \<and> recorded_activity (fixture_exercise_to_hierarchy ''aX'') ''ex-1'' = Some ''aX''
   \<and> normalized_id_expr (ev_activity_id (fixture_event ''playlist-1'')) = None
   \<and> normalized_id_expr (ev_objective_id (fixture_event ''playlist-1'')) = None
   \<and> normalized_id_expr (ev_activity_id (fixture_event ''m1'')) = None
   \<and> normalized_id_expr (ev_objective_id (fixture_event ''m1'')) = None"
  by (simp add: ex_fact_unresolved ex_fact_tiers)

theorem mapping_source_names_first_tier_with_module_code_witness:
  "(\<exists>r. build_fact_attempt_core fixture_hierarchy (fixture_exercise_to_hierarchy ''a1'')
         fixture_id_to_codes fixture_code_to_id None [fixture_event ''m1''] = [r]
       \<and> rr_mapping_source r = ''catalog_exercise'' \<and> rr_module_code r = Some ''M1'')
   \<and> rules_tier fixture_id_to_codes (fixture_event ''m1'') = Some ''M1''
   \<and> (\<exists>event \<in> set [fixture_event ''playlist-1'', fixture_event ''m1''].
       \<exists>tier \<in> set (activity_tier fixture_hierarchy event).
         Some ''ex-1'' = normalized_id_expr (ev_exercise_id event)
         \<and> Some ''playlist-1'' = normalized_id_expr (ev_playlist_or_module_id event)
         \<and> (''catalog_exercise'', Some ''M1'')
           = first_tier tier
               (exercise_tier fixture_hierarchy (fixture_exercise_to_hierarchy ''a1'') event)
               (rules_tier fixture_id_to_codes event))"
proof -
  have "\<exists>r. build_fact_attempt_core fixture_hierarchy (fixture_exercise_to_hierarchy ''a1'')
         fixture_id_to_codes fixture_code_to_id None ([] @ fixture_event ''m1'' # [])
       = build_fact_attempt_core fixture_hierarchy (fixture_exercise_to_hierarchy ''a1'')
           fixture_id_to_codes fixture_code_to_id None []
         @ r # build_fact_attempt_core fixture_hierarchy (fixture_exercise_to_hierarchy ''a1'')
           fixture_id_to_codes fixture_code_to_id None []
       \<and> rr_mapping_source r = ''catalog_exercise'' \<and> rr_module_code r = Some ''M1''"
    by (rule mapping_source_names_first_tier_with_module_code
          [THEN conjunct2, THEN conjunct2, rule_format])
      (simp add: ex_fact_tiers)
  then have one: "\<exists>r. build_fact_attempt_core fixture_hierarchy
         (fixture_exercise_to_hierarchy ''a1'') fixture_id_to_codes fixture_code_to_id None
         [fixture_event ''m1''] = [r]
       \<and> rr_mapping_source r = ''catalog_exercise'' \<and> rr_module_code r = Some ''M1''"
    by (simp add: build_no_events)
  let ?rows = "build_fact_attempt_core fixture_hierarchy (fixture_exercise_to_hierarchy ''a1'')
      fixture_id_to_codes fixture_code_to_id None
      [fixture_event ''playlist-1'', fixture_event ''m1'']"
  have "hd ?rows \<in> set ?rows"
    by (simp add: ex_fact_resolved)
  from mapping_source_names_first_tier_with_module_code [THEN conjunct1, THEN bspec, OF this]
  have two: "\<exists>event \<in> set [fixture_event ''playlist-1'', fixture_event ''m1''].
       \<exists>tier \<in> set (activity_tier fixture_hierarchy event).
         Some ''ex-1'' = normalized_id_expr (ev_exercise_id event)
         \<and> Some ''playlist-1'' = normalized_id_expr (ev_playlist_or_module_id event)
         \<and> (''catalog_exercise'', Some ''M1'')
           = first_tier tier
               (exercise_tier fixture_hierarchy (fixture_exercise_to_hierarchy ''a1'') event)
               (rules_tier fixture_id_to_codes event)"
    by (simp add: ex_fact_resolved)
  show ?thesis
    apply (intro conjI)
      apply (rule one)
     apply (rule ex_fact_tiers)
    apply (rule two)
    done
qed

end
